theory Spec2Isabelle
  imports Complex_Main
begin

section \<open>Number model and exceptions\<close>

text \<open>
  The program computes with Python and numpy floating-point numbers. The embedding reads
  every \<open>float\<close> as a real number and every Python \<open>int\<close> as an integer: rounding,
  overflow and the non-finite values \<open>inf\<close> and \<open>nan\<close> are outside the model.

  Two divisions occur in the source. A division of two Python numbers raises
  \<open>ZeroDivisionError\<close> on a zero divisor; it is written \<open>pydiv\<close> and is a branch of the
  model. A division in which an operand is a numpy scalar (a value that came out of
  \<open>np.sqrt\<close>, \<open>np.sin\<close>, \<open>np.tan\<close>, an array element or \<open>np.interp\<close>) never raises; it is
  written with the plain \<open>/\<close> of the reals, and statements about its value carry the
  hypothesis that the divisor is not zero wherever that matters.
\<close>

datatype error = KeyError int | ZeroDivisionError | IndexError | NameError

definition pydiv :: "real \<Rightarrow> real \<Rightarrow> error + real" where
  "pydiv a b = (if b = 0 then Inl ZeroDivisionError else Inr (a / b))"

definition ebind :: "error + 'a \<Rightarrow> ('a \<Rightarrow> error + 'b) \<Rightarrow> error + 'b" where
  "ebind m f = (case m of Inl e \<Rightarrow> Inl e | Inr x \<Rightarrow> f x)"

section \<open>SteelDataTables\<close>

definition B_data :: "real list" where
  "B_data =
    [0.40, 0.45, 0.50, 0.55, 0.60, 0.65, 0.70, 0.75, 0.80, 0.85,
     0.90, 0.95, 1.00, 1.05, 1.10, 1.15, 1.20, 1.25, 1.30, 1.35,
     1.40, 1.45, 1.50, 1.55, 1.60, 1.65, 1.70, 1.75, 1.80, 1.85,
     1.90, 1.95, 2.00, 2.05, 2.10, 2.15, 2.20]"

definition H_data :: "int \<Rightarrow> real list option" where
  "H_data k =
    (if k = 1 then Some
      [75, 88, 102, 118, 135, 155, 178, 205, 236, 272,
       314, 363, 420, 486, 563, 653, 758, 880, 1023, 1190,
       1385, 1614, 1882, 2196, 2564, 2995, 3500, 4092, 4785, 5595,
       6540, 7642, 8925, 10420, 12160, 14180, 16530]
     else if k = 2 then Some
      [70, 82, 95, 110, 127, 146, 168, 193, 222, 255,
       293, 337, 388, 447, 516, 596, 689, 798, 925, 1073,
       1246, 1447, 1682, 1955, 2272, 2639, 3065, 3559, 4132, 4796,
       5565, 6453, 7477, 8658, 10020, 11590, 13400]
     else if k = 3 then Some
      [78, 92, 107, 124, 143, 164, 188, 216, 247, 283,
       324, 371, 425, 488, 561, 646, 745, 860, 994, 1150,
       1331, 1540, 1782, 2062, 2386, 2760, 3193, 3693, 4272, 4942,
       5718, 6616, 7655, 8856, 10245, 11850, 13700]
     else if k = 4 then Some
      [85, 100, 117, 136, 157, 181, 208, 239, 274, 314,
       360, 413, 474, 544, 625, 719, 828, 954, 1100, 1268,
       1462, 1686, 1945, 2244, 2590, 2989, 3450, 3982, 4596, 5305,
       6123, 7068, 8160, 9424, 10885, 12575, 14530]
     else if k = 5 then Some
      [80, 95, 110, 125, 140, 160, 180, 200, 225, 250,
       280, 315, 355, 400, 450, 510, 580, 660, 750, 850,
       970, 1100, 1250, 1420, 1620, 1840, 2100, 2400, 2750, 3150,
       3600, 4100, 4700, 5400, 6200, 7100, 8100]
     else None)"

definition P_data :: "int \<Rightarrow> real list option" where
  "P_data k =
    (if k = 1 then Some
      [0.4, 0.6, 0.8, 1.0, 1.3, 1.6, 2.0, 2.5, 3.1, 3.8,
       4.6, 5.5, 6.6, 7.9, 9.4, 11.2, 13.3, 15.7, 18.5, 21.7,
       25.4, 29.6, 34.4, 39.9, 46.2, 53.3, 61.4, 70.5, 80.8, 92.4,
       105.5, 120.2, 136.8, 155.5, 176.5, 200.2, 226.8]
     else if k = 2 then Some
      [0.3, 0.5, 0.7, 0.9, 1.2, 1.5, 1.9, 2.4, 2.9, 3.6,
       4.3, 5.2, 6.2, 7.4, 8.8, 10.4, 12.3, 14.5, 17.0, 19.9,
       23.2, 27.0, 31.3, 36.2, 41.8, 48.2, 55.4, 63.6, 72.8, 83.2,
       94.9, 108.1, 122.9, 139.5, 158.2, 179.2, 202.8]
     else if k = 3 then Some
      [0.45, 0.65, 0.85, 1.1, 1.4, 1.7, 2.1, 2.6, 3.2, 3.9,
       4.7, 5.6, 6.7, 8.0, 9.5, 11.3, 13.4, 15.8, 18.6, 21.8,
       25.5, 29.7, 34.5, 40.0, 46.3, 53.4, 61.5, 70.7, 81.1, 92.8,
       106.0, 120.8, 137.4, 156.0, 176.8, 200.1, 226.2]
     else if k = 4 then Some
      [0.5, 0.7, 0.9, 1.2, 1.5, 1.9, 2.3, 2.8, 3.4, 4.1,
       4.9, 5.8, 6.9, 8.2, 9.7, 11.5, 13.6, 16.0, 18.8, 22.0,
       25.7, 29.9, 34.7, 40.2, 46.5, 53.7, 61.9, 71.2, 81.7, 93.6,
       107.0, 122.1, 139.0, 158.0, 179.3, 203.2, 230.0]
     else if k = 5 then Some
      [0.5, 0.7, 0.9, 1.2, 1.5, 1.9, 2.4, 3.0, 3.7, 4.5,
       5.4, 6.5, 7.8, 9.3, 11.0, 12.9, 15.1, 17.6, 20.4, 23.6,
       27.2, 31.2, 35.7, 40.7, 46.2, 52.3, 59.0, 66.3, 74.3, 83.0,
       92.5, 102.8, 114.0, 126.1, 139.2, 153.3, 168.5]
     else None)"

text \<open>
  \<open>np.interp\<close> is numpy's, not the repository's: for an ascending grid it returns the first
  ordinate left of the grid, the last ordinate right of it, and on the segment
  \<open>x0 \<le> x < x1\<close> the value \<open>(y1 - y0) / (x1 - x0) * (x - x0) + y0\<close>.
\<close>

fun np_interp :: "real \<Rightarrow> real list \<Rightarrow> real list \<Rightarrow> real" where
  "np_interp x (x0 # x1 # xs) (y0 # y1 # ys) =
     (if x \<le> x0 then y0
      else if x < x1 then (y1 - y0) / (x1 - x0) * (x - x0) + y0
      else np_interp x (x1 # xs) (y1 # ys))"
| "np_interp x [x0] (y0 # ys) = y0"
| "np_interp x xs ys = 0"

text \<open>\<open>x_data[0]\<close> and \<open>x_data[-1]\<close> raise IndexError on an empty sequence.\<close>

definition linear_interpolation :: "real list \<Rightarrow> real list \<Rightarrow> real \<Rightarrow> error + real" where
  "linear_interpolation x_data y_data x =
     (if x_data = [] \<or> y_data = [] then Inl IndexError
      else if x \<le> hd x_data then Inr (hd y_data)
      else if x \<ge> last x_data then Inr (last y_data)
      else Inr (np_interp x x_data y_data))"

definition get_BH_curve :: "real \<Rightarrow> int \<Rightarrow> error + real" where
  "get_BH_curve B steel_type =
     (case H_data steel_type of
        None \<Rightarrow> Inl (KeyError steel_type)
      | Some ys \<Rightarrow> linear_interpolation B_data ys B)"

definition get_iron_loss :: "real \<Rightarrow> int \<Rightarrow> error + real" where
  "get_iron_loss B steel_type =
     (case P_data steel_type of
        None \<Rightarrow> Inl (KeyError steel_type)
      | Some ys \<Rightarrow> linear_interpolation B_data ys B)"

section \<open>SlotLeakageCalculator\<close>

text \<open>
  The caller passes Python floats only, so every division of \<open>calculate_slot_leakage\<close>
  raises on a zero divisor. \<open>PAI\<close> is \<open>np.pi\<close>, a Python float.
\<close>

definition calculate_slot_leakage ::
  "int \<Rightarrow> real \<Rightarrow> real \<Rightarrow> real \<Rightarrow> real \<Rightarrow> real \<Rightarrow> real \<Rightarrow> real \<Rightarrow> real \<Rightarrow> real \<Rightarrow> real \<Rightarrow> real
     \<Rightarrow> error + real" where
  "calculate_slot_leakage CX h02 b02 h2 d1 d2 h22 QSX B12 KRS1 KRS2 KRS3 =
     (if CX = 1 then
        (if \<bar>B12 - 1.0\<bar> \<le> 1 / 10 ^ 4 then
           ebind (pydiv (4.0 * QSX ^ 3 / 3.0 + 3.0 * pi * QSX\<^sup>2 / 2.0 + 4.816 * QSX + 1.5377)
                        ((2.0 * QSX + pi / 2.0)\<^sup>2)) (\<lambda>u.
           ebind (pydiv h02 b02) (\<lambda>v. Inr (u + v)))
         else
           ebind (pydiv (pi * (1.0 + B12\<^sup>2)) (8.0 * QSX)) (\<lambda>w.
           ebind (pydiv (QSX * (KRS1 + KRS2 + KRS3)) ((w + (1.0 + B12) / 2.0)\<^sup>2)) (\<lambda>u.
           ebind (pydiv h02 b02) (\<lambda>v. Inr (u + v)))))
      else if CX = 2 then
        ebind (pydiv h2 d1) (\<lambda>u.
        ebind (pydiv (2.0 * h22) (3.0 * (d1 + d2))) (\<lambda>w.
        ebind (pydiv h02 b02) (\<lambda>v. Inr (u + w + v))))
      else if CX = 3 then
        ebind (pydiv h02 b02) (\<lambda>v. Inr (0.623 + v))
      else if CX = 4 then
        (if \<bar>B12 - 1.0\<bar> \<le> 1 / 10 ^ 4 then
           ebind (pydiv (pi\<^sup>2 * QSX / 16.0 + pi * QSX\<^sup>2 / 2.0 + 4.0 * QSX ^ 3 / 3.0)
                        ((2.0 * QSX + pi / 4.0)\<^sup>2)) (\<lambda>u.
           ebind (pydiv h02 b02) (\<lambda>v.
           ebind (pydiv (2.0 * h2) (b02 + d1)) (\<lambda>w. Inr (u + v + w))))
         else
           ebind (pydiv pi (8.0 * QSX)) (\<lambda>z.
           ebind (pydiv (QSX * (KRS1 + KRS2)) ((z + (1.0 + B12) / 2.0)\<^sup>2)) (\<lambda>u.
           ebind (pydiv h02 b02) (\<lambda>v.
           ebind (pydiv (2.0 * h2) (b02 + d1)) (\<lambda>w. Inr (u + v + w))))))
      else
        pydiv h02 b02)"

section \<open>MotorParameters\<close>

text \<open>
  The dataclass of the input parameters: \<open>float\<close> fields are reals, \<open>int\<close> fields are
  integers, \<open>str\<close> fields are strings. The field \<open>UN\<close> of the source is \<open>UN_rated\<close> here.
\<close>

record MotorParameters =
  PN :: real
  UN_rated :: real
  m :: int
  f :: real
  p :: int
  cosfi :: real
  eff :: real
  Tpo :: real
  Ist :: real
  Tst :: real
  D1 :: real
  Di1 :: real
  La :: real
  g :: real
  g12 :: real
  Q1 :: int
  Q2 :: int
  Di2 :: real
  b01 :: real
  h01 :: real
  b1 :: real
  ALFA1 :: real
  R1 :: real
  h12 :: real
  sks :: string
  Lv :: int
  b02 :: real
  h02 :: real
  br1 :: real
  br2 :: real
  hr12 :: real
  ALFA2 :: real
  AR :: real
  CX :: int
  steel_type :: int
  LE :: int
  a :: int
  Ns :: int
  Nt1 :: int
  d11 :: real
  Nt2 :: int
  d12 :: real
  d :: real
  y :: int
  wgco :: string
  Lev :: int
  magnet :: int
  Br0 :: real
  Hc0 :: real
  hM :: real
  bM :: real
  LM :: real
  ROUm :: real
  SIGMA0 :: real
  t :: real
  pfwl :: real
  psl :: real
  Kq :: real

text \<open>The defaults of the dataclass: the reference parameter set.\<close>

definition MotorParameters_defaults :: MotorParameters where
  "MotorParameters_defaults =
     \<lparr>PN = 15.0, UN_rated = 380.0, m = 3, f = 50.0, p = 2, cosfi = 0.95, eff = 0.935,
      Tpo = 1.8, Ist = 9.0, Tst = 2.0,
      D1 = 260.0, Di1 = 170.0, La = 190.0, g = 0.65, g12 = 0.15, Q1 = 36, Q2 = 32, Di2 = 60.0,
      b01 = 3.8, h01 = 0.8, b1 = 7.7, ALFA1 = 30.0, R1 = 5.1, h12 = 15.2, sks = ''Y'',
      Lv = 1, b02 = 2.0, h02 = 0.8, br1 = 6.4, br2 = 5.5, hr12 = 15.0, ALFA2 = 30.0, AR = 180.0,
      CX = 1, steel_type = 5,
      LE = 2, a = 1, Ns = 13, Nt1 = 2, d11 = 1.20, Nt2 = 3, d12 = 1.25, d = 15.0, y = 9,
      wgco = ''Y'',
      Lev = 1, magnet = 1, Br0 = 1.15, Hc0 = 875.0, hM = 5.3, bM = 110.0, LM = 190.0,
      ROUm = 7400.0, SIGMA0 = 1.28,
      t = 75.0, pfwl = 0.0107, psl = 0.015, Kq = 0.36\<rparr>"

text \<open>
  \<open>str.upper\<close> on the letters of ASCII. A character outside ASCII is left as it is. Python
  may change it, but never into \<open>Y\<close>, and the source only compares the result with \<open>'Y'\<close>.
\<close>

definition upper_char :: "char \<Rightarrow> char" where
  "upper_char c =
     (if 97 \<le> (of_char c :: nat) \<and> (of_char c :: nat) \<le> 122
      then char_of ((of_char c :: nat) - 32) else c)"

definition upper :: "string \<Rightarrow> string" where
  "upper w = map upper_char w"

section \<open>MotorCalculationEngine\<close>

text \<open>
  The attributes that the stages write on the engine object. A stage reads the attributes
  of earlier stages from the same record.
\<close>

record derived =
  OMGs :: real
  nN :: real
  IN :: real
  TN :: real
  TAO :: real
  N :: real
  Kp1 :: real
  Kd1 :: real
  Ksk1 :: real
  Kdp :: real
  t1 :: real
  D2 :: real
  t2 :: real
  hs1 :: real
  bt1 :: real
  hj1 :: real
  ht1 :: real
  Lj1 :: real
  hr1 :: real
  hr2 :: real
  hr :: real
  AB :: real
  hj2 :: real
  bt2 :: real
  DR :: real
  Lj2 :: real
  Vt1 :: real
  Vj1 :: real
  Br :: real
  Hc :: real
  MUr :: real
  Am :: real
  Vm :: real
  mm :: real
  FF :: real
  FAIM :: real
  Bg :: real
  Bts :: real
  Bj1 :: real
  Btr :: real
  Bj2 :: real
  bm0 :: real
  LUMDAn :: real
  LUMDAs :: real
  FI0 :: real
  Bg1 :: real
  E0 :: real
  Kst :: real
  fd :: real
  Ls :: real
  Rs :: real
  X1 :: real
  R2 :: real
  X2 :: real
  Xad :: real
  Xd :: real
  Xaq :: real
  Xq :: real
  Kad :: real
  Kaq :: real
  bmN :: real
  mCu :: real
  mFe :: real
  mAl :: real
  pCu :: real
  pFe :: real
  pfw :: real
  ps :: real
  pSum :: real
  Ist_calc :: real
  Ist_ratio :: real
  Tst_calc :: real
  eta_actual :: real
  cosfi_actual :: real
  theta_actual :: real
  phi_actual :: real
  Sf_actual :: real
  A1_actual :: real
  J1_actual :: real
  A1J1_actual :: real
  bmh_actual :: real

definition MUO :: real where
  "MUO = 4.0 * pi * (1 / 10 ^ 7)"

text \<open>\<open>div_by numpy\<close> is the division of the source where the operand types depend on the
  connection: a numpy operand (\<open>numpy = True\<close>) never raises.\<close>

definition div_by :: "bool \<Rightarrow> real \<Rightarrow> real \<Rightarrow> error + real" where
  "div_by numpy u v = (if numpy then Inr (u / v) else pydiv u v)"

definition star :: "MotorParameters \<Rightarrow> bool" where
  "star prm = (upper (wgco prm) = ''Y'')"

subsection \<open>Stage 1: calculate_basic_parameters\<close>

text \<open>With star connection \<open>UN_calc\<close> is a numpy scalar (\<open>np.sqrt\<close>), and so is \<open>IN\<close>.\<close>

definition calculate_basic_parameters :: "MotorParameters \<Rightarrow> derived \<Rightarrow> error + derived" where
  "calculate_basic_parameters prm s =
     ebind (pydiv (2 * pi * f prm) (of_int (p prm))) (\<lambda>OMGs'.
     ebind (pydiv (60 * f prm) (of_int (p prm))) (\<lambda>nN'.
     let UN_calc = (if upper (wgco prm) = ''Y'' then UN_rated prm / sqrt 3 else UN_rated prm) in
     ebind (div_by (upper (wgco prm) = ''Y'') (PN prm * 1000)
              (of_int (m prm) * UN_calc * eff prm * cosfi prm)) (\<lambda>IN'.
     ebind (pydiv (PN prm * 1000) (2 * pi * nN' / 60)) (\<lambda>TN'.
     ebind (pydiv (pi * Di1 prm) (2 * of_int (p prm))) (\<lambda>TAO'.
     Inr (s\<lparr>OMGs := OMGs', nN := nN', IN := IN', TN := TN', TAO := TAO'\<rparr>))))))"

subsection \<open>Stage 2: calculate_winding_parameters\<close>

definition calculate_winding_parameters :: "MotorParameters \<Rightarrow> derived \<Rightarrow> error + derived" where
  "calculate_winding_parameters prm s =
     ebind (pydiv (of_int (Q1 prm * Ns prm)) (of_int (2 * m prm * a prm))) (\<lambda>N'.
     ebind (pydiv (of_int (Q1 prm)) (of_int (2 * m prm * p prm))) (\<lambda>QPM.
     ebind (if LE prm \<notin> {1, 2, 3} then pydiv (of_int (y prm)) (of_int (m prm) * QPM)
            else Inr 1.0) (\<lambda>BETA.
     let Kp1' = sin (BETA * pi / 2) in
     ebind (pydiv pi (of_int (2 * m prm))) (\<lambda>u.
     ebind (pydiv pi (of_int (2 * m prm) * QPM)) (\<lambda>v.
     let Kd1' = sin u / (QPM * sin v) in
     ebind (if upper (sks prm) = ''Y'' then
              ebind (pydiv (pi * Di1 prm) (of_int (Q1 prm))) (\<lambda>t1'.
              ebind (pydiv (of_int (Q1 prm) * t1') (of_int (Q1 prm + p prm))) (\<lambda>tsk.
              ebind (pydiv tsk (TAO s)) (\<lambda>w.
              let ALFAs = w * pi in
              Inr (2 * sin (ALFAs / 2) / ALFAs))))
            else Inr 1.0) (\<lambda>Ksk1'.
     Inr (s\<lparr>N := N', Kp1 := Kp1', Kd1 := Kd1', Ksk1 := Ksk1',
            Kdp := Kp1' * Kd1' * Ksk1'\<rparr>)))))))"

subsection \<open>Stage 3: calculate_geometry_parameters\<close>

definition calculate_geometry_parameters :: "MotorParameters \<Rightarrow> derived \<Rightarrow> error + derived" where
  "calculate_geometry_parameters prm s =
     ebind (pydiv (pi * Di1 prm) (of_int (Q1 prm))) (\<lambda>t1'.
     let D2' = Di1 prm - 2 * g prm in
     ebind (pydiv (pi * D2') (of_int (Q2 prm))) (\<lambda>t2'.
     let hs1' = (b1 prm - b01 prm) / 2 * tan (ALFA1 prm * pi / 180) in
     ebind (pydiv ((Di1 prm + 2 * (h01 prm + h12 prm)) * pi) (of_int (Q1 prm))) (\<lambda>u.
     let bt1' = u - 2 * R1 prm;
         hj1' = (D1 prm - Di1 prm) / 2 - (h01 prm + h12 prm + 2 * R1 prm / 3);
         ht1' = h12 prm + R1 prm / 3 in
     ebind (pydiv (pi * (D1 prm - hj1')) (of_int (4 * p prm))) (\<lambda>Lj1'.
     let hr1' = (br1 prm - b02 prm) * tan (ALFA2 prm * pi / 180) / 2;
         hr2' = hr12 prm - hr1';
         hr' = h02 prm + hr12 prm;
         AB' = (b02 prm + br1 prm) * hr1' / 2 + (br1 prm + br2 prm) * hr2' / 2;
         hj2' = (if Lev prm = 1 then (D2' - Di2 prm) / 2 - hr' - hM prm else bM prm) in
     ebind (pydiv ((D2' - 2 * (h02 prm + hr12 prm)) * pi) (of_int (Q2 prm))) (\<lambda>v.
     let bt2' = v - br2 prm;
         DR' = D2' - hr' - 2 in
     ebind (pydiv (pi * (Di2 prm + hj2')) (of_int (4 * p prm))) (\<lambda>Lj2'.
     Inr (s\<lparr>t1 := t1', D2 := D2', t2 := t2', hs1 := hs1', bt1 := bt1', hj1 := hj1',
            ht1 := ht1', Lj1 := Lj1', hr1 := hr1', hr2 := hr2', hr := hr', AB := AB',
            hj2 := hj2', bt2 := bt2', DR := DR', Lj2 := Lj2',
            Vt1 := of_int (Q1 prm) * La prm * 0.93 * ht1' * bt1',
            Vj1 := pi * (D1 prm - hj1') * La prm * 0.93 * hj1'\<rparr>)))))))"

subsection \<open>Stage 4: calculate_magnet_parameters\<close>

definition calculate_magnet_parameters :: "MotorParameters \<Rightarrow> derived \<Rightarrow> error + derived" where
  "calculate_magnet_parameters prm s =
     (let TEMB = (if magnet prm = 1 then 1 - (t prm - 20) * 0.0012
                  else 1 - (t prm - 20) * 0.0019);
          TEMH = (if magnet prm = 1 then TEMB else 1 + (t prm - 20) * 0.004);
          Br' = TEMB * Br0 prm;
          Hc' = TEMH * Hc0 prm * 1000 in
      ebind (pydiv (Br0 prm) (MUO * Hc0 prm * 1000)) (\<lambda>MUr'.
      let Am' = (if Lev prm = 1 then bM prm * LM prm else 2 * bM prm * LM prm);
          Vm' = 2 * of_int (p prm) * LM prm * bM prm * hM prm in
      Inr (s\<lparr>Br := Br', Hc := Hc', MUr := MUr', Am := Am', Vm := Vm',
             mm := ROUm prm * Vm' / 10 ^ 9,
             FF := hM prm * Hc' / 1000,
             FAIM := Am' * Br'\<rparr>)))"

subsection \<open>Stage 5: calculate_no_load_magnetic_circuit\<close>

definition calculate_gap_factor :: "MotorParameters \<Rightarrow> derived \<Rightarrow> error + real" where
  "calculate_gap_factor prm s =
     (let ttt = t1 s * (4.4 * g prm + 0.75 * b01 prm) in
      ebind (pydiv ttt (ttt - b01 prm * b01 prm)) (\<lambda>Kg1.
      let fff = t2 s * (4.4 * g prm + 0.75 * b02 prm) in
      ebind (pydiv fff (fff - b02 prm * b02 prm)) (\<lambda>Kg2.
      Inr (Kg1 * Kg2))))"

text \<open>The local variables of the loop body that the code after the loop reads.\<close>

record round_locals =
  loc_FI01 :: real
  loc_Ft1 :: real
  loc_Ft2 :: real
  loc_LUMDAm :: real
  loc_LUMDAn :: real
  loc_bm0 :: real

definition RFAi :: real where
  "RFAi = 0.64"

text \<open>
  The loop body up to the new operating point \<open>bm0\<close>. In the first round \<open>bm01\<close> is a
  Python float and the six flux-density divisions raise on a zero divisor; in a later
  round \<open>bm01\<close> is a numpy scalar, and the divisors, which depend on the parameters and
  on earlier stages only, were not zero in the first round.
\<close>

definition magnetic_round ::
  "MotorParameters \<Rightarrow> derived \<Rightarrow> real \<Rightarrow> error + derived \<times> round_locals" where
  "magnetic_round prm s bm01 =
     ebind (pydiv (bm01 * FAIM s) (SIGMA0 prm)) (\<lambda>q0.
     let FI01 = q0 * (1 / 10 ^ 6) in
     ebind (pydiv FI01 (RFAi * TAO s * (La prm + 2 * g prm))) (\<lambda>q1.
     let Bg' = q1 * 10 ^ 6 in
     ebind (pydiv (Bg' * t1 s * (La prm + 2 * g prm)) (La prm * 0.93 * bt1 s)) (\<lambda>Bts'.
     ebind (pydiv FI01 (2 * La prm * 0.93 * hj1 s)) (\<lambda>q2.
     let Bj1' = q2 * 10 ^ 6 in
     ebind (pydiv (Bg' * t2 s * (La prm + 2 * g prm)) (La prm * 0.93 * bt2 s)) (\<lambda>Btr'.
     ebind (pydiv FI01 (2 * La prm * 0.93 * hj2 s)) (\<lambda>q3.
     let Bj2' = q3 * 10 ^ 6;
         s' = s\<lparr>Bg := Bg', Bts := Bts', Bj1 := Bj1', Btr := Btr', Bj2 := Bj2'\<rparr> in
     ebind (get_BH_curve Bts' (steel_type prm)) (\<lambda>Hts.
     ebind (get_BH_curve Bj1' (steel_type prm)) (\<lambda>Hjs.
     ebind (get_BH_curve Btr' (steel_type prm)) (\<lambda>Htr.
     ebind (get_BH_curve Bj2' (steel_type prm)) (\<lambda>Hjr.
     let Ft1 = Hts * ht1 s' / 10;
         Fj1 = Hjs * Lj1 s' / 10;
         Ft2 = Htr * hr s' / 10;
         Fj2 = Hjr * Lj2 s' / 10 in
     ebind (calculate_gap_factor prm s') (\<lambda>Kg.
     let Fg = Bg s' / MUO * (g12 prm + g prm * Kg) * (1 / 10 ^ 3);
         SUMF = 2 * (Fg + Ft1 + Fj1 + Ft2 + Fj2);
         NUMDAm = FI01 / SUMF;
         LUMDAm = (if Lev prm = 1
                   then NUMDAm * 2 * hM prm * (1 / 10 ^ 3) / (MUr s' * MUO * Am s' * (1 / 10 ^ 6))
                   else NUMDAm * hM prm * (1 / 10 ^ 3) / (MUr s' * MUO * Am s' * (1 / 10 ^ 6)));
         LUMDAn' = SIGMA0 prm * LUMDAm;
         bm0' = LUMDAn' / (LUMDAn' + 1) in
     Inr (s', \<lparr>loc_FI01 = FI01, loc_Ft1 = Ft1, loc_Ft2 = Ft2, loc_LUMDAm = LUMDAm,
               loc_LUMDAn = LUMDAn', loc_bm0 = bm0'\<rparr>))))))))))))"

text \<open>
  The convergence test \<open>abs((bm0 - bm01) / bm0) < 0.0001\<close>. The operands are numpy
  scalars: for \<open>bm0 = 0\<close> the quotient is \<open>inf\<close> or \<open>nan\<close> and the comparison is false.
\<close>

definition converged :: "real \<Rightarrow> real \<Rightarrow> bool" where
  "converged bm0' bm01 = (bm0' \<noteq> 0 \<and> \<bar>(bm0' - bm01) / bm0'\<bar> < 0.0001)"

text \<open>
  \<open>for iteration in range(n)\<close>: the first argument counts the rounds that are left, the
  second the rounds that have run. The result holds the engine attributes, the locals of
  the last round that ran (none when no round ran) and the number of rounds run.
\<close>

fun no_load_rounds ::
  "nat \<Rightarrow> nat \<Rightarrow> MotorParameters \<Rightarrow> derived \<Rightarrow> real \<Rightarrow> round_locals option
     \<Rightarrow> error + derived \<times> round_locals option \<times> nat" where
  "no_load_rounds 0 k prm s bm01 l = Inr (s, l, k)"
| "no_load_rounds (Suc n) k prm s bm01 l =
     (case magnetic_round prm s bm01 of
        Inl e \<Rightarrow> Inl e
      | Inr (s', l') \<Rightarrow>
          if converged (loc_bm0 l') bm01 then Inr (s', Some l', Suc k)
          else no_load_rounds n (Suc k) prm s' ((bm01 + loc_bm0 l') / 2) (Some l'))"

definition calculate_no_load_magnetic_circuit ::
  "MotorParameters \<Rightarrow> derived \<Rightarrow> error + derived" where
  "calculate_no_load_magnetic_circuit prm s =
     ebind (pydiv (0.95 * SIGMA0 prm * hM prm) (SIGMA0 prm * hM prm + g prm)) (\<lambda>bm01.
     ebind (no_load_rounds 30 0 prm s bm01 None) (\<lambda>(s', last_round, rounds).
     case last_round of
       None \<Rightarrow> Inl NameError
     | Some l \<Rightarrow>
         let bm0' = loc_bm0 l;
             FI0' = bm0' * FAIM s' / SIGMA0 prm * (1 / 10 ^ 6);
             Kf = 4 / pi * sin (pi * RFAi / 2);
             Bg1' = Kf * loc_FI01 l / (RFAi * TAO s' * (La prm + 2 * g prm)) * 10 ^ 6;
             KFI = 8 / (pi * pi) / RFAi * sin (RFAi * pi / 2);
             E0' = 4.44 * f prm * N s' * Kdp s' * FI0' * KFI in
         ebind (calculate_gap_factor prm s') (\<lambda>Kg.
         let Fgg = Bg s' / MUO * g prm * Kg * (1 / 10 ^ 3) in
         Inr (s'\<lparr>bm0 := bm0', LUMDAn := loc_LUMDAn l,
                 LUMDAs := (SIGMA0 prm - 1) * loc_LUMDAm l, FI0 := FI0',
                 Bg1 := Bg1', E0 := E0',
                 Kst := (Fgg + loc_Ft1 l + loc_Ft2 l) / Fgg\<rparr>))))"

subsection \<open>Stage 6: calculate_impedances\<close>

definition calculate_impedances :: "MotorParameters \<Rightarrow> derived \<Rightarrow> error + derived" where
  "calculate_impedances prm s =
     (let s11 = of_int (Nt1 prm) * pi * (d11 prm)\<^sup>2 / 4;
          s12 = of_int (Nt2 prm) * pi * (d12 prm)\<^sup>2 / 4;
          ROUCu = 0.0175 * (1 + 0.004 * (t prm - 15)) in
      ebind (if LE prm \<in> {1, 2, 3} then
               Inr (if p prm = 1 then 0.58 else if p prm \<in> {2, 3} then 0.6 else 0.625)
             else
               ebind (pydiv (b1 prm + 2 * R1 prm) (b1 prm + 2 * R1 prm + 2 * bt1 s)) (\<lambda>u.
               Inr (1 / sqrt (1 - u\<^sup>2) / 2))) (\<lambda>sss.
      ebind (pydiv (pi / 2) (of_int (p prm))) (\<lambda>c.
      let TAOy = (if LE prm \<in> {1, 2}
                  then c * 0.85 * (Di1 prm + 2 * (h01 prm + hs1 s) + h12 prm - hs1 s + R1 prm)
                  else c * (Di1 prm + 2 * (h01 prm + hs1 s) + h12 prm - hs1 s + R1 prm));
          LEIP = sss * TAOy;
          Lc = 2 * (La prm + 2 * (d prm + LEIP));
          fd' = LEIP * (b1 prm + 2 * R1 prm) / (b1 prm + 2 * R1 prm + 2 * bt1 s);
          Ls' = 2 * (d prm + LEIP);
          Rs' = ROUCu * Lc * N s / (of_int (a prm) * (s11 + s12) * 1000);
          Cx = (4 * pi)\<^sup>2 * (1 / 10 ^ 10) * f prm * (La prm + 2 * g prm) * (N s * Kdp s)\<^sup>2
                 / of_int (p prm) in
      ebind (pydiv (h01 prm) (b01 prm)) (\<lambda>u1.
      let AU1 = u1 + 2 * hs1 s / (b01 prm + b1 prm) in
      ebind (pydiv (2 * h12 prm) (b01 prm + b1 prm)) (\<lambda>AL1.
      ebind (pydiv (of_int (Q1 prm)) (of_int (2 * m prm * p prm))) (\<lambda>QPM.
      ebind (if LE prm \<notin> {1, 2, 3} then pydiv (of_int (y prm)) (of_int (m prm) * QPM)
             else Inr 1.0) (\<lambda>BETA_calc.
      let BETA1 = (if BETA_calc > 1 then 2 - BETA_calc else BETA_calc);
          KU1 = (if BETA1 \<ge> 2 / 3 then (3 * BETA1 + 1) / 4
                 else if BETA1 > 1 / 3 then (6 * BETA1 - 1) / 4
                 else 0.75 * BETA1);
          KL1 = (if BETA1 \<ge> 2 / 3 then (9 * BETA1 + 7) / 16
                 else if BETA1 > 1 / 3 then (18 * BETA1 + 1) / 16
                 else (9 * BETA1 + 4) / 16);
          As1 = KU1 * AU1 + KL1 * AL1;
          Xs1 = La prm * of_int (m prm) * 2 * of_int (p prm) * As1
                  / ((La prm + 2 * g prm) * (Kdp s)\<^sup>2 * of_int (Q1 prm)) * Cx in
      ebind (pydiv (of_int (2 * p prm)) (of_int (Q1 prm))) (\<lambda>r1.
      let SUMR = pi\<^sup>2 * r1\<^sup>2 / 12 in
      ebind (calculate_gap_factor prm s) (\<lambda>Kg.
      let Xd1 = of_int (m prm) * TAO s * SUMR / (pi\<^sup>2 * Kg * g prm * Kst s) * Cx;
          XE1 = (if LE prm = 0 then 1.2 * (d prm + 0.5 * fd') / (La prm + 2 * g prm) * Cx
                 else if LE prm = 1 then
                   0.67 * (Ls' - 0.64 * TAOy) / ((La prm + 2 * g prm) * (Kdp s)\<^sup>2) * Cx
                 else if LE prm = 2 then
                   0.47 * (Ls' - 0.64 * TAOy) / ((La prm + 2 * g prm) * (Kdp s)\<^sup>2) * Cx
                 else 0.2 * Ls' / ((La prm + 2 * g prm) * (Kdp s)\<^sup>2) * Cx) in
      ebind (if upper (sks prm) = ''Y'' then
               ebind (pydiv (of_int (Q1 prm) * t1 s) (of_int (Q1 prm + p prm))) (\<lambda>tsk.
               ebind (pydiv tsk (t1 s)) (\<lambda>r. Inr (0.5 * r\<^sup>2 * Xd1)))
             else Inr 0.0) (\<lambda>Xsk1.
      let X1' = Xs1 + Xd1 + XE1 + Xsk1;
          kc = of_int (m prm) * (2 * N s * Kdp s)\<^sup>2 * (1 / 10 ^ 4);
          ROUA1 = 0.035 * (1 + 0.004 * (t prm - 15));
          RB = kc * (1.04 * La prm * ROUA1 * 10) / (AB s * of_int (Q2 prm));
          RR = kc * (DR s * ROUA1 * 10) / (2 * pi * (of_int (p prm))\<^sup>2 * AR prm);
          QSX = 1.0 in
      ebind (pydiv (br2 prm) (br1 prm)) (\<lambda>B12.
      ebind (calculate_slot_leakage (CX prm) (h02 prm) (b02 prm) (hr12 prm) (br1 prm) (br2 prm)
               (hr12 prm / 2) QSX B12 0.5 0.3 0.2) (\<lambda>LUMDAS.
      let Xs2 = La prm * of_int (m prm) * 2 * of_int (p prm) * LUMDAS * Cx
                  / ((La prm + 2 * g prm) * of_int (Q2 prm)) in
      ebind (pydiv (of_int (2 * p prm)) (of_int (Q2 prm))) (\<lambda>r2.
      let SUMR2 = pi\<^sup>2 * r2\<^sup>2 / 12 in
      ebind (calculate_gap_factor prm s) (\<lambda>Kg2.
      let Xd2 = of_int (m prm) * TAO s * SUMR2 / (pi\<^sup>2 * g prm * Kg2 * Kst s) * Cx in
      ebind (pydiv 0.757 (La prm + 2 * g prm)) (\<lambda>e1.
      ebind (pydiv (DR s) (of_int (2 * p prm))) (\<lambda>e2.
      let XE2 = e1 * ((La prm - La prm) / 1.13 + e2) * Cx in
      Inr (s\<lparr>fd := fd', Ls := Ls', Rs := Rs', X1 := X1', R2 := RB + RR,
             X2 := Xs2 + Xd2 + XE2\<rparr>)))))))))))))))))"

subsection \<open>Stage 7: calculate_performance\<close>

text \<open>Every quotient of this stage has a numpy operand: the stage raises nothing.\<close>

definition calculate_performance :: "MotorParameters \<Rightarrow> derived \<Rightarrow> error + derived" where
  "calculate_performance prm s =
     (let Fa = 0.45 * of_int (m prm) * N s * Kdp s * 0.5 * IN s * 1.0 / of_int (p prm);
          fad = (if Lev prm = 1 then Fa / FF s else 2 * Fa / FF s);
          f1 = fad / SIGMA0 prm;
          bmN' = LUMDAn s * (1 - f1) / (LUMDAn s + 1);
          FIN = (bmN' - (1 - bmN') * LUMDAs s) * FAIM s * (1 / 10 ^ 6);
          KFI = 8 / (pi * pi) / 0.64 * sin (0.64 * pi / 2);
          Ed = 4.44 * f prm * N s * Kdp s * FIN * KFI;
          Xad' = \<bar>(E0 s - Ed) / (0.5 * IN s)\<bar>;
          Xaq' = Xad' * Kq prm;
          Kf = 4 / pi * sin (pi * 0.64 / 2) in
      Inr (s\<lparr>Xad := Xad', Xd := Xad' + X1 s, Xaq := Xaq', Xq := Xaq' + X1 s,
             Kad := 1 / Kf, Kaq := Kq prm / Kf, bmN := bmN'\<rparr>))"

subsection \<open>Stage 8: calculate_material_weights\<close>

definition calculate_material_weights :: "MotorParameters \<Rightarrow> derived \<Rightarrow> error + derived" where
  "calculate_material_weights prm s =
     (let s11 = of_int (Nt1 prm) * pi * (d11 prm)\<^sup>2 / 4;
          s12 = of_int (Nt2 prm) * pi * (d12 prm)\<^sup>2 / 4;
          Lc = 2 * (La prm + 2 * (d prm + Ls s / 2)) in
      Inr (s\<lparr>mCu := 1.05 * 8.9 * of_int (Q1 prm) * of_int (Ns prm) * Lc / 2 * (s11 + s12)
                      * (1 / 10 ^ 6),
             mFe := 7.8 * (La prm + 2 * g prm) * (D1 prm + 5)\<^sup>2 * (1 / 10 ^ 6),
             mAl := 2.7 * (of_int (Q2 prm) * AB s * La prm + 2 * AR prm * pi * DR s)
                      * (1 / 10 ^ 6)\<rparr>))"

subsection \<open>Stage 9: calculate_losses\<close>

definition calculate_losses :: "MotorParameters \<Rightarrow> derived \<Rightarrow> error + derived" where
  "calculate_losses prm s =
     (let pCu' = of_int (m prm) * (IN s)\<^sup>2 * Rs s in
      ebind (get_iron_loss (Bts s) (steel_type prm)) (\<lambda>pt1.
      ebind (get_iron_loss (Bj1 s) (steel_type prm)) (\<lambda>pj1.
      let pFe' = 2.5 * Vt1 s * pt1 / 10 ^ 6 + 2 * Vj1 s * pj1 / 10 ^ 6;
          pfw' = pfwl prm * PN prm * 1000 in
      ebind (div_by (upper (wgco prm) = ''Y'') (IN s) (IN s)) (\<lambda>r.
      let ps' = r\<^sup>2 * psl prm * PN prm * 1000 in
      Inr (s\<lparr>pCu := pCu', pFe := pFe', pfw := pfw', ps := ps',
             pSum := pCu' + pFe' + pfw' + ps'\<rparr>)))))"

subsection \<open>Stage 10: calculate_starting_characteristics\<close>

definition calculate_starting_characteristics ::
  "MotorParameters \<Rightarrow> derived \<Rightarrow> error + derived" where
  "calculate_starting_characteristics prm s =
     (let X1st = X1 s * 0.8;
          R2st = R2 s * 1.2;
          X2st = X2 s * 0.8;
          Xst = X1st + X2st;
          Rst = Rs s + R2st;
          Zst = sqrt (Rst\<^sup>2 + Xst\<^sup>2);
          UN_calc = (if upper (wgco prm) = ''Y'' then UN_rated prm / sqrt 3 else UN_rated prm);
          Ist_calc' = UN_calc / Zst in
      Inr (s\<lparr>Ist_calc := Ist_calc', Ist_ratio := Ist_calc' / IN s,
             Tst_calc := of_int (m prm) * of_int (p prm) * Ist_calc'\<^sup>2 * R2st
                           / (2 * pi * f prm) / TN s\<rparr>))"

subsection \<open>Stage 11: calculate_actual_performance\<close>

text \<open>\<open>np.arcsin\<close> and \<open>np.arccos\<close> return \<open>nan\<close> outside their domain and raise nothing.\<close>

definition calculate_actual_performance ::
  "MotorParameters \<Rightarrow> derived \<Rightarrow> error + derived" where
  "calculate_actual_performance prm s =
     (let P_out = PN prm * 1000;
          P_in = P_out + pSum s;
          eta = P_out / P_in * 100;
          phi_rad = arctan (X1 s / Rs s);
          cosfi' = cos phi_rad;
          theta = arcsin (P_out / (of_int (m prm) * E0 s * IN s / sqrt 3)) * 180 / pi;
          phi = arccos cosfi' * 180 / pi;
          s_total = of_int (Ns prm) * (of_int (Nt1 prm) * pi * (d11 prm)\<^sup>2 / 4
                                       + of_int (Nt2 prm) * pi * (d12 prm)\<^sup>2 / 4);
          slot_area = (b01 prm + b1 prm) * h12 prm / 2 + b01 prm * h01 prm in
      ebind (pydiv s_total slot_area) (\<lambda>r.
      ebind (div_by (upper (wgco prm) = ''Y'') (of_int (m prm) * N s * IN s) (pi * Di1 prm))
        (\<lambda>A1.
      ebind (div_by (upper (wgco prm) = ''Y'') (IN s) s_total) (\<lambda>J1.
      Inr (s\<lparr>eta_actual := eta, cosfi_actual := cosfi', theta_actual := theta,
             phi_actual := phi, Sf_actual := r * 100, A1_actual := A1, J1_actual := J1,
             A1J1_actual := A1 * J1, bmh_actual := bmN s * 0.382\<rparr>)))))"

subsection \<open>save_complete_results\<close>

text \<open>
  The result dictionary: sections in the order of the source, each a list of entries. The
  section titles, the entry labels and the slot names are Chinese text in the source and are
  given here by English labels. \<open>round(x, n)\<close> rounds half to even at \<open>n\<close> decimals;
  \<open>int(x)\<close> truncates towards zero.
\<close>

datatype result_value = Num real | Count int | Text string | SlotText int string

type_synonym result_bundle = "(string \<times> (string \<times> result_value) list) list"

definition round_half_even :: "real \<Rightarrow> int" where
  "round_half_even x =
     (let fl = \<lfloor>x\<rfloor>; r = x - of_int fl in
      if r < 1 / 2 then fl else if r > 1 / 2 then fl + 1
      else if even fl then fl else fl + 1)"

definition py_round :: "real \<Rightarrow> nat \<Rightarrow> real" where
  "py_round x n = of_int (round_half_even (x * 10 ^ n)) / 10 ^ n"

definition py_int :: "real \<Rightarrow> int" where
  "py_int x = (if x \<ge> 0 then \<lfloor>x\<rfloor> else \<lceil>x\<rceil>)"

definition get_steel_name :: "int \<Rightarrow> string" where
  "get_steel_name k =
     (if k = 1 then ''DR510-50'' else if k = 2 then ''DR420-50''
      else if k = 3 then ''DR490-50'' else if k = 4 then ''DR550-50''
      else if k = 5 then ''DW315-50'' else ''unknown'')"

definition get_slot_type_name :: "int \<Rightarrow> string" where
  "get_slot_type_name k =
     (if k = 1 then ''pear-shaped'' else if k = 2 then ''half-pear-shaped''
      else if k = 3 then ''round'' else if k = 4 then ''inclined-shoulder round''
      else ''unknown slot'')"

definition save_complete_results :: "MotorParameters \<Rightarrow> derived \<Rightarrow> error + result_bundle" where
  "save_complete_results prm s =
     ebind (calculate_gap_factor prm s) (\<lambda>Kg. Inr
       [(''basic parameters'',
          [(''nN (rpm)'', Num (py_round (nN s) 1)),
           (''IN (A)'', Num (py_round (IN s) 2)),
           (''TN (N m)'', Num (py_round (TN s) 2)),
           (''TAO (mm)'', Num (py_round (TAO s) 2)),
           (''OMGs (rad/s)'', Num (py_round (OMGs s) 2))]),
        (''winding parameters'',
          [(''N'', Count (py_int (N s))),
           (''Kdp'', Num (py_round (Kdp s) 4)),
           (''Kp1'', Num (py_round (Kp1 s) 4)),
           (''Kd1'', Num (py_round (Kd1 s) 4)),
           (''Ksk1'', Num (py_round (Ksk1 s) 4)),
           (''Ls (mm)'', Num (py_round (Ls s) 1)),
           (''fd (mm)'', Num (py_round (fd s) 1))]),
        (''geometry parameters'',
          [(''t1 (mm)'', Num (py_round (t1 s) 2)),
           (''t2 (mm)'', Num (py_round (t2 s) 2)),
           (''D2 (mm)'', Num (py_round (D2 s) 1)),
           (''bt1 (mm)'', Num (py_round (bt1 s) 2)),
           (''bt2 (mm)'', Num (py_round (bt2 s) 2)),
           (''hj1 (mm)'', Num (py_round (hj1 s) 2)),
           (''hj2 (mm)'', Num (py_round (hj2 s) 2)),
           (''AB (mm2)'', Num (py_round (AB s) 1)),
           (''DR (mm)'', Num (py_round (DR s) 1)),
           (''CX'', SlotText (CX prm) (get_slot_type_name (CX prm)))]),
        (''magnetic circuit parameters'',
          [(''Kg'', Num (py_round Kg 3)),
           (''Bg (T)'', Num (py_round (Bg s) 3)),
           (''Bg1 (T)'', Num (py_round (Bg1 s) 3)),
           (''Bts (T)'', Num (py_round (Bts s) 3)),
           (''Bj1 (T)'', Num (py_round (Bj1 s) 3)),
           (''Btr (T)'', Num (py_round (Btr s) 3)),
           (''Bj2 (T)'', Num (py_round (Bj2 s) 3)),
           (''E0 (V)'', Num (py_round (E0 s) 1)),
           (''bm0'', Num (py_round (bm0 s) 4)),
           (''Kst'', Num (py_round (Kst s) 2)),
           (''steel'', Text (get_steel_name (steel_type prm)))]),
        (''magnet parameters'',
          [(''Br (T)'', Num (py_round (Br s) 3)),
           (''Hc (A/m)'', Num (py_round (Hc s) 0)),
           (''MUr'', Num (py_round (MUr s) 3)),
           (''Am (mm2)'', Num (py_round (Am s) 0)),
           (''FF (A)'', Num (py_round (FF s) 1)),
           (''FAIM (Wb mm)'', Num (py_round (FAIM s) 3)),
           (''mm (kg)'', Num (py_round (mm s) 2))]),
        (''impedance parameters'',
          [(''Rs (Ohm)'', Num (py_round (Rs s) 4)),
           (''R2 (Ohm)'', Num (py_round (R2 s) 4)),
           (''X1 (Ohm)'', Num (py_round (X1 s) 4)),
           (''X2 (Ohm)'', Num (py_round (X2 s) 4)),
           (''Xd (Ohm)'', Num (py_round (Xd s) 3)),
           (''Xq (Ohm)'', Num (py_round (Xq s) 3)),
           (''Xad (Ohm)'', Num (py_round (Xad s) 3)),
           (''Xaq (Ohm)'', Num (py_round (Xaq s) 3)),
           (''Kad'', Num (py_round (Kad s) 3)),
           (''Kaq'', Num (py_round (Kaq s) 3))]),
        (''material masses'',
          [(''mCu (kg)'', Num (py_round (mCu s) 2)),
           (''mFe (kg)'', Num (py_round (mFe s) 2)),
           (''mAl (kg)'', Num (py_round (mAl s) 2)),
           (''mm (kg)'', Num (py_round (mm s) 2))]),
        (''loss parameters'',
          [(''pCu (W)'', Num (py_round (pCu s) 1)),
           (''pFe (W)'', Num (py_round (pFe s) 1)),
           (''pfw (W)'', Num (py_round (pfw s) 1)),
           (''ps (W)'', Num (py_round (ps s) 1)),
           (''pSum (W)'', Num (py_round (pSum s) 1))]),
        (''performance parameters'',
          [(''Ist/IN'', Num (py_round (Ist_ratio s) 2)),
           (''Ist (A)'', Num (py_round (Ist_calc s) 1)),
           (''Tst/TN'', Num (py_round (Tst_calc s) 2))]),
        (''actual performance parameters'',
          [(''eta (%)'', Num (py_round (eta_actual s) 2)),
           (''cosfi'', Num (py_round (cosfi_actual s) 3)),
           (''theta (deg)'', Num (py_round (theta_actual s) 1)),
           (''phi (deg)'', Num (py_round (phi_actual s) 1)),
           (''Sf (%)'', Num (py_round (Sf_actual s) 1)),
           (''A1 (A/mm)'', Num (py_round (A1_actual s) 1)),
           (''J1 (A/mm2)'', Num (py_round (J1_actual s) 1)),
           (''A1J1 (A2/mm3)'', Num (py_round (A1J1_actual s) 1)),
           (''bmN'', Num (py_round (bmN s) 3)),
           (''bmh'', Num (py_round (bmh_actual s) 3))])])"

subsection \<open>calculate_all\<close>

text \<open>
  The engine object: the parameter record, the attributes written by the stages, and the
  \<open>results\<close> dictionary, empty on a new engine. An attribute that a new Python object does
  not have yet is \<open>0\<close> in \<open>no_attributes\<close>.
\<close>

record engine =
  params :: MotorParameters
  attrs :: derived
  results :: result_bundle

definition no_attributes :: derived where
  "no_attributes =
     \<lparr>OMGs = 0, nN = 0, IN = 0, TN = 0, TAO = 0, N = 0, Kp1 = 0, Kd1 = 0, Ksk1 = 0, Kdp = 0,
      t1 = 0, D2 = 0, t2 = 0, hs1 = 0, bt1 = 0, hj1 = 0, ht1 = 0, Lj1 = 0, hr1 = 0, hr2 = 0,
      hr = 0, AB = 0, hj2 = 0, bt2 = 0, DR = 0, Lj2 = 0, Vt1 = 0, Vj1 = 0,
      Br = 0, Hc = 0, MUr = 0, Am = 0, Vm = 0, mm = 0, FF = 0, FAIM = 0,
      Bg = 0, Bts = 0, Bj1 = 0, Btr = 0, Bj2 = 0, bm0 = 0, LUMDAn = 0, LUMDAs = 0, FI0 = 0,
      Bg1 = 0, E0 = 0, Kst = 0, fd = 0, Ls = 0, Rs = 0, X1 = 0, R2 = 0, X2 = 0,
      Xad = 0, Xd = 0, Xaq = 0, Xq = 0, Kad = 0, Kaq = 0, bmN = 0,
      mCu = 0, mFe = 0, mAl = 0, pCu = 0, pFe = 0, pfw = 0, ps = 0, pSum = 0,
      Ist_calc = 0, Ist_ratio = 0, Tst_calc = 0,
      eta_actual = 0, cosfi_actual = 0, theta_actual = 0, phi_actual = 0, Sf_actual = 0,
      A1_actual = 0, J1_actual = 0, A1J1_actual = 0, bmh_actual = 0\<rparr>"

definition MotorCalculationEngine :: "MotorParameters \<Rightarrow> engine" where
  "MotorCalculationEngine prm = \<lparr>params = prm, attrs = no_attributes, results = []\<rparr>"

text \<open>
  The eleven stages in the order in which \<open>calculate_all\<close> calls them, each with the number
  that \<open>calculate_all\<close> prints before it calls the stage.
\<close>

type_synonym stage = "MotorParameters \<Rightarrow> derived \<Rightarrow> error + derived"

definition pipeline :: "(nat \<times> stage) list" where
  "pipeline =
     [(1, calculate_basic_parameters),
      (2, calculate_winding_parameters),
      (3, calculate_geometry_parameters),
      (4, calculate_magnet_parameters),
      (5, calculate_no_load_magnetic_circuit),
      (6, calculate_impedances),
      (7, calculate_performance),
      (8, calculate_material_weights),
      (9, calculate_losses),
      (10, calculate_starting_characteristics),
      (11, calculate_actual_performance)]"

text \<open>
  Running stages in sequence: the announcement of a stage goes to the log, then the stage
  runs; the first exception ends the sequence.
\<close>

fun run_stages ::
  "(nat \<times> stage) list \<Rightarrow> MotorParameters \<Rightarrow> derived \<Rightarrow> nat list \<Rightarrow> (error + derived) \<times> nat list"
  where
  "run_stages [] prm s announced = (Inr s, announced)"
| "run_stages ((k, stg) # rest) prm s announced =
     (case stg prm s of
        Inl e \<Rightarrow> (Inl e, announced @ [k])
      | Inr s' \<Rightarrow> run_stages rest prm s' (announced @ [k]))"

text \<open>
  The message of the returned pair: the fixed completion text, or the error text built from
  the exception.
\<close>

datatype message = Completed | CalculationError error

text \<open>
  \<open>calculate_all\<close> returns the success flag and the message; the model returns with them the
  stage announcements printed and the engine after the call. On a failure the model leaves
  the attributes as they were: the Python object keeps what the stages wrote before the
  exception, which no caller reads.
\<close>

definition calculate_all :: "engine \<Rightarrow> bool \<times> message \<times> nat list \<times> engine" where
  "calculate_all e =
     (case run_stages pipeline (params e) (attrs e) [] of
        (Inl err, announced) \<Rightarrow> (False, CalculationError err, announced, e)
      | (Inr s, announced) \<Rightarrow>
          (case save_complete_results (params e) s of
             Inl err \<Rightarrow> (False, CalculationError err, announced, e)
           | Inr r \<Rightarrow> (True, Completed, announced, e\<lparr>attrs := s, results := r\<rparr>)))"

section \<open>The reference run\<close>

text \<open>
  The attributes that stages 1 to 4 compute for the default parameters and that later
  stages read, as closed expressions: the rated current, the pole pitch, the turns per
  phase, the slot pitches, tooth widths, yoke heights and magnetic path lengths, the iron
  volumes and the magnet quantities. The predicate names the reference scenario in the
  statements about it.
\<close>

definition reference_geometry :: "derived \<Rightarrow> bool" where
  "reference_geometry s \<longleftrightarrow>
     IN s = 15000 / (3 * (380 / sqrt 3) * 0.935 * 0.95) \<and>
     TAO s = pi * 170 / 4 \<and>
     N s = 78 \<and>
     t1 s = pi * 170 / 36 \<and>
     t2 s = pi * 168.7 / 32 \<and>
     hs1 s = 1.95 * (1 / sqrt 3) \<and>
     bt1 s = 202 * pi / 36 - 10.2 \<and>
     hj1 s = 25.6 \<and>
     ht1 s = 16.9 \<and>
     Lj1 s = pi * 234.4 / 8 \<and>
     hr s = 15.8 \<and>
     hj2 s = 33.25 \<and>
     bt2 s = 137.1 * pi / 32 - 5.5 \<and>
     Lj2 s = pi * 93.25 / 8 \<and>
     Vt1 s = 36 * 190 * 0.93 * 16.9 * (202 * pi / 36 - 10.2) \<and>
     Vj1 s = pi * 234.4 * 190 * 0.93 * 25.6 \<and>
     MUr s = 1.15 / (MUO * 875 * 1000) \<and>
     Am s = 20900 \<and>
     FAIM s = 22448.69"

section \<open>The attributes written by each stage\<close>

text \<open>
  \<open>stage_attributes k s\<close> lists the values of the attributes that stage \<open>k\<close> of the pipeline
  assigns, read from the attribute record \<open>s\<close>. Two attribute records with
  \<open>same_attributes n\<close> agree on everything that the stages 1 to \<open>n\<close> assign.
\<close>

definition stage_attributes :: "nat \<Rightarrow> derived \<Rightarrow> real list" where
  "stage_attributes k s =
     (if k = 1 then
        [OMGs s, nN s, IN s, TN s, TAO s]
      else if k = 2 then
        [N s, Kp1 s, Kd1 s, Ksk1 s, Kdp s]
      else if k = 3 then
        [t1 s, D2 s, t2 s, hs1 s, bt1 s, hj1 s, ht1 s, Lj1 s, hr1 s, hr2 s, hr s, AB s,
         hj2 s, bt2 s, DR s, Lj2 s, Vt1 s, Vj1 s]
      else if k = 4 then
        [Br s, Hc s, MUr s, Am s, Vm s, mm s, FF s, FAIM s]
      else if k = 5 then
        [Bg s, Bts s, Bj1 s, Btr s, Bj2 s, bm0 s, LUMDAn s, LUMDAs s, FI0 s, Bg1 s, E0 s,
         Kst s]
      else if k = 6 then
        [fd s, Ls s, Rs s, X1 s, R2 s, X2 s]
      else if k = 7 then
        [Xad s, Xd s, Xaq s, Xq s, Kad s, Kaq s, bmN s]
      else if k = 8 then
        [mCu s, mFe s, mAl s]
      else if k = 9 then
        [pCu s, pFe s, pfw s, ps s, pSum s]
      else if k = 10 then
        [Ist_calc s, Ist_ratio s, Tst_calc s]
      else if k = 11 then
        [eta_actual s, cosfi_actual s, theta_actual s, phi_actual s, Sf_actual s,
         A1_actual s, J1_actual s, A1J1_actual s, bmh_actual s]
      else [])"

definition same_attributes :: "nat \<Rightarrow> derived \<Rightarrow> derived \<Rightarrow> bool" where
  "same_attributes n sa sb =
     (\<forall>k. 1 \<le> k \<and> k \<le> n \<longrightarrow> stage_attributes k sa = stage_attributes k sb)"

section \<open>Bounds on the constants\<close>

text \<open>Bounds on \<open>pi\<close> from the Maclaurin polynomial of the sine at \<open>pi / 6\<close>.\<close>

lemma sin_coeff_vals:
  "sin_coeff 0 = 0" "sin_coeff 1 = 1" "sin_coeff 2 = 0" "sin_coeff 3 = - 1 / 6"
  "sin_coeff 4 = 0" "sin_coeff 5 = 1 / 120" "sin_coeff 6 = 0" "sin_coeff 7 = - 1 / 5040"
  "sin_coeff 8 = 0" "sin_coeff 9 = 1 / 362880"
  by (simp_all add: sin_coeff_def fact_numeral)

lemma sin_taylor10:
  "\<bar>sin x - (x - x^3/6 + x^5/120 - x^7/5040 + x^9/362880)\<bar> \<le> \<bar>x\<bar>^10 / 3628800" for x :: real
proof -
  have set: "{..<10::nat} = {0, 1, 2, 3, 4, 5, 6, 7, 8, 9}" by auto
  have "(\<Sum>k<10. sin_coeff k * x ^ k) = x - x^3/6 + x^5/120 - x^7/5040 + x^9/362880"
    unfolding set using sin_coeff_vals(2) by (simp add: sin_coeff_vals)
  moreover have f10: "(fact 10 :: real) = 3628800"
    by (simp add: fact_numeral)
  moreover have "inverse (fact 10) * \<bar>x\<bar>^10 = \<bar>x\<bar>^10 / 3628800"
    unfolding f10 by (simp add: field_simps)
  ultimately show ?thesis using Maclaurin_sin_bound[of x 10] by simp
qed

lemma pi_lower: "3.1415 < pi"
proof -
  define x :: real where "x = 0.52359"
  have "sin x \<le> (x - x^3/6 + x^5/120 - x^7/5040 + x^9/362880) + \<bar>x\<bar>^10 / 3628800"
    using sin_taylor10[of x] by linarith
  also have "\<dots> < 1/2" unfolding x_def by (simp add: power_numeral_reduce)
  finally have "sin x < sin (pi/6)" by (simp add: sin_30)
  moreover have "- (pi/2) \<le> x" "x \<le> pi/2" using pi_ge_two unfolding x_def by simp_all
  moreover have "- (pi/2) \<le> pi/6" "pi/6 \<le> pi/2" using pi_ge_two by simp_all
  ultimately have "x < pi/6" using sin_mono_less_eq[of x "pi/6"] by blast
  then show ?thesis unfolding x_def by simp
qed

lemma pi_upper: "pi < 3.1416"
proof -
  define x :: real where "x = 0.5236"
  have "(x - x^3/6 + x^5/120 - x^7/5040 + x^9/362880) - \<bar>x\<bar>^10 / 3628800 \<le> sin x"
    using sin_taylor10[of x] by linarith
  moreover have "1/2 < (x - x^3/6 + x^5/120 - x^7/5040 + x^9/362880) - \<bar>x\<bar>^10 / 3628800"
    unfolding x_def by (simp add: power_numeral_reduce)
  ultimately have "sin (pi/6) < sin x" by (simp add: sin_30)
  moreover have "- (pi/2) \<le> x" "x \<le> pi/2" using pi_ge_two unfolding x_def by simp_all
  moreover have "- (pi/2) \<le> pi/6" "pi/6 \<le> pi/2" using pi_ge_two by simp_all
  ultimately have "pi/6 < x" using sin_mono_less_eq[of "pi/6" x] by blast
  then show ?thesis unfolding x_def by simp
qed

lemma MUO_pos: "0 < MUO"
  by (simp add: MUO_def)

lemma upper_Y: "upper ''Y'' = ''Y''" "upper ''y'' = ''Y''" "upper ''J'' \<noteq> ''Y''"
  by (simp_all add: upper_def upper_char_def char_of_def bit_simps)

section \<open>Interpolation: bounds and monotonicity\<close>
lemma np_interp_bounds:
  "sorted_wrt (<) xs \<Longrightarrow> sorted ys \<Longrightarrow> length xs = length ys \<Longrightarrow> xs \<noteq> [] \<Longrightarrow>
     hd ys \<le> np_interp x xs ys \<and> np_interp x xs ys \<le> last ys"
proof (induction x xs ys rule: np_interp.induct)
  case (1 x x0 x1 xs y0 y1 ys)
  have lt: "x0 < x1" and le: "y0 \<le> y1" using "1.prems" by auto
  have y1l: "y1 \<le> last (y1 # ys)" using "1.prems"(2) by (cases ys) (auto simp: last_conv_nth)
  show ?case
  proof (cases "x \<le> x0")
    case True
    then show ?thesis using le y1l by simp
  next
    case False
    note nle = this
    show ?thesis
    proof (cases "x < x1")
      case True
      have s: "0 \<le> (y1 - y0) / (x1 - x0)" using lt le by simp
      have a: "0 \<le> (y1 - y0) / (x1 - x0) * (x - x0)" using s nle by (intro mult_nonneg_nonneg) auto
      have "(y1 - y0) / (x1 - x0) * (x - x0) \<le> (y1 - y0) / (x1 - x0) * (x1 - x0)"
        using s True by (intro mult_left_mono) auto
      also have "\<dots> = y1 - y0" using lt by simp
      finally have b: "(y1 - y0) / (x1 - x0) * (x - x0) + y0 \<le> y1" by simp
      show ?thesis using nle True a b y1l by simp
    next
      case False
      have "hd (y1 # ys) \<le> np_interp x (x1 # xs) (y1 # ys) \<and>
            np_interp x (x1 # xs) (y1 # ys) \<le> last (y1 # ys)"
        using "1.IH"[OF nle False] "1.prems" by simp
      then show ?thesis using nle False le by simp
    qed
  qed
next
  case (2 x x0 y0 ys)
  then show ?case by simp
qed auto

lemma np_interp_mono:
  "sorted_wrt (<) xs \<Longrightarrow> sorted ys \<Longrightarrow> length xs = length ys \<Longrightarrow> u \<le> v \<Longrightarrow>
     np_interp u xs ys \<le> np_interp v xs ys"
proof (induction u xs ys rule: np_interp.induct)
  case (1 u x0 x1 xs y0 y1 ys)
  have lt: "x0 < x1" and le: "y0 \<le> y1" using "1.prems" by auto
  have tl: "sorted_wrt (<) (x1 # xs)" "sorted (y1 # ys)" "length (x1 # xs) = length (y1 # ys)"
    using "1.prems" by auto
  have bb: "y0 \<le> np_interp v (x0 # x1 # xs) (y0 # y1 # ys)"
    using np_interp_bounds[OF "1.prems"(1,2,3), of v] by simp
  have s: "0 \<le> (y1 - y0) / (x1 - x0)" using lt le by simp
  show ?case
  proof (cases "u \<le> x0")
    case True
    then show ?thesis using bb by simp
  next
    case False
    note nle = this
    then have bnle: "\<not> v \<le> x0" using "1.prems"(4) by simp
    show ?thesis
    proof (cases "u < x1")
      case True
      note alt = this
      show ?thesis
      proof (cases "v < x1")
        case True
        have "(y1 - y0) / (x1 - x0) * (u - x0) \<le> (y1 - y0) / (x1 - x0) * (v - x0)"
          using s "1.prems"(4) by (intro mult_left_mono) auto
        then show ?thesis using nle bnle alt True by simp
      next
        case False
        have "(y1 - y0) / (x1 - x0) * (u - x0) \<le> (y1 - y0) / (x1 - x0) * (x1 - x0)"
          using s alt by (intro mult_left_mono) auto
        also have "\<dots> = y1 - y0" using lt by simp
        finally have q: "(y1 - y0) / (x1 - x0) * (u - x0) + y0 \<le> y1" by simp
        have "y1 \<le> np_interp v (x1 # xs) (y1 # ys)"
          using np_interp_bounds[OF tl, of v] by simp
        then show ?thesis using nle bnle alt False q by simp
      qed
    next
      case False
      then have bf: "\<not> v < x1" using "1.prems"(4) by simp
      have "np_interp u (x1 # xs) (y1 # ys) \<le> np_interp v (x1 # xs) (y1 # ys)"
        using "1.IH"[OF nle False tl "1.prems"(4)] .
      then show ?thesis using nle bnle False bf by simp
    qed
  qed
qed auto

lemma linear_interpolation_mono:
  assumes "sorted_wrt (<) xs" "sorted ys" "length xs = length ys" "xs \<noteq> []" "u \<le> v"
  shows "\<exists>q r. linear_interpolation xs ys u = Inr q \<and> linear_interpolation xs ys v = Inr r \<and> q \<le> r"
proof -
  have ys: "ys \<noteq> []" using assms(3,4) by auto
  have hl: "hd ys \<le> last ys" using assms(2) ys
    by (metis hd_conv_nth last_conv_nth sorted_nth_mono diff_less length_greater_0_conv less_one zero_le order_refl less_or_eq_imp_le)
  have hx: "hd xs \<le> last xs" using assms(1,4)
    by (metis hd_conv_nth last_conv_nth sorted_wrt_nth_less diff_less length_greater_0_conv less_one not_gr_zero order_refl less_imp_le)
  note bd = np_interp_bounds[OF assms(1,2,3,4)]
  note mn = np_interp_mono[OF assms(1,2,3,5)]
  show ?thesis using assms(4,5) ys hl hx bd[of u] bd[of v] mn
    by (auto simp: linear_interpolation_def)
qed

lemma B_data_sorted: "sorted_wrt (<) B_data"
  by (simp add: B_data_def)
lemma H_data_sorted: "H_data k = Some ys \<Longrightarrow> sorted ys \<and> length ys = 37 \<and> 0 < hd ys"
  by (auto simp: H_data_def split: if_splits)
lemma P_data_sorted: "P_data k = Some ys \<Longrightarrow> sorted ys \<and> length ys = 37 \<and> 0 < hd ys"
  by (auto simp: P_data_def split: if_splits)

lemma lookup_bounds:
  assumes "sorted ys" "length ys = 37"
  shows "\<exists>h. linear_interpolation B_data ys B = Inr h \<and> hd ys \<le> h \<and> h \<le> last ys"
proof -
  have ne: "B_data \<noteq> []" "ys \<noteq> []" using assms(2) by (auto simp: B_data_def)
  have len: "length B_data = length ys" using assms(2) by (simp add: B_data_def)
  have hl: "hd ys \<le> last ys"
    using linear_interpolation_mono[OF B_data_sorted assms(1) len ne(1), of 0 3] ne
    by (simp add: linear_interpolation_def B_data_def)
  show ?thesis
    using np_interp_bounds[OF B_data_sorted assms(1) len ne(1), of B] ne hl
    by (auto simp: linear_interpolation_def)
qed

lemma get_BH_curve_5:
  "\<exists>h. get_BH_curve B 5 = Inr h \<and> 80 \<le> h \<and> h \<le> 8100"
proof -
  obtain ys where ys: "H_data 5 = Some ys" "hd ys = 80" "last ys = 8100"
    by (simp add: H_data_def)
  from lookup_bounds[of ys B] H_data_sorted[OF ys(1)] ys show ?thesis
    by (auto simp: get_BH_curve_def)
qed

lemma get_BH_curve_5_mono:
  assumes "B \<le> B'" "get_BH_curve B 5 = Inr h" "get_BH_curve B' 5 = Inr h'"
  shows "h \<le> h'"
proof -
  obtain ys where ys: "H_data 5 = Some ys" by (simp add: H_data_def)
  have ne: "B_data \<noteq> []" by (simp add: B_data_def)
  have len: "length B_data = length ys" using H_data_sorted[OF ys] by (simp add: B_data_def)
  from linear_interpolation_mono[OF B_data_sorted _ len ne assms(1)] H_data_sorted[OF ys]
  show ?thesis using assms(2,3) ys by (auto simp: get_BH_curve_def)
qed

lemma get_iron_loss_5:
  "\<exists>q. get_iron_loss B 5 = Inr q \<and> 0.5 \<le> q \<and> q \<le> 168.5"
proof -
  obtain ys where ys: "P_data 5 = Some ys" "hd ys = 0.5" "last ys = 168.5"
    by (simp add: P_data_def)
  from lookup_bounds[of ys B] P_data_sorted[OF ys(1)] ys show ?thesis
    by (auto simp: get_iron_loss_def)
qed

lemma get_iron_loss_5_mono:
  assumes "B \<le> B'" "get_iron_loss B 5 = Inr q" "get_iron_loss B' 5 = Inr q'"
  shows "q \<le> q'"
proof -
  obtain ys where ys: "P_data 5 = Some ys" by (simp add: P_data_def)
  have ne: "B_data \<noteq> []" by (simp add: B_data_def)
  have len: "length B_data = length ys" using P_data_sorted[OF ys] by (simp add: B_data_def)
  from linear_interpolation_mono[OF B_data_sorted _ len ne assms(1)] P_data_sorted[OF ys]
  show ?thesis using assms(2,3) ys by (auto simp: get_iron_loss_def)
qed

section \<open>What each stage writes\<close>

lemma ebind_Inr_E:
  assumes "ebind u h = Inr w"
  obtains v where "u = Inr v" "h v = Inr w"
  using assms by (cases u) (auto simp: ebind_def)

lemma frame_stage1:
  assumes "calculate_basic_parameters prm s = Inr s'"
  shows "s' = s\<lparr>OMGs := OMGs s', nN := nN s', IN := IN s', TN := TN s', TAO := TAO s'\<rparr>"
  using assms unfolding calculate_basic_parameters_def Let_def
  by (elim ebind_Inr_E) auto

lemma frame_stage2:
  assumes "calculate_winding_parameters prm s = Inr s'"
  shows "s' = s\<lparr>N := N s', Kp1 := Kp1 s', Kd1 := Kd1 s', Ksk1 := Ksk1 s', Kdp := Kdp s'\<rparr>"
  using assms unfolding calculate_winding_parameters_def Let_def
  by (elim ebind_Inr_E) auto

lemma frame_stage3:
  assumes "calculate_geometry_parameters prm s = Inr s'"
  shows "s' = s\<lparr>t1 := t1 s', D2 := D2 s', t2 := t2 s', hs1 := hs1 s', bt1 := bt1 s',
            hj1 := hj1 s', ht1 := ht1 s', Lj1 := Lj1 s', hr1 := hr1 s', hr2 := hr2 s',
            hr := hr s', AB := AB s', hj2 := hj2 s', bt2 := bt2 s', DR := DR s', Lj2 := Lj2 s',
            Vt1 := Vt1 s', Vj1 := Vj1 s'\<rparr>"
  using assms unfolding calculate_geometry_parameters_def Let_def
  by (elim ebind_Inr_E) auto

lemma frame_stage4:
  assumes "calculate_magnet_parameters prm s = Inr s'"
  shows "s' = s\<lparr>Br := Br s', Hc := Hc s', MUr := MUr s', Am := Am s', Vm := Vm s',
            mm := mm s', FF := FF s', FAIM := FAIM s'\<rparr>"
  using assms unfolding calculate_magnet_parameters_def Let_def
  by (elim ebind_Inr_E) auto

lemma frame_stage6:
  assumes "calculate_impedances prm s = Inr s'"
  shows "s' = s\<lparr>fd := fd s', Ls := Ls s', Rs := Rs s', X1 := X1 s', R2 := R2 s', X2 := X2 s'\<rparr>"
  using assms unfolding calculate_impedances_def Let_def
  by (elim ebind_Inr_E) auto

lemma frame_stage7:
  assumes "calculate_performance prm s = Inr s'"
  shows "s' = s\<lparr>Xad := Xad s', Xd := Xd s', Xaq := Xaq s', Xq := Xq s', Kad := Kad s',
            Kaq := Kaq s', bmN := bmN s'\<rparr>"
  using assms unfolding calculate_performance_def Let_def
  by auto

lemma frame_stage8:
  assumes "calculate_material_weights prm s = Inr s'"
  shows "s' = s\<lparr>mCu := mCu s', mFe := mFe s', mAl := mAl s'\<rparr>"
  using assms unfolding calculate_material_weights_def Let_def
  by auto

lemma frame_stage9:
  assumes "calculate_losses prm s = Inr s'"
  shows "s' = s\<lparr>pCu := pCu s', pFe := pFe s', pfw := pfw s', ps := ps s', pSum := pSum s'\<rparr>"
  using assms unfolding calculate_losses_def Let_def
  by (elim ebind_Inr_E) auto

lemma frame_stage10:
  assumes "calculate_starting_characteristics prm s = Inr s'"
  shows "s' = s\<lparr>Ist_calc := Ist_calc s', Ist_ratio := Ist_ratio s', Tst_calc := Tst_calc s'\<rparr>"
  using assms unfolding calculate_starting_characteristics_def Let_def
  by auto

lemma frame_stage11:
  assumes "calculate_actual_performance prm s = Inr s'"
  shows "s' = s\<lparr>eta_actual := eta_actual s', cosfi_actual := cosfi_actual s',
            theta_actual := theta_actual s', phi_actual := phi_actual s',
            Sf_actual := Sf_actual s', A1_actual := A1_actual s', J1_actual := J1_actual s',
            A1J1_actual := A1J1_actual s', bmh_actual := bmh_actual s'\<rparr>"
  using assms unfolding calculate_actual_performance_def Let_def
  by (elim ebind_Inr_E) auto

lemma magnetic_round_frame:
  assumes "magnetic_round prm s x = Inr (s', l)"
  shows "s' = s\<lparr>Bg := Bg s', Bts := Bts s', Bj1 := Bj1 s', Btr := Btr s', Bj2 := Bj2 s'\<rparr>"
  using assms unfolding magnetic_round_def ebind_def Let_def
  by (auto split: sum.splits)

lemma calculate_gap_factor_fields:
  "calculate_gap_factor prm (s\<lparr>Bg := qg, Bts := qts, Bj1 := qja, Btr := qtr, Bj2 := qjb\<rparr>)
     = calculate_gap_factor prm s"
  by (simp add: calculate_gap_factor_def)

lemma magnetic_round_fields:
  "magnetic_round prm (s\<lparr>Bg := qg, Bts := qts, Bj1 := qja, Btr := qtr, Bj2 := qjb\<rparr>) x
     = magnetic_round prm s x"
  unfolding magnetic_round_def Let_def
  by (cases "Lev prm = 1") (simp_all add: calculate_gap_factor_def)


lemma no_load_rounds_fields:
  "0 < n \<Longrightarrow>
   no_load_rounds n k prm (s\<lparr>Bg := qg, Bts := qts, Bj1 := qja, Btr := qtr, Bj2 := qjb\<rparr>) x l
     = no_load_rounds n k prm s x l"
  by (cases n) (simp_all add: magnetic_round_fields)

lemma no_load_rounds_trace:
  assumes "no_load_rounds n k prm s x l = Inr (s', lst, r)" and "0 < n"
  shows "\<exists>xs ls. length xs = r - k \<and> length ls = r - k \<and> k < r \<and> r \<le> k + n \<and>
           hd xs = x \<and> lst = Some (last ls) \<and>
           (\<forall>i < r - k. \<exists>si. magnetic_round prm s (xs ! i) = Inr (si, ls ! i) \<and>
               (Suc i < r - k \<longrightarrow> \<not> converged (loc_bm0 (ls ! i)) (xs ! i) \<and>
                   xs ! Suc i = (xs ! i + loc_bm0 (ls ! i)) / 2) \<and>
               (Suc i = r - k \<longrightarrow> si = s' \<and>
                   (r < k + n \<longrightarrow> converged (loc_bm0 (ls ! i)) (xs ! i))))"
  using assms
proof (induction n arbitrary: k s x l)
  case 0
  then show ?case by simp
next
  case (Suc n)
  from Suc.prems(1) obtain s1 l1 where rd: "magnetic_round prm s x = Inr (s1, l1)"
    by (auto split: sum.splits)
  show ?case
  proof (cases "converged (loc_bm0 l1) x")
    case True
    then have res: "s' = s1" "lst = Some l1" "r = Suc k" using Suc.prems(1) rd by auto
    show ?thesis
      by (rule exI[of _ "[x]"], rule exI[of _ "[l1]"]) (use res rd True in auto)
  next
    case False
    then have rec: "no_load_rounds n (Suc k) prm s1 ((x + loc_bm0 l1) / 2) (Some l1) = Inr (s', lst, r)"
      using Suc.prems(1) rd by simp
    show ?thesis
    proof (cases n)
      case 0
      then have res: "s' = s1" "lst = Some l1" "r = Suc k" using rec by auto
      show ?thesis
        by (rule exI[of _ "[x]"], rule exI[of _ "[l1]"]) (use res rd False 0 in auto)
    next
      case (Suc n')
      then have npos: "0 < n" by simp
      have s1: "s1 = s\<lparr>Bg := Bg s1, Bts := Bts s1, Bj1 := Bj1 s1, Btr := Btr s1, Bj2 := Bj2 s1\<rparr>"
        using magnetic_round_frame[OF rd] .
      have rec': "no_load_rounds n (Suc k) prm s ((x + loc_bm0 l1) / 2) (Some l1) = Inr (s', lst, r)"
        using rec no_load_rounds_fields[OF npos, where s = s and qg = "Bg s1" and qts = "Bts s1"
            and qja = "Bj1 s1" and qtr = "Btr s1" and qjb = "Bj2 s1"]
          s1 by metis
      from Suc.IH[OF rec' npos] obtain xs ls where
        len: "length xs = r - Suc k" "length ls = r - Suc k" and
        bnd: "Suc k < r" "r \<le> Suc k + n" and
        hd: "hd xs = (x + loc_bm0 l1) / 2" and lst: "lst = Some (last ls)" and
        steps: "\<forall>i < r - Suc k. \<exists>si. magnetic_round prm s (xs ! i) = Inr (si, ls ! i) \<and>
               (Suc i < r - Suc k \<longrightarrow> \<not> converged (loc_bm0 (ls ! i)) (xs ! i) \<and>
                   xs ! Suc i = (xs ! i + loc_bm0 (ls ! i)) / 2) \<and>
               (Suc i = r - Suc k \<longrightarrow> si = s' \<and>
                   (r < Suc k + n \<longrightarrow> converged (loc_bm0 (ls ! i)) (xs ! i)))"
        by blast
      have ne: "xs \<noteq> []" "ls \<noteq> []" using len bnd by auto
      have x0: "xs ! 0 = (x + loc_bm0 l1) / 2" using hd ne by (simp add: hd_conv_nth)
      have step: "\<exists>si. magnetic_round prm s ((x # xs) ! i) = Inr (si, (l1 # ls) ! i) \<and>
               (Suc i < r - k \<longrightarrow> \<not> converged (loc_bm0 ((l1 # ls) ! i)) ((x # xs) ! i) \<and>
                   (x # xs) ! Suc i = ((x # xs) ! i + loc_bm0 ((l1 # ls) ! i)) / 2) \<and>
               (Suc i = r - k \<longrightarrow> si = s' \<and>
                   (r < k + Suc n \<longrightarrow> converged (loc_bm0 ((l1 # ls) ! i)) ((x # xs) ! i)))"
        if "i < r - k" for i
      proof (cases i)
        case 0
        then show ?thesis using rd False x0 bnd by auto
      next
        case (Suc j)
        then have j: "j < r - Suc k" using that by simp
        from steps[rule_format, OF j] obtain si where
          "magnetic_round prm s (xs ! j) = Inr (si, ls ! j)"
          "Suc j < r - Suc k \<longrightarrow> \<not> converged (loc_bm0 (ls ! j)) (xs ! j) \<and>
                   xs ! Suc j = (xs ! j + loc_bm0 (ls ! j)) / 2"
          "Suc j = r - Suc k \<longrightarrow> si = s' \<and>
                   (r < Suc k + n \<longrightarrow> converged (loc_bm0 (ls ! j)) (xs ! j))"
          by blast
        then show ?thesis using Suc bnd by (intro exI[of _ si]) auto
      qed
      show ?thesis
        by (rule exI[of _ "x # xs"], rule exI[of _ "l1 # ls"])
          (use len bnd lst ne step in \<open>auto simp: Suc_diff_Suc\<close>)
    qed
  qed
qed

lemma no_load_rounds_error:
  assumes "no_load_rounds n k prm s x l = Inl e"
  shows "\<exists>xi. magnetic_round prm s xi = Inl e"
  using assms
proof (induction n arbitrary: k s x l)
  case 0
  then show ?case by simp
next
  case (Suc n)
  show ?case
  proof (cases "magnetic_round prm s x")
    case (Inl e')
    then show ?thesis using Suc.prems by auto
  next
    case (Inr res)
    obtain s1 l1 where res: "res = (s1, l1)" by (cases res)
    have rd: "magnetic_round prm s x = Inr (s1, l1)" using Inr res by simp
    have s1: "s1 = s\<lparr>Bg := Bg s1, Bts := Bts s1, Bj1 := Bj1 s1, Btr := Btr s1, Bj2 := Bj2 s1\<rparr>"
      using magnetic_round_frame[OF rd] .
    from Suc.prems rd have rec: "no_load_rounds n (Suc k) prm s1 ((x + loc_bm0 l1) / 2) (Some l1) = Inl e"
      by (auto split: if_splits)
    from Suc.IH[OF rec] obtain xi where "magnetic_round prm s1 xi = Inl e" by blast
    then have "magnetic_round prm s xi = Inl e"
      using magnetic_round_fields[where s = s and qg = "Bg s1" and qts = "Bts s1"
          and qja = "Bj1 s1" and qtr = "Btr s1" and qjb = "Bj2 s1"] s1 by metis
    then show ?thesis by blast
  qed
qed

lemma no_load_rounds_frame:
  assumes "no_load_rounds n k prm s x l = Inr (s', lst, r)"
  shows "s' = s\<lparr>Bg := Bg s', Bts := Bts s', Bj1 := Bj1 s', Btr := Btr s', Bj2 := Bj2 s'\<rparr>"
  using assms
proof (induction n arbitrary: k s x l)
  case 0
  then show ?case by simp
next
  case (Suc n)
  from Suc.prems obtain s1 l1 where rd: "magnetic_round prm s x = Inr (s1, l1)"
    by (auto split: sum.splits)
  have s1: "s1 = s\<lparr>Bg := Bg s1, Bts := Bts s1, Bj1 := Bj1 s1, Btr := Btr s1, Bj2 := Bj2 s1\<rparr>"
    using magnetic_round_frame[OF rd] .
  show ?case
  proof (cases "converged (loc_bm0 l1) x")
    case True
    then have "s' = s1" using Suc.prems rd by simp
    then show ?thesis using s1 by simp
  next
    case False
    then have "no_load_rounds n (Suc k) prm s1 ((x + loc_bm0 l1) / 2) (Some l1) = Inr (s', lst, r)"
      using Suc.prems rd by simp
    from Suc.IH[OF this]
    have "s' = s1\<lparr>Bg := Bg s', Bts := Bts s', Bj1 := Bj1 s', Btr := Btr s', Bj2 := Bj2 s'\<rparr>" .
    then show ?thesis by (subst (asm) s1) simp
  qed
qed

lemma frame_stage5:
  assumes "calculate_no_load_magnetic_circuit prm s = Inr s'"
  shows "s' = s\<lparr>Bg := Bg s', Bts := Bts s', Bj1 := Bj1 s', Btr := Btr s', Bj2 := Bj2 s',
            bm0 := bm0 s', LUMDAn := LUMDAn s', LUMDAs := LUMDAs s', FI0 := FI0 s',
            Bg1 := Bg1 s', E0 := E0 s', Kst := Kst s'\<rparr>"
proof -
  from assms obtain b res where
    res: "no_load_rounds 30 0 prm s b None = Inr res" and
    post: "(case res of (s1, last_round, rounds) \<Rightarrow>
       case last_round of
         None \<Rightarrow> Inl NameError
       | Some l \<Rightarrow>
           let bm0' = loc_bm0 l;
               FI0' = bm0' * FAIM s1 / SIGMA0 prm * (1 / 10 ^ 6);
               Kf = 4 / pi * sin (pi * RFAi / 2);
               Bg1' = Kf * loc_FI01 l / (RFAi * TAO s1 * (La prm + 2 * g prm)) * 10 ^ 6;
               KFI = 8 / (pi * pi) / RFAi * sin (RFAi * pi / 2);
               E0' = 4.44 * f prm * N s1 * Kdp s1 * FI0' * KFI in
           ebind (calculate_gap_factor prm s1) (\<lambda>Kg.
           let Fgg = Bg s1 / MUO * g prm * Kg * (1 / 10 ^ 3) in
           Inr (s1\<lparr>bm0 := bm0', LUMDAn := loc_LUMDAn l,
                   LUMDAs := (SIGMA0 prm - 1) * loc_LUMDAm l, FI0 := FI0',
                   Bg1 := Bg1', E0 := E0',
                   Kst := (Fgg + loc_Ft1 l + loc_Ft2 l) / Fgg\<rparr>))) = Inr s'"
    unfolding calculate_no_load_magnetic_circuit_def by (elim ebind_Inr_E) auto
  obtain s1 lst r where r: "res = (s1, lst, r)" by (cases res)
  obtain l where l: "lst = Some l" using post r by (cases lst) auto
  have s1: "s1 = s\<lparr>Bg := Bg s1, Bts := Bts s1, Bj1 := Bj1 s1, Btr := Btr s1, Bj2 := Bj2 s1\<rparr>"
    using no_load_rounds_frame res r by blast
  from post r l have eq:
    "s' = s1\<lparr>bm0 := bm0 s', LUMDAn := LUMDAn s', LUMDAs := LUMDAs s', FI0 := FI0 s',
             Bg1 := Bg1 s', E0 := E0 s', Kst := Kst s'\<rparr>"
    unfolding Let_def by (auto elim!: ebind_Inr_E)
  have same: "Bg s' = Bg s1" "Bts s' = Bts s1" "Bj1 s' = Bj1 s1" "Btr s' = Btr s1"
    "Bj2 s' = Bj2 s1"
    by (subst eq, simp)+
  from eq show ?thesis unfolding same by (subst (asm) s1) simp
qed

section \<open>Stages 1 to 4 on the default parameters\<close>

lemma ref_stage1:
  "\<exists>s1. calculate_basic_parameters (MotorParameters_defaults\<lparr>steel_type := k\<rparr>) s = Inr s1 \<and>
     IN s1 = 15000 / (3 * (380 / sqrt 3) * 0.935 * 0.95) \<and> TAO s1 = pi * 170 / 4"
  by (simp add: calculate_basic_parameters_def ebind_def pydiv_def div_by_def Let_def
      MotorParameters_defaults_def upper_Y)

lemma ref_stage2:
  assumes "TAO s = pi * 170 / 4"
  shows "\<exists>s2. calculate_winding_parameters (MotorParameters_defaults\<lparr>steel_type := k\<rparr>) s = Inr s2 \<and>
     N s2 = 78"
proof -
  have "0 < pi * 170 / 4" by simp
  then have "TAO s \<noteq> 0" unfolding assms[symmetric] by simp
  then show ?thesis
    by (simp add: calculate_winding_parameters_def ebind_def pydiv_def Let_def
        MotorParameters_defaults_def upper_Y)
qed

lemma ref_stage3:
  "\<exists>s3. calculate_geometry_parameters (MotorParameters_defaults\<lparr>steel_type := k\<rparr>) s = Inr s3 \<and>
     t1 s3 = pi * 170 / 36 \<and> t2 s3 = pi * 168.7 / 32 \<and> hs1 s3 = 1.95 * (1 / sqrt 3) \<and>
     bt1 s3 = 202 * pi / 36 - 10.2 \<and> hj1 s3 = 25.6 \<and> ht1 s3 = 16.9 \<and>
     Lj1 s3 = pi * 234.4 / 8 \<and> hr s3 = 15.8 \<and> hj2 s3 = 33.25 \<and>
     bt2 s3 = 137.1 * pi / 32 - 5.5 \<and> Lj2 s3 = pi * 93.25 / 8 \<and>
     Vt1 s3 = 36 * 190 * 0.93 * 16.9 * (202 * pi / 36 - 10.2) \<and>
     Vj1 s3 = pi * 234.4 * 190 * 0.93 * 25.6"
  by (simp add: calculate_geometry_parameters_def ebind_def pydiv_def Let_def
      MotorParameters_defaults_def tan_30)

lemma ref_stage4:
  "\<exists>s4. calculate_magnet_parameters (MotorParameters_defaults\<lparr>steel_type := k\<rparr>) s = Inr s4 \<and>
     MUr s4 = 1.15 / (MUO * 875 * 1000) \<and> Am s4 = 20900 \<and> FAIM s4 = 22448.69"
proof -
  have "MUO * 875 * 1000 \<noteq> 0" using MUO_pos by simp
  then show ?thesis
    by (simp add: calculate_magnet_parameters_def ebind_def pydiv_def Let_def
      MotorParameters_defaults_def)
qed

lemma run_stages_append:
  "run_stages (xs @ ys) prm s lg =
     (case run_stages xs prm s lg of
        (Inl e, lg') \<Rightarrow> (Inl e, lg')
      | (Inr s', lg') \<Rightarrow> run_stages ys prm s' lg')"
  by (induction xs arbitrary: s lg) (auto split: sum.splits)

lemma ref_stages_1_4:
  "\<exists>s4. run_stages (take 4 pipeline) (MotorParameters_defaults\<lparr>steel_type := k\<rparr>) s []
          = (Inr s4, [1, 2, 3, 4]) \<and> reference_geometry s4"
proof -
  let ?P = "MotorParameters_defaults\<lparr>steel_type := k\<rparr>"
  obtain s1 where s1: "calculate_basic_parameters ?P s = Inr s1"
    "IN s1 = 15000 / (3 * (380 / sqrt 3) * 0.935 * 0.95)" "TAO s1 = pi * 170 / 4"
    using ref_stage1 by blast
  obtain s2 where s2: "calculate_winding_parameters ?P s1 = Inr s2" "N s2 = 78"
    using ref_stage2[OF s1(3)] by blast
  note f2 = frame_stage2[OF s2(1)]
  obtain s3 where s3: "calculate_geometry_parameters ?P s2 = Inr s3"
     "t1 s3 = pi * 170 / 36" "t2 s3 = pi * 168.7 / 32" "hs1 s3 = 1.95 * (1 / sqrt 3)"
     "bt1 s3 = 202 * pi / 36 - 10.2" "hj1 s3 = 25.6" "ht1 s3 = 16.9"
     "Lj1 s3 = pi * 234.4 / 8" "hr s3 = 15.8" "hj2 s3 = 33.25"
     "bt2 s3 = 137.1 * pi / 32 - 5.5" "Lj2 s3 = pi * 93.25 / 8"
     "Vt1 s3 = 36 * 190 * 0.93 * 16.9 * (202 * pi / 36 - 10.2)"
     "Vj1 s3 = pi * 234.4 * 190 * 0.93 * 25.6"
    using ref_stage3 by blast
  note f3 = frame_stage3[OF s3(1)]
  obtain s4 where s4: "calculate_magnet_parameters ?P s3 = Inr s4"
     "MUr s4 = 1.15 / (MUO * 875 * 1000)" "Am s4 = 20900" "FAIM s4 = 22448.69"
    using ref_stage4 by blast
  note f4 = frame_stage4[OF s4(1)]
  have a2: "IN s2 = IN s1" "TAO s2 = TAO s1" by (subst f2, simp)+
  have a3: "IN s3 = IN s2" "TAO s3 = TAO s2" "N s3 = N s2" by (subst f3, simp)+
  have a4: "IN s4 = IN s3" "TAO s4 = TAO s3" "N s4 = N s3"
    "t1 s4 = t1 s3" "t2 s4 = t2 s3" "hs1 s4 = hs1 s3" "bt1 s4 = bt1 s3" "hj1 s4 = hj1 s3"
    "ht1 s4 = ht1 s3" "Lj1 s4 = Lj1 s3" "hr s4 = hr s3" "hj2 s4 = hj2 s3" "bt2 s4 = bt2 s3"
    "Lj2 s4 = Lj2 s3" "Vt1 s4 = Vt1 s3" "Vj1 s4 = Vj1 s3"
    by (subst f4, simp)+
  have "reference_geometry s4"
    unfolding reference_geometry_def a4 a3 a2 using s1(2,3) s2(2) s3(2-) s4(2-) by simp
  moreover have "run_stages (take 4 pipeline) ?P s [] = (Inr s4, [1, 2, 3, 4])"
    using s1(1) s2(1) s3(1) s4(1) by (simp add: pipeline_def)
  ultimately show ?thesis by blast
qed

lemma ref_bt1: "7.427 < 202 * pi / 36 - 10.2" "202 * pi / 36 - 10.2 < 7.428"
  using pi_lower pi_upper by simp_all

lemma ref_bt2: "7.959 < 137.1 * pi / 32 - 5.5" "137.1 * pi / 32 - 5.5 < 7.96"
  using pi_lower pi_upper by simp_all

lemma ref_fields:
  assumes "reference_geometry s"
  shows "IN s = 15000 / (3 * (380 / sqrt 3) * 0.935 * 0.95)"
    "TAO s = pi * 170 / 4" "N s = 78" "t1 s = pi * 170 / 36" "t2 s = pi * 168.7 / 32"
    "hs1 s = 1.95 * (1 / sqrt 3)" "bt1 s = 202 * pi / 36 - 10.2" "hj1 s = 25.6"
    "ht1 s = 16.9" "Lj1 s = pi * 234.4 / 8" "hr s = 15.8" "hj2 s = 33.25"
    "bt2 s = 137.1 * pi / 32 - 5.5" "Lj2 s = pi * 93.25 / 8"
    "Vt1 s = 36 * 190 * 0.93 * 16.9 * (202 * pi / 36 - 10.2)"
    "Vj1 s = pi * 234.4 * 190 * 0.93 * 25.6"
    "MUr s = 1.15 / (MUO * 875 * 1000)" "Am s = 20900" "FAIM s = 22448.69"
  using assms unfolding reference_geometry_def by blast+

lemma magnetic_round_invalid_steel:
  assumes "H_data (steel_type prm) = None"
  shows "\<exists>e. magnetic_round prm s x = Inl e \<and> (e = ZeroDivisionError \<or> e = KeyError (steel_type prm))"
  using assms unfolding magnetic_round_def Let_def get_BH_curve_def ebind_def pydiv_def
  by (simp split: sum.splits)

lemma ref_round_invalid_steel:
  assumes "reference_geometry s" "H_data k = None"
  shows "magnetic_round (MotorParameters_defaults\<lparr>steel_type := k\<rparr>) s x = Inl (KeyError k)"
proof -
  have nz: "202 * pi / 36 - 10.2 \<noteq> 0" "137.1 * pi / 32 - 5.5 \<noteq> 0"
    using ref_bt1(1) ref_bt2(1) by simp_all
  show ?thesis
    using assms(2) nz unfolding magnetic_round_def Let_def
    by (simp add: ref_fields[OF assms(1)] ebind_def pydiv_def get_BH_curve_def RFAi_def
        MotorParameters_defaults_def)
qed

section \<open>The exceptions of the stages\<close>

lemma no_load_rounds_first_error:
  "0 < n \<Longrightarrow> magnetic_round prm s x = Inl e \<Longrightarrow> no_load_rounds n k prm s x l = Inl e"
  by (cases n) simp_all

lemma stage5_invalid_steel:
  assumes "H_data (steel_type prm) = None"
  shows "\<exists>e. calculate_no_load_magnetic_circuit prm s = Inl e \<and>
          (e = ZeroDivisionError \<or> e = KeyError (steel_type prm))"
proof (cases "pydiv (0.95 * SIGMA0 prm * hM prm) (SIGMA0 prm * hM prm + g prm)")
  case (Inl e)
  then have "e = ZeroDivisionError" by (auto simp: pydiv_def split: if_splits)
  then show ?thesis using Inl by (simp add: calculate_no_load_magnetic_circuit_def ebind_def)
next
  case (Inr b)
  obtain e where e: "magnetic_round prm s b = Inl e"
    "e = ZeroDivisionError \<or> e = KeyError (steel_type prm)"
    using magnetic_round_invalid_steel[OF assms] by blast
  have "no_load_rounds 30 0 prm s b None = Inl e"
    using no_load_rounds_first_error[OF _ e(1), of 30] by simp
  then show ?thesis using Inr e(2)
    by (simp add: calculate_no_load_magnetic_circuit_def ebind_def)
qed

lemma ebind_Inl_E:
  assumes "ebind u h = Inl e"
  obtains "u = Inl e" | v where "u = Inr v" "h v = Inl e"
  using assms by (cases u) (auto simp: ebind_def)

lemma pydiv_Inl: "pydiv u v = Inl e \<Longrightarrow> e = ZeroDivisionError"
  by (auto simp: pydiv_def split: if_splits)

lemma div_by_Inl: "div_by c u v = Inl e \<Longrightarrow> e = ZeroDivisionError"
  by (auto simp: div_by_def pydiv_def split: if_splits)

lemma stage1_error:
  "calculate_basic_parameters prm s = Inl e \<Longrightarrow> e = ZeroDivisionError"
  unfolding calculate_basic_parameters_def Let_def
  by (elim ebind_Inl_E) (auto dest: pydiv_Inl div_by_Inl)

lemma stage2_error:
  "calculate_winding_parameters prm s = Inl e \<Longrightarrow> e = ZeroDivisionError"
  unfolding calculate_winding_parameters_def Let_def
  by (elim ebind_Inl_E) (auto dest: pydiv_Inl split: if_splits elim!: ebind_Inl_E)

lemma stage3_error:
  "calculate_geometry_parameters prm s = Inl e \<Longrightarrow> e = ZeroDivisionError"
  unfolding calculate_geometry_parameters_def Let_def
  by (elim ebind_Inl_E) (auto dest: pydiv_Inl)

lemma stage4_error:
  "calculate_magnet_parameters prm s = Inl e \<Longrightarrow> e = ZeroDivisionError"
  unfolding calculate_magnet_parameters_def Let_def
  by (elim ebind_Inl_E) (auto dest: pydiv_Inl)

lemma H_data_None: "k \<notin> {1, 2, 3, 4, 5} \<Longrightarrow> H_data k = None"
  by (simp add: H_data_def)

section \<open>The sequence of the stages\<close>

lemma run_stages_log:
  "run_stages stages prm s lg = (Inr s', lg') \<Longrightarrow> lg' = lg @ map fst stages"
proof (induction stages arbitrary: s lg)
  case Nil
  then show ?case by simp
next
  case (Cons st stages)
  obtain k stg where st: "st = (k, stg)" by (cases st)
  from Cons.prems st obtain s1 where
    "stg prm s = Inr s1" "run_stages stages prm s1 (lg @ [k]) = (Inr s', lg')"
    by (auto split: sum.splits)
  then show ?case using Cons.IH[of s1 "lg @ [k]"] st by simp
qed

lemma run_stages_take_fail:
  assumes "i < length stages"
    and "run_stages (take i stages) prm s lg = (Inr s', lg')"
    and "snd (stages ! i) prm s' = Inl err"
  shows "run_stages stages prm s lg = (Inl err, lg' @ [fst (stages ! i)])"
proof -
  have "stages = take i stages @ (stages ! i # drop (Suc i) stages)"
    using assms(1) by (simp add: id_take_nth_drop)
  then have "run_stages stages prm s lg
      = run_stages (stages ! i # drop (Suc i) stages) prm s' lg'"
    using run_stages_append[of "take i stages" "stages ! i # drop (Suc i) stages" prm s lg] assms(2)
    by simp
  also have "\<dots> = (Inl err, lg' @ [fst (stages ! i)])"
    using assms(3) by (cases "stages ! i") simp
  finally show ?thesis .
qed

lemma pipeline_numbers: "map fst pipeline = [1, 2, 3, 4, 5, 6, 7, 8, 9, 10, 11]"
  by (simp add: pipeline_def)

lemma stage_failure_run:
  assumes "i < 11"
    and "run_stages (take i pipeline) prm s0 [] = (Inr s, announced)"
    and "snd (pipeline ! i) prm s = Inl err"
  shows "run_stages pipeline prm s0 [] = (Inl err, [1..<i + 2])"
proof -
  have len: "i < length pipeline" using assms(1) by (simp add: pipeline_def)
  have "announced = map fst (take i pipeline)"
    using run_stages_log[OF assms(2)] by simp
  also have "\<dots> = take i [1, 2, 3, 4, 5, 6, 7, 8, 9, 10, 11]"
    unfolding pipeline_numbers[symmetric] by (simp add: take_map)
  also have upt12: "[1, 2, 3, 4, 5, 6, 7, 8, 9, 10, 11] = [1..<12::nat]"
    by (simp add: upt_rec)
  finally have ann: "announced = [1..<Suc i]" using assms(1) by (simp add: take_upt)
  have "fst (pipeline ! i) = map fst pipeline ! i" using len by simp
  also have "\<dots> = [1..<12::nat] ! i" by (simp only: pipeline_numbers upt12)
  also have "\<dots> = Suc i" using assms(1) by simp
  finally have nr: "fst (pipeline ! i) = Suc i" .
  have "run_stages pipeline prm s0 [] = (Inl err, [1..<Suc i] @ [Suc i])"
    using run_stages_take_fail[OF len assms(2,3)] ann nr by simp
  then show ?thesis by simp
qed

lemma run_stages_all_log:
  assumes "run_stages pipeline prm s0 [] = (Inr s, announced)"
  shows "announced = [1, 2, 3, 4, 5, 6, 7, 8, 9, 10, 11]"
  using run_stages_log[OF assms] by (simp add: pipeline_numbers)

section \<open>One round of the magnetic-circuit iteration\<close>

lemma ebind_eq_Inr: "(ebind u h = Inr w) = (\<exists>v. u = Inr v \<and> h v = Inr w)"
  by (cases u) (auto simp: ebind_def)

lemma pydiv_eq_Inr: "(pydiv u v = Inr w) = (v \<noteq> 0 \<and> w = u / v)"
  by (auto simp: pydiv_def)

lemma magnetic_round_Inr:
  assumes "magnetic_round prm s x = Inr (s', l)"
  shows "\<exists>Hts Hjs Htr Hjr Kg.
    SIGMA0 prm \<noteq> 0 \<and>
    loc_FI01 l = x * FAIM s / SIGMA0 prm * (1 / 10 ^ 6) \<and>
    Bg s' = loc_FI01 l / (RFAi * TAO s * (La prm + 2 * g prm)) * 10 ^ 6 \<and>
    Bts s' = Bg s' * t1 s * (La prm + 2 * g prm) / (La prm * 0.93 * bt1 s) \<and>
    Bj1 s' = loc_FI01 l / (2 * La prm * 0.93 * hj1 s) * 10 ^ 6 \<and>
    Btr s' = Bg s' * t2 s * (La prm + 2 * g prm) / (La prm * 0.93 * bt2 s) \<and>
    Bj2 s' = loc_FI01 l / (2 * La prm * 0.93 * hj2 s) * 10 ^ 6 \<and>
    get_BH_curve (Bts s') (steel_type prm) = Inr Hts \<and>
    get_BH_curve (Bj1 s') (steel_type prm) = Inr Hjs \<and>
    get_BH_curve (Btr s') (steel_type prm) = Inr Htr \<and>
    get_BH_curve (Bj2 s') (steel_type prm) = Inr Hjr \<and>
    calculate_gap_factor prm s = Inr Kg \<and>
    loc_Ft1 l = Hts * ht1 s / 10 \<and>
    loc_Ft2 l = Htr * hr s / 10 \<and>
    loc_LUMDAm l =
       (if Lev prm = 1
        then loc_FI01 l / (2 * (Bg s' / MUO * (g12 prm + g prm * Kg) * (1 / 10 ^ 3)
               + Hts * ht1 s / 10 + Hjs * Lj1 s / 10 + Htr * hr s / 10 + Hjr * Lj2 s / 10))
             * 2 * hM prm * (1 / 10 ^ 3) / (MUr s * MUO * Am s * (1 / 10 ^ 6))
        else loc_FI01 l / (2 * (Bg s' / MUO * (g12 prm + g prm * Kg) * (1 / 10 ^ 3)
               + Hts * ht1 s / 10 + Hjs * Lj1 s / 10 + Htr * hr s / 10 + Hjr * Lj2 s / 10))
             * hM prm * (1 / 10 ^ 3) / (MUr s * MUO * Am s * (1 / 10 ^ 6))) \<and>
    loc_LUMDAn l = SIGMA0 prm * loc_LUMDAm l \<and>
    loc_bm0 l = loc_LUMDAn l / (loc_LUMDAn l + 1)"
  using assms unfolding magnetic_round_def Let_def
  apply (simp only: ebind_eq_Inr pydiv_eq_Inr)
  apply (elim exE conjE)
  apply (simp only: sum.inject prod.inject)
  apply (elim conjE)
  apply hypsubst
  apply (cases "Lev prm = 1")
   apply (simp_all add: calculate_gap_factor_def)
  done

lemma ebind_eq_Inl: "(ebind u h = Inl e) = (u = Inl e \<or> (\<exists>v. u = Inr v \<and> h v = Inl e))"
  by (cases u) (auto simp: ebind_def)

lemma pydiv_eq_Inl: "(pydiv u v = Inl e) = (v = 0 \<and> e = ZeroDivisionError)"
  by (auto simp: pydiv_def)

lemma get_BH_curve_5_Inl: "get_BH_curve B 5 \<noteq> Inl e"
  using get_BH_curve_5[of B] by auto

lemma get_iron_loss_5_Inl: "get_iron_loss B 5 \<noteq> Inl e"
  using get_iron_loss_5[of B] by auto

lemma ref_gap_factor:
  assumes "reference_geometry s"
  shows "\<exists>Kg. calculate_gap_factor MotorParameters_defaults s = Inr Kg \<and> 1 < Kg \<and> Kg < 1.3"
proof -
  define ttt where "ttt = pi * 170 / 36 * (4.4 * 0.65 + 0.75 * 3.8)"
  define fff where "fff = pi * 168.7 / 32 * (4.4 * 0.65 + 0.75 * 2.0)"
  have t: "84.7 < ttt" "ttt < 84.72" using pi_lower pi_upper unfolding ttt_def by simp_all
  have f: "72.2 < fff" "fff < 72.22" using pi_lower pi_upper unfolding fff_def by simp_all
  have nz: "ttt - 3.8 * 3.8 \<noteq> 0" "fff - 2.0 * 2.0 \<noteq> 0" using t f by simp_all
  have eq: "calculate_gap_factor MotorParameters_defaults s
      = Inr (ttt / (ttt - 3.8 * 3.8) * (fff / (fff - 2.0 * 2.0)))"
    using nz unfolding calculate_gap_factor_def Let_def ttt_def fff_def
    by (simp add: ref_fields[OF assms] ebind_def pydiv_def MotorParameters_defaults_def)
  have k1: "1 < ttt / (ttt - 3.8 * 3.8)" "ttt / (ttt - 3.8 * 3.8) < 1.21"
    using t by (simp_all add: field_simps)
  have k2: "1 < fff / (fff - 2.0 * 2.0)" "fff / (fff - 2.0 * 2.0) < 1.06"
    using f by (simp_all add: field_simps)
  define Kg where "Kg = ttt / (ttt - 3.8 * 3.8) * (fff / (fff - 2.0 * 2.0))"
  have "1 * 1 < Kg" unfolding Kg_def
    using k1(1) k2(1) by (intro mult_strict_mono) auto
  moreover have "Kg < 1.21 * 1.06" unfolding Kg_def
    using k1 k2 by (intro mult_strict_mono) auto
  ultimately have "1 < Kg" "Kg < 1.3" by simp_all
  then show ?thesis using eq unfolding Kg_def[symmetric] by blast
qed

lemma defaults_steel: "steel_type MotorParameters_defaults = 5"
  by (simp add: MotorParameters_defaults_def)

lemma ref_round_no_error:
  assumes "reference_geometry s"
  shows "magnetic_round MotorParameters_defaults s x \<noteq> Inl e"
proof
  assume a: "magnetic_round MotorParameters_defaults s x = Inl e"
  have nz: "202 * pi / 36 - 10.2 \<noteq> 0" "137.1 * pi / 32 - 5.5 \<noteq> 0"
    using ref_bt1(1) ref_bt2(1) by simp_all
  obtain Kg where Kg: "calculate_gap_factor MotorParameters_defaults s = Inr Kg"
    using ref_gap_factor[OF assms] by blast
  have gf: "calculate_gap_factor MotorParameters_defaults
      (s\<lparr>Bg := qg, Bts := qts, Bj1 := qja, Btr := qtr, Bj2 := qjb\<rparr>) \<noteq> Inl e"
    for qg qts qja qtr qjb
    using Kg by (simp add: calculate_gap_factor_fields)
  from a show False
    unfolding magnetic_round_def Let_def
    using nz gf
    by (simp add: ebind_eq_Inl pydiv_eq_Inl pydiv_eq_Inr defaults_steel get_BH_curve_5_Inl
        ref_fields[OF assms] RFAi_def MotorParameters_defaults_def)
qed

lemma ref_round:
  assumes "reference_geometry s"
  shows "\<exists>s' l Hts Hjs Htr Hjr Kg.
    magnetic_round MotorParameters_defaults s x = Inr (s', l) \<and>
    Bg s' = x * (22448.69 / 1.28 / (0.64 * (pi * 170 / 4) * 191.3)) \<and>
    Bts s' = Bg s' * (pi * 170 / 36) * 191.3 / (190 * 0.93 * (202 * pi / 36 - 10.2)) \<and>
    Bj1 s' = x * (22448.69 / 1.28 / (2 * 190 * 0.93 * 25.6)) \<and>
    Btr s' = Bg s' * (pi * 168.7 / 32) * 191.3 / (190 * 0.93 * (137.1 * pi / 32 - 5.5)) \<and>
    Bj2 s' = x * (22448.69 / 1.28 / (2 * 190 * 0.93 * 33.25)) \<and>
    get_BH_curve (Bts s') 5 = Inr Hts \<and>
    get_BH_curve (Bj1 s') 5 = Inr Hjs \<and>
    get_BH_curve (Btr s') 5 = Inr Htr \<and>
    get_BH_curve (Bj2 s') 5 = Inr Hjr \<and>
    calculate_gap_factor MotorParameters_defaults s = Inr Kg \<and>
    loc_LUMDAn l = x * (22448.69 * 2 * 5.3 * 875000 / (1.15 * 20900 * 1000)) /
       (2 * (Bg s' / MUO * (0.15 + 0.65 * Kg) * (1 / 10 ^ 3) + Hts * 16.9 / 10
             + Hjs * (pi * 234.4 / 8) / 10 + Htr * 15.8 / 10 + Hjr * (pi * 93.25 / 8) / 10)) \<and>
    loc_bm0 l = loc_LUMDAn l / (loc_LUMDAn l + 1)"
proof -
  let ?P = MotorParameters_defaults
  obtain res where res: "magnetic_round ?P s x = Inr res"
    using ref_round_no_error[OF assms, of x] by (cases "magnetic_round ?P s x") auto
  obtain s' l where sl: "res = (s', l)" by (cases res)
  note rd = res[unfolded sl]
  from magnetic_round_Inr[OF rd] obtain Hts Hjs Htr Hjr Kg where
    fi: "loc_FI01 l = x * FAIM s / SIGMA0 ?P * (1 / 10 ^ 6)" and
    bg: "Bg s' = loc_FI01 l / (RFAi * TAO s * (La ?P + 2 * g ?P)) * 10 ^ 6" and
    bts: "Bts s' = Bg s' * t1 s * (La ?P + 2 * g ?P) / (La ?P * 0.93 * bt1 s)" and
    bj1: "Bj1 s' = loc_FI01 l / (2 * La ?P * 0.93 * hj1 s) * 10 ^ 6" and
    btr: "Btr s' = Bg s' * t2 s * (La ?P + 2 * g ?P) / (La ?P * 0.93 * bt2 s)" and
    bj2: "Bj2 s' = loc_FI01 l / (2 * La ?P * 0.93 * hj2 s) * 10 ^ 6" and
    h: "get_BH_curve (Bts s') (steel_type ?P) = Inr Hts"
       "get_BH_curve (Bj1 s') (steel_type ?P) = Inr Hjs"
       "get_BH_curve (Btr s') (steel_type ?P) = Inr Htr"
       "get_BH_curve (Bj2 s') (steel_type ?P) = Inr Hjr" and
    kg: "calculate_gap_factor ?P s = Inr Kg" and
    lm: "loc_LUMDAm l =
       (if Lev ?P = 1
        then loc_FI01 l / (2 * (Bg s' / MUO * (g12 ?P + g ?P * Kg) * (1 / 10 ^ 3)
               + Hts * ht1 s / 10 + Hjs * Lj1 s / 10 + Htr * hr s / 10 + Hjr * Lj2 s / 10))
             * 2 * hM ?P * (1 / 10 ^ 3) / (MUr s * MUO * Am s * (1 / 10 ^ 6))
        else loc_FI01 l / (2 * (Bg s' / MUO * (g12 ?P + g ?P * Kg) * (1 / 10 ^ 3)
               + Hts * ht1 s / 10 + Hjs * Lj1 s / 10 + Htr * hr s / 10 + Hjr * Lj2 s / 10))
             * hM ?P * (1 / 10 ^ 3) / (MUr s * MUO * Am s * (1 / 10 ^ 6)))" and
    ln: "loc_LUMDAn l = SIGMA0 ?P * loc_LUMDAm l" and
    b0: "loc_bm0 l = loc_LUMDAn l / (loc_LUMDAn l + 1)"
    by blast
  note rf = ref_fields[OF assms]
  have fi': "loc_FI01 l = x * 22448.69 / 1.28 * (1 / 10 ^ 6)"
    using fi by (simp add: rf MotorParameters_defaults_def)
  have bg': "Bg s' = x * (22448.69 / 1.28 / (0.64 * (pi * 170 / 4) * 191.3))"
    unfolding bg fi' by (simp add: rf RFAi_def MotorParameters_defaults_def)
  have bts': "Bts s' = Bg s' * (pi * 170 / 36) * 191.3 / (190 * 0.93 * (202 * pi / 36 - 10.2))"
    unfolding bts by (simp add: rf MotorParameters_defaults_def)
  have bj1': "Bj1 s' = x * (22448.69 / 1.28 / (2 * 190 * 0.93 * 25.6))"
    unfolding bj1 fi' by (simp add: rf MotorParameters_defaults_def)
  have btr': "Btr s' = Bg s' * (pi * 168.7 / 32) * 191.3 / (190 * 0.93 * (137.1 * pi / 32 - 5.5))"
    unfolding btr by (simp add: rf MotorParameters_defaults_def)
  have bj2': "Bj2 s' = x * (22448.69 / 1.28 / (2 * 190 * 0.93 * 33.25))"
    unfolding bj2 fi' by (simp add: rf MotorParameters_defaults_def)
  define SUMF where "SUMF = 2 * (Bg s' / MUO * (0.15 + 0.65 * Kg) * (1 / 10 ^ 3) + Hts * 16.9 / 10
             + Hjs * (pi * 234.4 / 8) / 10 + Htr * 15.8 / 10 + Hjr * (pi * 93.25 / 8) / 10)"
  have mu: "MUr s * MUO * Am s * (1 / 10 ^ 6) = 1.15 * 20900 / (875000 * 10 ^ 6)"
    using MUO_pos by (simp add: rf)
  have lm': "loc_LUMDAm l = loc_FI01 l / SUMF * 2 * 5.3 * (1 / 10 ^ 3)
      / (1.15 * 20900 / (875000 * 10 ^ 6))"
    unfolding lm mu SUMF_def by (simp add: rf MotorParameters_defaults_def)
  have ln': "loc_LUMDAn l = x * (22448.69 * 2 * 5.3 * 875000 / (1.15 * 20900 * 1000)) / SUMF"
    unfolding ln lm' fi' by (simp add: MotorParameters_defaults_def)
  show ?thesis
    using rd bg' bts' bj1' btr' bj2' h kg ln'[unfolded SUMF_def] b0
    unfolding defaults_steel by blast
qed

section \<open>The iteration on the reference geometry\<close>

lemma lookup_values:
  "get_BH_curve 1.65 5 = Inr 1840"
  "get_iron_loss 1.5 5 = Inr 35.7"
  "get_iron_loss 1.25 5 = Inr 17.6"
  by (simp_all add: get_BH_curve_def get_iron_loss_def H_data_def P_data_def
      linear_interpolation_def B_data_def)

lemma reference_geometry_fields:
  "reference_geometry (s\<lparr>Bg := qg, Bts := qts, Bj1 := qja, Btr := qtr, Bj2 := qjb\<rparr>)
     = reference_geometry s"
  by (simp add: reference_geometry_def)

lemma ref_coefficients:
  "1.0728 < 22448.69 / 1.28 / (0.64 * (pi * 170 / 4) * 191.3)"
  "22448.69 / 1.28 / (0.64 * (pi * 170 / 4) * 191.3) < 1.073"
  "0 < (pi * 170 / 36) * 191.3 / (190 * 0.93 * (202 * pi / 36 - 10.2))"
  "(pi * 170 / 36) * 191.3 / (190 * 0.93 * (202 * pi / 36 - 10.2)) < 2.163"
  "0 < (pi * 168.7 / 32) * 191.3 / (190 * 0.93 * (137.1 * pi / 32 - 5.5))"
proof -
  have d: "0 < 0.64 * (pi * 170 / 4) * 191.3" by simp
  have "1.0728 * (0.64 * (pi * 170 / 4) * 191.3) < 22448.69 / 1.28"
    using pi_upper by simp
  then show "1.0728 < 22448.69 / 1.28 / (0.64 * (pi * 170 / 4) * 191.3)"
    using d by (simp only: pos_less_divide_eq)
  have "22448.69 / 1.28 < 1.073 * (0.64 * (pi * 170 / 4) * 191.3)"
    using pi_lower by simp
  then show "22448.69 / 1.28 / (0.64 * (pi * 170 / 4) * 191.3) < 1.073"
    using d by (simp only: pos_divide_less_eq)
  have b1: "0 < 190 * 0.93 * (202 * pi / 36 - 10.2)" using ref_bt1(1) by simp
  have b2: "0 < 190 * 0.93 * (137.1 * pi / 32 - 5.5)" using ref_bt2(1) by simp
  have n1: "0 < (pi * 170 / 36) * 191.3" by simp
  have n2: "0 < (pi * 168.7 / 32) * 191.3" by simp
  show "0 < (pi * 170 / 36) * 191.3 / (190 * 0.93 * (202 * pi / 36 - 10.2))"
    using n1 b1 by (rule divide_pos_pos)
  show "0 < (pi * 168.7 / 32) * 191.3 / (190 * 0.93 * (137.1 * pi / 32 - 5.5))"
    using n2 b2 by (rule divide_pos_pos)
  have "(pi * 170 / 36) * 191.3 < 2.163 * (190 * 0.93 * (202 * pi / 36 - 10.2))"
    using pi_lower pi_upper by simp
  then show "(pi * 170 / 36) * 191.3 / (190 * 0.93 * (202 * pi / 36 - 10.2)) < 2.163"
    using b1 by (simp only: pos_divide_less_eq)
qed

lemma ref_round_bounds:
  assumes ref: "reference_geometry s" and x: "0 < x"
  shows "\<exists>s' l Hjs SUMF.
    magnetic_round MotorParameters_defaults s x = Inr (s', l) \<and>
    0 < Bts s' \<and> Bts s' < x * 2.321 \<and>
    Bj1 s' = x * (22448.69 / 1.28 / (2 * 190 * 0.93 * 25.6)) \<and>
    get_BH_curve (Bj1 s') 5 = Inr Hjs \<and>
    loc_LUMDAn l = x * (22448.69 * 2 * 5.3 * 875000 / (1.15 * 20900 * 1000)) / SUMF \<and>
    2 * (680 * x + 1289) \<le> SUMF \<and> 2 * (Hjs * 9.2) \<le> SUMF \<and>
    loc_bm0 l = loc_LUMDAn l / (loc_LUMDAn l + 1)"
proof -
  from ref_round[OF ref, of x] obtain s' l Hts Hjs Htr Hjr Kg where
    rd: "magnetic_round MotorParameters_defaults s x = Inr (s', l)" and
    bg: "Bg s' = x * (22448.69 / 1.28 / (0.64 * (pi * 170 / 4) * 191.3))" and
    bts: "Bts s' = Bg s' * (pi * 170 / 36) * 191.3 / (190 * 0.93 * (202 * pi / 36 - 10.2))" and
    bj1: "Bj1 s' = x * (22448.69 / 1.28 / (2 * 190 * 0.93 * 25.6))" and
    h: "get_BH_curve (Bts s') 5 = Inr Hts" "get_BH_curve (Bj1 s') 5 = Inr Hjs"
       "get_BH_curve (Btr s') 5 = Inr Htr" "get_BH_curve (Bj2 s') 5 = Inr Hjr" and
    kg: "calculate_gap_factor MotorParameters_defaults s = Inr Kg" and
    ln: "loc_LUMDAn l = x * (22448.69 * 2 * 5.3 * 875000 / (1.15 * 20900 * 1000)) /
       (2 * (Bg s' / MUO * (0.15 + 0.65 * Kg) * (1 / 10 ^ 3) + Hts * 16.9 / 10
             + Hjs * (pi * 234.4 / 8) / 10 + Htr * 15.8 / 10 + Hjr * (pi * 93.25 / 8) / 10))" and
    b0: "loc_bm0 l = loc_LUMDAn l / (loc_LUMDAn l + 1)"
    by blast
  have Kg: "1 < Kg" using ref_gap_factor[OF ref] kg by auto
  have H: "80 \<le> Hts" "80 \<le> Hjs" "80 \<le> Htr" "80 \<le> Hjr"
    using get_BH_curve_5 h by (metis sum.inject(2))+
  define cg :: real where "cg = 22448.69 / 1.28 / (0.64 * (pi * 170 / 4) * 191.3)"
  define r1 :: real where "r1 = (pi * 170 / 36) * 191.3 / (190 * 0.93 * (202 * pi / 36 - 10.2))"
  have cg: "1.0728 < cg" "cg < 1.073" unfolding cg_def by (rule ref_coefficients)+
  have r1: "0 < r1" "r1 < 2.163" unfolding r1_def by (rule ref_coefficients)+
  have bgx: "Bg s' = x * cg" unfolding bg cg_def ..
  have bts2: "Bts s' = x * cg * r1" unfolding bts bgx r1_def by simp
  have xcg: "0 < x * cg" "x * cg < x * 1.073" using x cg by simp_all
  have "x * cg * r1 < (x * 1.073) * 2.163"
    by (rule mult_strict_mono[OF xcg(2) r1(2)]) (use x r1 in simp_all)
  then have bts_up: "Bts s' < x * 2.321" unfolding bts2 using x by simp
  have bts_pos: "0 < Bts s'" unfolding bts2 using xcg(1) r1(1) by simp
  define Fg where "Fg = Bg s' / MUO * (0.15 + 0.65 * Kg) * (1 / 10 ^ 3)"
  have m: "0 < MUO" by (rule MUO_pos)
  define im where "im = 10 ^ 7 / (4 * pi)"
  have bm: "Bg s' / MUO = x * cg * im" unfolding bgx MUO_def im_def by simp
  have im: "(795700 :: real) \<le> im"
    unfolding im_def using pi_upper by (simp add: field_simps)
  have q: "Bg s' / MUO \<ge> x * cg * 795700"
    unfolding bm by (rule mult_left_mono[OF im]) (use xcg(1) in simp)
  have "853000 \<le> cg * 795700" using cg(1) by simp
  then have qa: "x * 853000 \<le> x * (cg * 795700)"
    by (rule mult_left_mono) (use x in simp)
  have qb: "x * (cg * 795700) \<le> Bg s' / MUO" using q by (simp only: mult.assoc)
  have q2: "x * 853000 \<le> Bg s' / MUO" using qa qb by (rule order_trans)
  have k8: "0.8 \<le> 0.15 + 0.65 * Kg" using Kg by simp
  define W where "W = Bg s' / MUO * (0.15 + 0.65 * Kg)"
  have "(x * 853000) * 0.8 \<le> W" unfolding W_def
    by (rule mult_mono[OF q2 k8]) (use q2 x in simp_all)
  then have "680 * x \<le> W * (1 / 10 ^ 3)" using x by simp
  then have fg: "680 * x \<le> Fg" unfolding Fg_def W_def .
  define c2 where "c2 = pi * 234.4 / 8 / 10"
  define c4 where "c4 = pi * 93.25 / 8 / 10"
  have p1: "9.2 \<le> c2" and p2: "3.66 \<le> c4"
    unfolding c2_def c4_def using pi_lower by simp_all
  define F1 where "F1 = Hts * 16.9 / 10"
  define F2 where "F2 = Hjs * (pi * 234.4 / 8) / 10"
  define F3 where "F3 = Htr * 15.8 / 10"
  define F4 where "F4 = Hjr * (pi * 93.25 / 8) / 10"
  have F2: "F2 = Hjs * c2" and F4: "F4 = Hjr * c4" unfolding F2_def F4_def c2_def c4_def by simp_all
  have f1: "135 \<le> F1" unfolding F1_def using H(1) by simp
  have f3: "126 \<le> F3" unfolding F3_def using H(3) by simp
  have f2: "Hjs * 9.2 \<le> F2" unfolding F2
    by (rule mult_left_mono[OF p1]) (use H(2) in simp)
  have "80 * 9.2 \<le> Hjs * 9.2" using H(2) by simp
  then have f2': "736 \<le> F2" using f2 by simp
  have "80 * 3.66 \<le> Hjr * c4"
    by (rule mult_mono[OF H(4) p2]) (use H(4) in simp_all)
  then have f4: "292.8 \<le> F4" unfolding F4 by simp
  define SUMF where "SUMF = 2 * (Fg + F1 + F2 + F3 + F4)"
  have s1: "2 * (680 * x + 1289) \<le> SUMF" unfolding SUMF_def using fg f1 f2' f3 f4 by simp
  have fg0: "0 \<le> Fg" using fg x by simp
  have s2: "2 * (Hjs * 9.2) \<le> SUMF" unfolding SUMF_def using fg0 f1 f2 f3 f4 by simp
  have ln': "loc_LUMDAn l = x * (22448.69 * 2 * 5.3 * 875000 / (1.15 * 20900 * 1000)) / SUMF"
    unfolding ln SUMF_def Fg_def F1_def F2_def F3_def F4_def ..
  show ?thesis using rd bts_pos bts_up bj1 h(2) ln' s1 s2 b0 by blast
qed

lemma frac_bound:
  fixes L u :: real
  assumes "0 < L" "L * (1 - u) \<le> u"
  shows "0 < L / (L + 1)" "L / (L + 1) \<le> u" "L / (L + 1) < 1"
proof -
  have p: "0 < L + 1" using assms(1) by simp
  show "0 < L / (L + 1)" using assms(1) p by simp
  have "L \<le> u * (L + 1)" using assms(2) by (simp add: algebra_simps)
  then show "L / (L + 1) \<le> u" using p by (simp add: pos_divide_le_eq)
  show "L / (L + 1) < 1" using p by simp
qed

lemma ref_round_unit:
  assumes ref: "reference_geometry s" and x: "0 < x"
  shows "\<exists>s' l. magnetic_round MotorParameters_defaults s x = Inr (s', l) \<and>
           0 < loc_LUMDAn l \<and> loc_bm0 l = loc_LUMDAn l / (loc_LUMDAn l + 1) \<and>
           0 < loc_bm0 l \<and> loc_bm0 l < 1"
proof -
  from ref_round_bounds[OF ref x] obtain s' l Hjs SUMF where
    rd: "magnetic_round MotorParameters_defaults s x = Inr (s', l)" and
    ln: "loc_LUMDAn l = x * (22448.69 * 2 * 5.3 * 875000 / (1.15 * 20900 * 1000)) / SUMF" and
    su: "2 * (680 * x + 1289) \<le> SUMF" and
    b0: "loc_bm0 l = loc_LUMDAn l / (loc_LUMDAn l + 1)"
    by blast
  have sp: "0 < SUMF" using su x by simp
  have "0 < x * (22448.69 * 2 * 5.3 * 875000 / (1.15 * 20900 * 1000))" using x by simp
  then have L: "0 < loc_LUMDAn l" unfolding ln using sp by (rule divide_pos_pos)
  have "0 < loc_LUMDAn l / (loc_LUMDAn l + 1)" "loc_LUMDAn l / (loc_LUMDAn l + 1) < 1"
    using L by simp_all
  then show ?thesis using rd L b0 by auto
qed

lemma ref_round_small:
  assumes ref: "reference_geometry s" and x: "0 < x" "x \<le> 0.64"
  shows "\<exists>s' l. magnetic_round MotorParameters_defaults s x = Inr (s', l) \<and>
           0 < loc_bm0 l \<and> loc_bm0 l \<le> 0.64 \<and>
           0 < Bts s' \<and> Bts s' \<le> 1.5 \<and> 0 < Bj1 s' \<and> Bj1 s' \<le> 1.25"
proof -
  from ref_round_bounds[OF ref x(1)] obtain s' l Hjs SUMF where
    rd: "magnetic_round MotorParameters_defaults s x = Inr (s', l)" and
    bts: "0 < Bts s'" "Bts s' < x * 2.321" and
    bj1: "Bj1 s' = x * (22448.69 / 1.28 / (2 * 190 * 0.93 * 25.6))" and
    ln: "loc_LUMDAn l = x * (22448.69 * 2 * 5.3 * 875000 / (1.15 * 20900 * 1000)) / SUMF" and
    su: "2 * (680 * x + 1289) \<le> SUMF" and
    b0: "loc_bm0 l = loc_LUMDAn l / (loc_LUMDAn l + 1)"
    by blast
  define c :: real where "c = 22448.69 * 2 * 5.3 * 875000 / (1.15 * 20900 * 1000)"
  have c: "0 < c" "c < 8663" unfolding c_def by simp_all
  have sp: "0 < SUMF" using su x by simp
  have L: "loc_LUMDAn l = x * c / SUMF" unfolding ln c_def ..
  have xc: "0 < x * c" using x(1) c(1) by simp
  have Lp: "0 < loc_LUMDAn l" unfolding L using xc sp by (rule divide_pos_pos)
  have "x * c \<le> x * 8663" by (rule mult_left_mono) (use c x in simp_all)
  also have "\<dots> \<le> (16 / 9) * (2 * (680 * x + 1289))" using x by simp
  also have "\<dots> \<le> (16 / 9) * SUMF" using su by simp
  finally have "x * c / SUMF \<le> 16 / 9" using sp by (simp add: pos_divide_le_eq)
  then have "loc_LUMDAn l \<le> 16 / 9" unfolding L .
  then have "loc_LUMDAn l * (1 - 0.64) \<le> 0.64" by simp
  from frac_bound[OF Lp this] have b: "0 < loc_bm0 l" "loc_bm0 l \<le> 0.64" unfolding b0 by simp_all
  have t: "Bts s' \<le> 1.5" using bts(2) x(2) by simp
  have j: "0 < Bj1 s'" "Bj1 s' \<le> 1.25" unfolding bj1 using x by simp_all
  show ?thesis using rd b bts(1) t j by blast
qed

lemma ref_round_first:
  assumes ref: "reference_geometry s"
  shows "\<exists>s' l. magnetic_round MotorParameters_defaults s (0.95 * 1.28 * 5.3 / (1.28 * 5.3 + 0.65))
             = Inr (s', l) \<and>
           0 < loc_bm0 l \<and> loc_bm0 l \<le> 0.3 \<and>
           \<not> converged (loc_bm0 l) (0.95 * 1.28 * 5.3 / (1.28 * 5.3 + 0.65))"
proof -
  define x :: real where "x = 0.95 * 1.28 * 5.3 / (1.28 * 5.3 + 0.65)"
  have x: "0 < x" "0.866 < x" "x < 0.867" unfolding x_def by simp_all
  from ref_round_bounds[OF ref x(1)] obtain s' l Hjs SUMF where
    rd: "magnetic_round MotorParameters_defaults s x = Inr (s', l)" and
    bj1: "Bj1 s' = x * (22448.69 / 1.28 / (2 * 190 * 0.93 * 25.6))" and
    h: "get_BH_curve (Bj1 s') 5 = Inr Hjs" and
    ln: "loc_LUMDAn l = x * (22448.69 * 2 * 5.3 * 875000 / (1.15 * 20900 * 1000)) / SUMF" and
    su: "2 * (680 * x + 1289) \<le> SUMF" "2 * (Hjs * 9.2) \<le> SUMF" and
    b0: "loc_bm0 l = loc_LUMDAn l / (loc_LUMDAn l + 1)"
    by blast
  have "1.65 \<le> Bj1 s'" unfolding bj1 using x(2) by simp
  from get_BH_curve_5_mono[OF this lookup_values(1) h] have H: "1840 \<le> Hjs" .
  then have s2: "33856 \<le> SUMF" using su(2) by simp
  define c :: real where "c = 22448.69 * 2 * 5.3 * 875000 / (1.15 * 20900 * 1000)"
  have c: "0 < c" "c < 8663" unfolding c_def by simp_all
  have sp: "0 < SUMF" using s2 by simp
  have L: "loc_LUMDAn l = x * c / SUMF" unfolding ln c_def ..
  have xc: "0 < x * c" using x(1) c(1) by simp
  have Lp: "0 < loc_LUMDAn l" unfolding L using xc sp by (rule divide_pos_pos)
  have "x * c \<le> 0.867 * 8663" by (rule mult_mono) (use c x in simp_all)
  also have "\<dots> \<le> (3 / 7) * 33856" by simp
  also have "\<dots> \<le> (3 / 7) * SUMF" using s2 by simp
  finally have "x * c / SUMF \<le> 3 / 7" using sp by (simp add: pos_divide_le_eq)
  then have "loc_LUMDAn l \<le> 3 / 7" unfolding L .
  then have "loc_LUMDAn l * (1 - 0.3) \<le> 0.3" by simp
  from frac_bound[OF Lp this] have b: "0 < loc_bm0 l" "loc_bm0 l \<le> 0.3" unfolding b0 by simp_all
  define b where "b = loc_bm0 l"
  have bb: "0 < b" "b \<le> 0.3" using \<open>0 < loc_bm0 l\<close> \<open>loc_bm0 l \<le> 0.3\<close> unfolding b_def by simp_all
  have "(b - x) / b \<le> - 1"
    using bb x(2) by (simp add: pos_divide_le_eq)
  moreover have "(0.0001 :: real) < 1" by simp
  ultimately have "\<not> \<bar>(b - x) / b\<bar> < 0.0001"
    by (metis abs_le_D2 abs_minus_cancel abs_of_nonneg add.inverse_inverse less_le_trans
        minus_le_iff not_less order_less_imp_le zero_le_one order_trans abs_ge_zero
        neg_le_iff_le abs_ge_minus_self)
  then have nc: "\<not> converged (loc_bm0 l) x" unfolding converged_def b_def by simp
  show ?thesis using rd \<open>0 < loc_bm0 l\<close> \<open>loc_bm0 l \<le> 0.3\<close> nc unfolding x_def by blast
qed

lemma ref_loop_small:
  assumes "reference_geometry s" "0 < x" "x \<le> 0.64" "0 < n"
  shows "\<exists>s' l r. no_load_rounds n k MotorParameters_defaults s x lst = Inr (s', Some l, r) \<and>
           reference_geometry s' \<and> 0 < Bts s' \<and> Bts s' \<le> 1.5 \<and> 0 < Bj1 s' \<and> Bj1 s' \<le> 1.25 \<and>
           0 < loc_bm0 l \<and> loc_bm0 l \<le> 0.64 \<and> k < r \<and> r \<le> k + n"
  using assms
proof (induction n arbitrary: k s x lst)
  case 0
  then show ?case by simp
next
  case (Suc n)
  from ref_round_small[OF Suc.prems(1,2,3)] obtain s1 l1 where
    rd: "magnetic_round MotorParameters_defaults s x = Inr (s1, l1)" and
    b: "0 < loc_bm0 l1" "loc_bm0 l1 \<le> 0.64" and
    B: "0 < Bts s1" "Bts s1 \<le> 1.5" "0 < Bj1 s1" "Bj1 s1 \<le> 1.25"
    by blast
  have ref1: "reference_geometry s1"
    using magnetic_round_frame[OF rd] reference_geometry_fields Suc.prems(1) by metis
  show ?case
  proof (cases "converged (loc_bm0 l1) x \<or> n = 0")
    case True
    then have "no_load_rounds (Suc n) k MotorParameters_defaults s x lst = Inr (s1, Some l1, Suc k)"
      using rd by auto
    then show ?thesis using ref1 b B by auto
  next
    case False
    then have n: "0 < n" and nc: "\<not> converged (loc_bm0 l1) x" by simp_all
    have x': "0 < (x + loc_bm0 l1) / 2" "(x + loc_bm0 l1) / 2 \<le> 0.64"
      using Suc.prems(2,3) b by simp_all
    from Suc.IH[OF ref1 x' n, of "Suc k" "Some l1"] obtain s' l r where
      "no_load_rounds n (Suc k) MotorParameters_defaults s1 ((x + loc_bm0 l1) / 2) (Some l1)
         = Inr (s', Some l, r)"
      "reference_geometry s'" "0 < Bts s'" "Bts s' \<le> 1.5" "0 < Bj1 s'" "Bj1 s' \<le> 1.25"
      "0 < loc_bm0 l" "loc_bm0 l \<le> 0.64" "Suc k < r" "r \<le> Suc k + n"
      by blast
    then show ?thesis using rd nc by auto
  qed
qed

lemma ref_loop:
  assumes "reference_geometry s"
  shows "\<exists>s' l r. no_load_rounds 30 0 MotorParameters_defaults s
              (0.95 * 1.28 * 5.3 / (1.28 * 5.3 + 0.65)) None = Inr (s', Some l, r) \<and>
           reference_geometry s' \<and> 0 < Bts s' \<and> Bts s' \<le> 1.5 \<and> 0 < Bj1 s' \<and> Bj1 s' \<le> 1.25 \<and>
           0 < loc_bm0 l \<and> loc_bm0 l \<le> 0.64 \<and> 1 < r \<and> r \<le> 30"
proof -
  define x :: real where "x = 0.95 * 1.28 * 5.3 / (1.28 * 5.3 + 0.65)"
  have x: "0 < x" "x < 0.867" unfolding x_def by simp_all
  from ref_round_first[OF assms] obtain s1 l1 where
    rd: "magnetic_round MotorParameters_defaults s x = Inr (s1, l1)" and
    b: "0 < loc_bm0 l1" "loc_bm0 l1 \<le> 0.3" and nc: "\<not> converged (loc_bm0 l1) x"
    unfolding x_def by blast
  have ref1: "reference_geometry s1"
    using magnetic_round_frame[OF rd] reference_geometry_fields assms by metis
  have x': "0 < (x + loc_bm0 l1) / 2" "(x + loc_bm0 l1) / 2 \<le> 0.64"
    using x b by simp_all
  from ref_loop_small[OF ref1 x', of 29 "Suc 0" "Some l1"] obtain s' l r where
    r: "no_load_rounds 29 (Suc 0) MotorParameters_defaults s1 ((x + loc_bm0 l1) / 2) (Some l1)
         = Inr (s', Some l, r)"
      "reference_geometry s'" "0 < Bts s'" "Bts s' \<le> 1.5" "0 < Bj1 s'" "Bj1 s' \<le> 1.25"
      "0 < loc_bm0 l" "loc_bm0 l \<le> 0.64" "1 < r" "r \<le> 1 + 29"
    by auto
  have "no_load_rounds (Suc 29) 0 MotorParameters_defaults s x None = Inr (s', Some l, r)"
    by (subst no_load_rounds.simps(2)) (simp add: rd nc r(1))
  moreover have "Suc 29 = 30" by simp
  ultimately have "no_load_rounds 30 0 MotorParameters_defaults s x None = Inr (s', Some l, r)"
    by metis
  then show ?thesis using r(2-) unfolding x_def by auto
qed

lemma ref_stage5:
  assumes "reference_geometry s"
  shows "\<exists>s'. calculate_no_load_magnetic_circuit MotorParameters_defaults s = Inr s' \<and>
           reference_geometry s' \<and> 0 < Bts s' \<and> Bts s' \<le> 1.5 \<and> 0 < Bj1 s' \<and> Bj1 s' \<le> 1.25 \<and>
           0 < bm0 s' \<and> bm0 s' < 1"
proof -
  let ?P = MotorParameters_defaults
  define x0 :: real where "x0 = 0.95 * 1.28 * 5.3 / (1.28 * 5.3 + 0.65)"
  from ref_loop[OF assms] obtain s1 l r where
    lp: "no_load_rounds 30 0 ?P s x0 None = Inr (s1, Some l, r)" and
    f: "reference_geometry s1" "0 < Bts s1" "Bts s1 \<le> 1.5" "0 < Bj1 s1" "Bj1 s1 \<le> 1.25"
       "0 < loc_bm0 l" "loc_bm0 l \<le> 0.64"
    unfolding x0_def by blast
  obtain Kg where kg: "calculate_gap_factor ?P s1 = Inr Kg"
    using ref_gap_factor[OF f(1)] by blast
  have b: "pydiv (0.95 * SIGMA0 ?P * hM ?P) (SIGMA0 ?P * hM ?P + g ?P) = Inr x0"
    unfolding x0_def by (simp add: pydiv_def MotorParameters_defaults_def)
  have eq: "calculate_no_load_magnetic_circuit ?P s =
      Inr (s1\<lparr>bm0 := loc_bm0 l, LUMDAn := loc_LUMDAn l,
                 LUMDAs := (SIGMA0 ?P - 1) * loc_LUMDAm l,
                 FI0 := loc_bm0 l * FAIM s1 / SIGMA0 ?P * (1 / 10 ^ 6),
                 Bg1 := 4 / pi * sin (pi * RFAi / 2) * loc_FI01 l
                          / (RFAi * TAO s1 * (La ?P + 2 * g ?P)) * 10 ^ 6,
                 E0 := 4.44 * f ?P * N s1 * Kdp s1
                          * (loc_bm0 l * FAIM s1 / SIGMA0 ?P * (1 / 10 ^ 6))
                          * (8 / (pi * pi) / RFAi * sin (RFAi * pi / 2)),
                 Kst := (Bg s1 / MUO * g ?P * Kg * (1 / 10 ^ 3) + loc_Ft1 l + loc_Ft2 l)
                          / (Bg s1 / MUO * g ?P * Kg * (1 / 10 ^ 3))\<rparr>)"
    unfolding calculate_no_load_magnetic_circuit_def Let_def b
    by (simp only: ebind_def sum.case lp prod.case option.case kg)
  then obtain s' where s': "calculate_no_load_magnetic_circuit ?P s = Inr s'" by blast
  note fr = frame_stage5[OF s']
  have "bm0 s' = loc_bm0 l" "Bts s' = Bts s1" "Bj1 s' = Bj1 s1"
    using s' unfolding eq by auto
  moreover have "reference_geometry s'"
    using f(1) s' unfolding eq by (auto simp: reference_geometry_def)
  ultimately show ?thesis using s' f by auto
qed

lemma magnetic_round_gap_factor:
  assumes "magnetic_round prm s x = Inr (s', l)"
  shows "\<exists>Kg. calculate_gap_factor prm s' = Inr Kg"
proof -
  from magnetic_round_Inr[OF assms] obtain Kg where "calculate_gap_factor prm s = Inr Kg"
    by blast
  then show ?thesis
    using magnetic_round_frame[OF assms] calculate_gap_factor_fields by metis
qed

lemma stage5_after_loop:
  assumes "pydiv (0.95 * SIGMA0 prm * hM prm) (SIGMA0 prm * hM prm + g prm) = Inr b"
    and "no_load_rounds 30 0 prm s b None = Inr (s', Some l, r)"
    and "calculate_gap_factor prm s' = Inr Kg"
  shows "\<exists>s''. calculate_no_load_magnetic_circuit prm s = Inr s'' \<and>
           bm0 s'' = loc_bm0 l \<and> LUMDAn s'' = loc_LUMDAn l \<and>
           Bg s'' = Bg s' \<and> Bts s'' = Bts s' \<and> Bj1 s'' = Bj1 s' \<and> Btr s'' = Btr s' \<and>
           Bj2 s'' = Bj2 s'"
  unfolding calculate_no_load_magnetic_circuit_def Let_def assms(1)
  by (simp add: ebind_def assms(2,3))

lemma defaults_steel_update: "MotorParameters_defaults\<lparr>steel_type := 5\<rparr> = MotorParameters_defaults"
  by (simp add: MotorParameters_defaults_def)

lemma ref_state:
  "\<exists>s4. run_stages (take 4 pipeline) MotorParameters_defaults s [] = (Inr s4, [1, 2, 3, 4]) \<and>
         reference_geometry s4"
  using ref_stages_1_4[of 5 s] by (simp add: defaults_steel_update)

lemma defaults_estimate:
  "0.95 * SIGMA0 MotorParameters_defaults * hM MotorParameters_defaults /
     (SIGMA0 MotorParameters_defaults * hM MotorParameters_defaults + g MotorParameters_defaults)
   = 0.95 * 1.28 * 5.3 / (1.28 * 5.3 + 0.65)"
  "SIGMA0 MotorParameters_defaults * hM MotorParameters_defaults + g MotorParameters_defaults \<noteq> 0"
  by (simp_all add: MotorParameters_defaults_def)

lemma estimate_unit_aux:
  fixes q gg :: real
  assumes "0 < q" "0 < gg"
  shows "0 < 0.95 * q / (q + gg)" "0.95 * q / (q + gg) < 1"
proof -
  have d: "0 < q + gg" using assms by (rule add_pos_pos)
  have n: "0 < 0.95 * q" using assms(1) by simp
  show "0 < 0.95 * q / (q + gg)" using n d by (rule divide_pos_pos)
  have "0.95 * q < q + gg" using assms by simp
  then show "0.95 * q / (q + gg) < 1" using d by (simp only: divide_less_eq_1_pos)
qed

lemma estimate_unit:
  fixes sg hm gg :: real
  assumes "0 < hm" "0 < gg" "0 < sg"
  shows "0 < 0.95 * sg * hm / (sg * hm + gg)" "0.95 * sg * hm / (sg * hm + gg) < 1"
proof -
  have p: "0 < sg * hm" using assms by simp
  show "0 < 0.95 * sg * hm / (sg * hm + gg)" "0.95 * sg * hm / (sg * hm + gg) < 1"
    using estimate_unit_aux[OF p assms(2)] by (simp_all only: mult.assoc)
qed

lemma magnetic_round_bm0:
  assumes "magnetic_round prm s x = Inr (s', l)"
  shows "loc_bm0 l = loc_LUMDAn l / (loc_LUMDAn l + 1)"
  using magnetic_round_Inr[OF assms] by (auto simp: Let_def)

lemma permeance_unit:
  fixes u :: real
  assumes "0 < u"
  shows "0 < u / (u + 1)" "u / (u + 1) < 1"
  using assms by simp_all

lemma mean_unit:
  fixes u v :: real
  assumes "0 < u" "u < 1" "0 < v" "v < 1"
  shows "0 < (u + v) / 2" "(u + v) / 2 < 1"
  using assms by simp_all

lemma trace_unit:
  fixes xs :: "real list"
  assumes x0: "0 < xs ! 0" "xs ! 0 < 1"
    and bm: "\<forall>i < r. 0 < bs i \<and> bs i < 1"
    and st: "\<forall>i. Suc i < r \<longrightarrow> xs ! Suc i = (xs ! i + bs i) / 2"
  shows "i < r \<Longrightarrow> 0 < xs ! i \<and> xs ! i < 1"
proof (induction i)
  case 0
  then show ?case using x0 by simp
next
  case (Suc i)
  then have i: "0 < xs ! i" "xs ! i < 1" by simp_all
  have b: "0 < bs i" "bs i < 1" using bm Suc.prems by simp_all
  have "xs ! Suc i = (xs ! i + bs i) / 2" using st Suc.prems by simp
  then show ?case using mean_unit[OF i b] by simp
qed

lemma ref_trace_permeance:
  assumes ref: "reference_geometry s" and x0: "0 < xs ! 0"
    and rd: "\<forall>i < r. \<exists>si. magnetic_round MotorParameters_defaults s (xs ! i) = Inr (si, ls ! i)"
    and st: "\<forall>i. Suc i < r \<longrightarrow> xs ! Suc i = (xs ! i + loc_bm0 (ls ! i)) / 2"
  shows "i < r \<Longrightarrow> 0 < xs ! i \<and> 0 < loc_LUMDAn (ls ! i) \<and> 0 < loc_bm0 (ls ! i)"
proof (induction i)
  case 0
  from ref_round_unit[OF ref x0] obtain sa la where
    a: "magnetic_round MotorParameters_defaults s (xs ! 0) = Inr (sa, la)"
       "0 < loc_LUMDAn la" "0 < loc_bm0 la" by blast
  from rd 0 obtain si where "magnetic_round MotorParameters_defaults s (xs ! 0) = Inr (si, ls ! 0)"
    by blast
  with a(1) have "la = ls ! 0" by simp
  with a x0 show ?case by simp
next
  case (Suc i)
  then have i: "0 < xs ! i" "0 < loc_bm0 (ls ! i)" by simp_all
  have "xs ! Suc i = (xs ! i + loc_bm0 (ls ! i)) / 2" using st Suc.prems by simp
  then have x: "0 < xs ! Suc i" using i by simp
  from ref_round_unit[OF ref x] obtain sa la where
    a: "magnetic_round MotorParameters_defaults s (xs ! Suc i) = Inr (sa, la)"
       "0 < loc_LUMDAn la" "0 < loc_bm0 la" by blast
  from rd Suc.prems obtain si where
    "magnetic_round MotorParameters_defaults s (xs ! Suc i) = Inr (si, ls ! Suc i)"
    by blast
  with a(1) have "la = ls ! Suc i" by simp
  with a x show ?case by simp
qed

section \<open>The slot leakage of the reference geometry\<close>

lemma slot_ref_1:
  "\<exists>v. calculate_slot_leakage 1 0.8 2.0 15.0 6.4 5.5 7.5 1.0 (5.5 / 6.4) 0.5 0.3 0.2 = Inr v
       \<and> 0.4 < v \<and> v < 1"
proof -
  define w where "w = pi * (1 + (5.5 / 6.4 :: real)\<^sup>2) / 8 + (1 + 5.5 / 6.4) / 2"
  have w: "1.36 < w" using pi_ge_two unfolding w_def by (simp add: power2_eq_square)
  then have w2: "1.36 * 1.36 < w\<^sup>2" unfolding power2_eq_square
    by (intro mult_strict_mono) auto
  have pos: "0 < w\<^sup>2" using w by simp
  have a: "1 / w\<^sup>2 < 0.6" using w2 pos by (simp add: field_simps)
  have b: "0 < 1 / w\<^sup>2" using pos by simp
  have c: "calculate_slot_leakage 1 0.8 2.0 15.0 6.4 5.5 7.5 1.0 (5.5 / 6.4) 0.5 0.3 0.2
      = Inr (1 / w\<^sup>2 + 0.4)"
    using pos unfolding w_def by (simp add: calculate_slot_leakage_def pydiv_def ebind_def)
  have "0 < q \<Longrightarrow> q < 0.6 \<Longrightarrow> 0.4 < q + 0.4 \<and> q + 0.4 < 1" for q :: real by simp
  from this[OF b a] have "0.4 < 1 / w\<^sup>2 + 0.4" "1 / w\<^sup>2 + 0.4 < 1" by blast+
  then show ?thesis using c by blast
qed

lemma slot_ref_4:
  "\<exists>v. calculate_slot_leakage 4 0.8 2.0 15.0 6.4 5.5 7.5 1.0 (5.5 / 6.4) 0.5 0.3 0.2 = Inr v
       \<and> 3.9 < v"
proof -
  define w where "w = pi / 8 + (1 + (5.5 / 6.4 :: real)) / 2"
  have w: "0 < w" using pi_ge_two unfolding w_def by simp
  then have pos: "0 < w\<^sup>2" by simp
  have b: "0 < 0.8 / w\<^sup>2" using pos by simp
  have c: "calculate_slot_leakage 4 0.8 2.0 15.0 6.4 5.5 7.5 1.0 (5.5 / 6.4) 0.5 0.3 0.2
      = Inr (0.8 / w\<^sup>2 + 0.4 + 30 / 8.4)"
    using pos unfolding w_def by (simp add: calculate_slot_leakage_def pydiv_def ebind_def)
  have r: "(3.5 :: real) < 30 / 8.4" by simp
  have "0 < q \<Longrightarrow> 3.5 < r \<Longrightarrow> 3.9 < q + 0.4 + r" for q r :: real by simp
  from this[OF b r] have "3.9 < 0.8 / w\<^sup>2 + 0.4 + 30 / 8.4" .
  then show ?thesis using c by blast
qed

lemma slot_ref_2:
  "calculate_slot_leakage 2 0.8 2.0 15.0 6.4 5.5 7.5 1.0 (5.5 / 6.4) 0.5 0.3 0.2
     = Inr (15 / 6.4 + 15 / 35.7 + 0.4)"
  by (simp add: calculate_slot_leakage_def pydiv_def ebind_def)

lemma slot_ref_3:
  "calculate_slot_leakage 3 0.8 2.0 15.0 6.4 5.5 7.5 1.0 (5.5 / 6.4) 0.5 0.3 0.2 = Inr 1.023"
  by (simp add: calculate_slot_leakage_def pydiv_def ebind_def)

lemma above_fallback:
  fixes u v c :: real
  shows "0 < u \<Longrightarrow> c < u + c" and "0 < u \<Longrightarrow> 0 < v \<Longrightarrow> c < u + v + c"
    and "0 < u \<Longrightarrow> 0 < v \<Longrightarrow> c < u + c + v"
  by simp_all

lemma slot_tag_1_above:
  fixes h02 b02 QSX B12 KRS1 KRS2 KRS3 :: real
  assumes "0 < b02" and "0 < QSX" and "0 < B12" and "0 < KRS1" and "0 < KRS2" and "0 < KRS3"
  shows "\<exists>v. calculate_slot_leakage 1 h02 b02 h2 d1 d2 h22 QSX B12 KRS1 KRS2 KRS3 = Inr v \<and>
             h02 / b02 < v"
proof (cases "\<bar>B12 - 1.0\<bar> \<le> 1 / 10 ^ 4")
  case True
  define dn where "dn = (2.0 * QSX + pi / 2.0)\<^sup>2"
  define nm where "nm = 4.0 * QSX ^ 3 / 3.0 + 3.0 * pi * QSX\<^sup>2 / 2.0 + 4.816 * QSX + 1.5377"
  have "0 < 2.0 * QSX + pi / 2.0" using assms(2) pi_gt_zero by (simp add: add_pos_pos)
  then have dn: "0 < dn" unfolding dn_def by simp
  have "0 < QSX ^ 3" "0 < QSX\<^sup>2" using assms(2) by simp_all
  then have "0 < 4.0 * QSX ^ 3 / 3.0" "0 < 3.0 * pi * QSX\<^sup>2 / 2.0" "0 < 4.816 * QSX"
    using assms(2) by simp_all
  then have nm: "0 < nm" unfolding nm_def by (intro add_pos_pos) simp_all
  have q: "0 < nm / dn" using nm dn by simp
  have "calculate_slot_leakage 1 h02 b02 h2 d1 d2 h22 QSX B12 KRS1 KRS2 KRS3
      = Inr (nm / dn + h02 / b02)"
    using True dn assms(1) unfolding calculate_slot_leakage_def nm_def dn_def
    by (simp add: ebind_def pydiv_def)
  with above_fallback(1)[OF q, of "h02 / b02"] show ?thesis by blast
next
  case False
  define w where "w = pi * (1.0 + B12\<^sup>2) / (8.0 * QSX)"
  define dn where "dn = (w + (1.0 + B12) / 2.0)\<^sup>2"
  define nm where "nm = QSX * (KRS1 + KRS2 + KRS3)"
  have "0 < 1.0 + B12\<^sup>2" by (simp add: add_pos_nonneg)
  then have "0 < pi * (1.0 + B12\<^sup>2)" using pi_gt_zero by simp
  then have w: "0 < w" unfolding w_def using assms(2) by simp
  have "0 < w + (1.0 + B12) / 2.0" using w assms(3) by (intro add_pos_pos) simp_all
  then have dn: "0 < dn" unfolding dn_def by simp
  have nm: "0 < nm" unfolding nm_def using assms(2,4,5,6) by simp
  have q: "0 < nm / dn" using nm dn by simp
  have "calculate_slot_leakage 1 h02 b02 h2 d1 d2 h22 QSX B12 KRS1 KRS2 KRS3
      = Inr (nm / dn + h02 / b02)"
    using False dn assms(1,2) unfolding calculate_slot_leakage_def nm_def dn_def w_def
    by (simp add: ebind_def pydiv_def)
  with above_fallback(1)[OF q, of "h02 / b02"] show ?thesis by blast
qed

lemma slot_tag_2_above:
  fixes h02 b02 h2 d1 d2 h22 :: real
  assumes "0 < b02" and "0 < h2" and "0 < d1" and "0 < d2" and "0 < h22"
  shows "\<exists>v. calculate_slot_leakage 2 h02 b02 h2 d1 d2 h22 QSX B12 KRS1 KRS2 KRS3 = Inr v \<and>
             h02 / b02 < v"
proof -
  have d: "0 < d1 + d2" using assms(3,4) by simp
  have q: "0 < h2 / d1" "0 < 2.0 * h22 / (3.0 * (d1 + d2))" using assms d by simp_all
  have "calculate_slot_leakage 2 h02 b02 h2 d1 d2 h22 QSX B12 KRS1 KRS2 KRS3
      = Inr (h2 / d1 + 2.0 * h22 / (3.0 * (d1 + d2)) + h02 / b02)"
    using assms d unfolding calculate_slot_leakage_def by (simp add: ebind_def pydiv_def)
  with above_fallback(2)[OF q, of "h02 / b02"] show ?thesis by blast
qed

lemma slot_tag_3_above:
  fixes h02 b02 :: real
  assumes "0 < b02"
  shows "\<exists>v. calculate_slot_leakage 3 h02 b02 h2 d1 d2 h22 QSX B12 KRS1 KRS2 KRS3 = Inr v \<and>
             h02 / b02 < v"
  using assms unfolding calculate_slot_leakage_def by (simp add: ebind_def pydiv_def)

lemma slot_tag_4_above:
  fixes h02 b02 h2 d1 QSX B12 KRS1 KRS2 :: real
  assumes "0 < b02" and "0 < h2" and "0 < d1" and "0 < QSX" and "0 < B12"
    and "0 < KRS1" and "0 < KRS2"
  shows "\<exists>v. calculate_slot_leakage 4 h02 b02 h2 d1 d2 h22 QSX B12 KRS1 KRS2 KRS3 = Inr v \<and>
             h02 / b02 < v"
proof -
  have bd: "0 < b02 + d1" using assms(1,3) by simp
  have r: "0 < 2.0 * h2 / (b02 + d1)" using assms(2) bd by simp
  show ?thesis
  proof (cases "\<bar>B12 - 1.0\<bar> \<le> 1 / 10 ^ 4")
    case True
    define dn where "dn = (2.0 * QSX + pi / 4.0)\<^sup>2"
    define nm where "nm = pi\<^sup>2 * QSX / 16.0 + pi * QSX\<^sup>2 / 2.0 + 4.0 * QSX ^ 3 / 3.0"
    have "0 < 2.0 * QSX + pi / 4.0" using assms(4) pi_gt_zero by (simp add: add_pos_pos)
    then have dn: "0 < dn" unfolding dn_def by simp
    have "0 < QSX ^ 3" "0 < QSX\<^sup>2" "0 < pi\<^sup>2" using assms(4) by simp_all
    then have "0 < pi\<^sup>2 * QSX / 16.0" "0 < pi * QSX\<^sup>2 / 2.0" "0 < 4.0 * QSX ^ 3 / 3.0"
      using assms(4) by simp_all
    then have nm: "0 < nm" unfolding nm_def by (intro add_pos_pos) simp_all
    have q: "0 < nm / dn" using nm dn by simp
    have "calculate_slot_leakage 4 h02 b02 h2 d1 d2 h22 QSX B12 KRS1 KRS2 KRS3
        = Inr (nm / dn + h02 / b02 + 2.0 * h2 / (b02 + d1))"
      using True dn assms(1) bd unfolding calculate_slot_leakage_def nm_def dn_def
      by (simp add: ebind_def pydiv_def)
    with above_fallback(3)[OF q r, of "h02 / b02"] show ?thesis by blast
  next
    case False
    define z where "z = pi / (8.0 * QSX)"
    define dn where "dn = (z + (1.0 + B12) / 2.0)\<^sup>2"
    define nm where "nm = QSX * (KRS1 + KRS2)"
    have z: "0 < z" unfolding z_def using assms(4) pi_gt_zero by simp
    have "0 < z + (1.0 + B12) / 2.0" using z assms(5) by (intro add_pos_pos) simp_all
    then have dn: "0 < dn" unfolding dn_def by simp
    have nm: "0 < nm" unfolding nm_def using assms(4,6,7) by simp
    have q: "0 < nm / dn" using nm dn by simp
    have "calculate_slot_leakage 4 h02 b02 h2 d1 d2 h22 QSX B12 KRS1 KRS2 KRS3
        = Inr (nm / dn + h02 / b02 + 2.0 * h2 / (b02 + d1))"
      using False dn assms(1,4) bd unfolding calculate_slot_leakage_def nm_def dn_def z_def
      by (simp add: ebind_def pydiv_def)
    with above_fallback(3)[OF q r, of "h02 / b02"] show ?thesis by blast
  qed
qed

lemma slot_eq_1:
  "\<exists>v. calculate_slot_leakage 1 0.8 2.0 15.0 6.4 6.4 7.5 1.0 1.0 0.5 0.3 0.2 = Inr v
       \<and> 1.3 < v \<and> v < 1.4"
proof -
  define nm where "nm = 4 / 3 + 3 * pi / 2 + 4.816 + 1.5377"
  define r where "r = 2 + pi / 2"
  have r: "3.57 < r" "r < 3.5708" unfolding r_def using pi_lower pi_upper by simp_all
  have "3.57 * 3.57 < r * r" by (rule mult_strict_mono[OF r(1) r(1)]) (use r in simp_all)
  then have lo: "12.74 < r\<^sup>2" by (simp add: power2_eq_square)
  have "r * r < 3.5708 * 3.5708" by (rule mult_strict_mono[OF r(2) r(2)]) (use r in simp_all)
  then have hi: "r\<^sup>2 < 12.76" by (simp add: power2_eq_square)
  have nm: "12.39 < nm" "nm < 12.4" unfolding nm_def using pi_lower pi_upper by simp_all
  have "0 < r" using r(1) by simp
  then have pos: "0 < r\<^sup>2" by simp
  have "0.9 * r\<^sup>2 < nm" using hi nm(1) by simp
  then have a: "0.9 < nm / r\<^sup>2" using pos by (simp add: field_simps)
  have "nm < 1 * r\<^sup>2" using lo nm(2) by simp
  then have b: "nm / r\<^sup>2 < 1" using pos by (simp add: field_simps)
  have "calculate_slot_leakage 1 0.8 2.0 15.0 6.4 6.4 7.5 1.0 1.0 0.5 0.3 0.2
      = Inr (nm / r\<^sup>2 + 0.4)"
    using pos unfolding nm_def r_def by (simp add: calculate_slot_leakage_def pydiv_def ebind_def)
  moreover have "0.9 < u \<Longrightarrow> u < 1 \<Longrightarrow> 1.3 < u + 0.4 \<and> u + 0.4 < 1.4" for u :: real
    by simp
  from this[OF a b] have "1.3 < nm / r\<^sup>2 + 0.4" "nm / r\<^sup>2 + 0.4 < 1.4" by blast+
  ultimately show ?thesis by blast
qed

lemma slot_eq_4:
  "\<exists>v. calculate_slot_leakage 4 0.8 2.0 15.0 6.4 6.4 7.5 1.0 1.0 0.5 0.3 0.2 = Inr v
       \<and> 3.9 < v"
proof -
  define nm where "nm = pi\<^sup>2 / 16 + pi / 2 + 4 / 3"
  define r where "r = 2 + pi / 4"
  have "0 < r" unfolding r_def using pi_gt_zero by (intro add_pos_pos) simp_all
  then have pos: "0 < r\<^sup>2" by simp
  have "0 < nm" unfolding nm_def using pi_gt_zero by (intro add_pos_pos) simp_all
  then have q: "0 < nm / r\<^sup>2" using pos by simp
  have c: "calculate_slot_leakage 4 0.8 2.0 15.0 6.4 6.4 7.5 1.0 1.0 0.5 0.3 0.2
      = Inr (nm / r\<^sup>2 + 0.4 + 30 / 8.4)"
    using pos unfolding nm_def r_def by (simp add: calculate_slot_leakage_def pydiv_def ebind_def)
  have s: "(3.5 :: real) < 30 / 8.4" by simp
  have "0 < u \<Longrightarrow> 3.5 < w \<Longrightarrow> 3.9 < u + 0.4 + w" for u w :: real by simp
  from this[OF q s] c show ?thesis by blast
qed

lemma slot_eq_2:
  "calculate_slot_leakage 2 0.8 2.0 15.0 6.4 6.4 7.5 1.0 1.0 0.5 0.3 0.2
     = Inr (15 / 6.4 + 15 / 38.4 + 0.4)"
  by (simp add: calculate_slot_leakage_def pydiv_def ebind_def)

lemma slot_eq_3:
  "calculate_slot_leakage 3 0.8 2.0 15.0 6.4 6.4 7.5 1.0 1.0 0.5 0.3 0.2 = Inr 1.023"
  by (simp add: calculate_slot_leakage_def pydiv_def ebind_def)

section \<open>The run on the default parameters\<close>

lemma stage6_returns:
  assumes "LE prm \<in> {1, 2, 3}" and "p prm \<noteq> 0" and "b01 prm \<noteq> 0" and "b01 prm + b1 prm \<noteq> 0"
    and "m prm \<noteq> 0" and "Q1 prm \<noteq> 0" and "calculate_gap_factor prm s = Inr Kg"
    and "upper (sks prm) = ''Y''" and "Q1 prm + p prm \<noteq> 0" and "t1 s \<noteq> 0"
    and "br1 prm \<noteq> 0"
    and "calculate_slot_leakage (CX prm) (h02 prm) (b02 prm) (hr12 prm) (br1 prm) (br2 prm)
           (hr12 prm / 2) 1.0 (br2 prm / br1 prm) 0.5 0.3 0.2 = Inr lam"
    and "Q2 prm \<noteq> 0" and "La prm + 2 * g prm \<noteq> 0"
  shows "\<exists>s'. calculate_impedances prm s = Inr s'"
proof -
  have "real_of_int (Q1 prm + p prm) \<noteq> 0" using assms(9) by simp
  then have "real_of_int (Q1 prm) + real_of_int (p prm) \<noteq> 0" by simp
  then show ?thesis
    using assms unfolding calculate_impedances_def Let_def
    by (simp add: ebind_def pydiv_def)
qed

lemma stage6_Rs:
  assumes "calculate_impedances prm s = Inr s'"
  shows "\<exists>sss c.
     (if LE prm \<in> {1, 2, 3} then
               Inr (if p prm = 1 then 0.58 else if p prm \<in> {2, 3} then 0.6 else 0.625)
             else
               ebind (pydiv (b1 prm + 2 * R1 prm) (b1 prm + 2 * R1 prm + 2 * bt1 s)) (\<lambda>u.
               Inr (1 / sqrt (1 - u\<^sup>2) / 2))) = Inr sss \<and>
     pydiv (pi / 2) (of_int (p prm)) = Inr c \<and>
     Rs s' = 0.0175 * (1 + 0.004 * (t prm - 15))
               * (2 * (La prm + 2 * (d prm + sss *
                    (if LE prm \<in> {1, 2}
                     then c * 0.85 * (Di1 prm + 2 * (h01 prm + hs1 s) + h12 prm - hs1 s + R1 prm)
                     else c * (Di1 prm + 2 * (h01 prm + hs1 s) + h12 prm - hs1 s + R1 prm)))))
               * N s
             / (of_int (a prm) * (of_int (Nt1 prm) * pi * (d11 prm)\<^sup>2 / 4
                                  + of_int (Nt2 prm) * pi * (d12 prm)\<^sup>2 / 4) * 1000)"
  using assms unfolding calculate_impedances_def Let_def
  apply (simp only: ebind_eq_Inr)
  apply (elim exE conjE)
  apply (intro exI conjI, assumption, assumption)
  apply (simp only: sum.inject)
  apply hypsubst
  apply simp
  done

lemma sqrt3_bounds: "1.732 < sqrt 3" "sqrt 3 < 1.7321"
proof -
  show "1.732 < sqrt 3" by (rule real_less_rsqrt) (simp add: power2_eq_square)
  show "sqrt 3 < 1.7321" by (rule real_less_lsqrt) (simp_all add: power2_eq_square)
qed

lemma ref_IN:
  "15000 / (3 * (380 / sqrt 3) * 0.935 * 0.95) = sqrt 3 * (15000 / 1012.605)"
  "25.65 < 15000 / (3 * (380 / sqrt 3) * 0.935 * 0.95)"
  "15000 / (3 * (380 / sqrt 3) * 0.935 * 0.95) < 25.66"
  "(15000 / (3 * (380 / sqrt 3) * 0.935 * 0.95))\<^sup>2 = 3 * (15000 / 1012.605)\<^sup>2"
proof -
  show e: "15000 / (3 * (380 / sqrt 3) * 0.935 * 0.95) = sqrt 3 * (15000 / 1012.605)"
    by simp
  show "25.65 < 15000 / (3 * (380 / sqrt 3) * 0.935 * 0.95)"
    unfolding e using sqrt3_bounds by simp
  show "15000 / (3 * (380 / sqrt 3) * 0.935 * 0.95) < 25.66"
    unfolding e using sqrt3_bounds by simp
  show "(15000 / (3 * (380 / sqrt 3) * 0.935 * 0.95))\<^sup>2 = 3 * (15000 / 1012.605)\<^sup>2"
  proof -
    have "(sqrt 3 * q)\<^sup>2 = 3 * q\<^sup>2" for q :: real by (simp add: power_mult_distrib)
    then show ?thesis unfolding e .
  qed
qed

lemma ref_hs1: "1.125 < 1.95 * (1 / sqrt 3)" "1.95 * (1 / sqrt 3) < 1.126"
proof -
  have p: "0 < sqrt 3" by simp
  have "1.125 * sqrt 3 < 1.95" using sqrt3_bounds by simp
  then show "1.125 < 1.95 * (1 / sqrt 3)" using p by (simp add: field_simps)
  have "1.95 < 1.126 * sqrt 3" using sqrt3_bounds by simp
  then show "1.95 * (1 / sqrt 3) < 1.126" using p by (simp add: field_simps)
qed

lemma ref_Rs_bound:
  fixes h :: real
  assumes "1.125 < h" "h < 1.126"
  shows "0 < 0.0175 * (1 + 0.004 * (75 - 15))
               * (2 * (190 + 2 * (15 + 0.6 * (pi / 4 * 0.85 * (170 + 2 * (0.8 + h) + 15.2 - h + 5.1)))))
               * 78
             / (1 * (2 * pi * 1.2\<^sup>2 / 4 + 3 * pi * 1.25\<^sup>2 / 4) * 1000)"
    and "0.0175 * (1 + 0.004 * (75 - 15))
               * (2 * (190 + 2 * (15 + 0.6 * (pi / 4 * 0.85 * (170 + 2 * (0.8 + h) + 15.2 - h + 5.1)))))
               * 78
             / (1 * (2 * pi * 1.2\<^sup>2 / 4 + 3 * pi * 1.25\<^sup>2 / 4) * 1000) < 0.214"
proof -
  define K where "K = 170 + 2 * (0.8 + h) + 15.2 - h + 5.1"
  have K: "0 < K" "K < 193.026" unfolding K_def using assms by simp_all
  define T where "T = pi / 4 * 0.85 * K"
  define PK where "PK = pi * K"
  have "PK < 3.1416 * 193.026" unfolding PK_def
    by (rule mult_strict_mono[OF pi_upper K(2)]) (use K in simp_all)
  moreover have "T = 0.85 / 4 * PK" unfolding T_def PK_def by simp
  ultimately have T: "T < 128.87" by simp
  have T0: "0 < T" unfolding T_def using K by simp
  define Lc where "Lc = 2 * (190 + 2 * (15 + 0.6 * T))"
  have Lc: "0 < Lc" "Lc < 749.3" unfolding Lc_def using T T0 by simp_all
  define num where "num = 0.0175 * (1 + 0.004 * (75 - 15)) * Lc * 78"
  have num: "0 < num" "num < 1268.3" unfolding num_def using Lc by simp_all
  define den where "den = 1 * (2 * pi * 1.2\<^sup>2 / 4 + 3 * pi * 1.25\<^sup>2 / 4) * 1000"
  have "den = pi * 1891.875" unfolding den_def by (simp add: power2_eq_square)
  then have den: "5943 < den" using pi_lower by simp
  then have dp: "0 < den" by simp
  have "num < 0.214 * den" using num den by simp
  then have b: "num / den < 0.214" using dp by (simp add: field_simps)
  have a: "0 < num / den" using num dp by simp
  show "0 < 0.0175 * (1 + 0.004 * (75 - 15))
               * (2 * (190 + 2 * (15 + 0.6 * (pi / 4 * 0.85 * (170 + 2 * (0.8 + h) + 15.2 - h + 5.1)))))
               * 78
             / (1 * (2 * pi * 1.2\<^sup>2 / 4 + 3 * pi * 1.25\<^sup>2 / 4) * 1000)"
    using a unfolding num_def den_def Lc_def T_def K_def .
  show "0.0175 * (1 + 0.004 * (75 - 15))
               * (2 * (190 + 2 * (15 + 0.6 * (pi / 4 * 0.85 * (170 + 2 * (0.8 + h) + 15.2 - h + 5.1)))))
               * 78
             / (1 * (2 * pi * 1.2\<^sup>2 / 4 + 3 * pi * 1.25\<^sup>2 / 4) * 1000) < 0.214"
    using b unfolding num_def den_def Lc_def T_def K_def .
qed

lemma ref_stage6:
  assumes "reference_geometry s"
  shows "\<exists>s'. calculate_impedances MotorParameters_defaults s = Inr s' \<and>
           0 < Rs s' \<and> Rs s' < 0.214 \<and>
           s' = s\<lparr>fd := fd s', Ls := Ls s', Rs := Rs s', X1 := X1 s', R2 := R2 s', X2 := X2 s'\<rparr>"
proof -
  let ?P = MotorParameters_defaults
  obtain Kg where Kg: "calculate_gap_factor ?P s = Inr Kg" using ref_gap_factor[OF assms] by blast
  obtain lam where lam: "calculate_slot_leakage (CX ?P) (h02 ?P) (b02 ?P) (hr12 ?P) (br1 ?P)
      (br2 ?P) (hr12 ?P / 2) 1.0 (br2 ?P / br1 ?P) 0.5 0.3 0.2 = Inr lam"
    using slot_ref_1 by (auto simp: MotorParameters_defaults_def)
  have t1: "t1 s \<noteq> 0" by (simp add: ref_fields[OF assms])
  have "\<exists>s'. calculate_impedances ?P s = Inr s'"
    by (rule stage6_returns[OF _ _ _ _ _ _ Kg _ _ t1 _ lam])
       (simp_all add: MotorParameters_defaults_def upper_Y)
  then obtain s' where s': "calculate_impedances ?P s = Inr s'" by blast
  from stage6_Rs[OF s'] obtain sss c where
    a: "(if LE ?P \<in> {1, 2, 3} then
               Inr (if p ?P = 1 then 0.58 else if p ?P \<in> {2, 3} then 0.6 else 0.625)
             else
               ebind (pydiv (b1 ?P + 2 * R1 ?P) (b1 ?P + 2 * R1 ?P + 2 * bt1 s)) (\<lambda>u.
               Inr (1 / sqrt (1 - u\<^sup>2) / 2))) = Inr sss"
     "pydiv (pi / 2) (of_int (p ?P)) = Inr c"
     "Rs s' = 0.0175 * (1 + 0.004 * (t ?P - 15))
               * (2 * (La ?P + 2 * (d ?P + sss *
                    (if LE ?P \<in> {1, 2}
                     then c * 0.85 * (Di1 ?P + 2 * (h01 ?P + hs1 s) + h12 ?P - hs1 s + R1 ?P)
                     else c * (Di1 ?P + 2 * (h01 ?P + hs1 s) + h12 ?P - hs1 s + R1 ?P)))))
               * N s
             / (of_int (a ?P) * (of_int (Nt1 ?P) * pi * (d11 ?P)\<^sup>2 / 4
                                  + of_int (Nt2 ?P) * pi * (d12 ?P)\<^sup>2 / 4) * 1000)"
    by blast
  have sss: "sss = 0.6" using a(1) by (simp add: MotorParameters_defaults_def)
  have c: "c = pi / 4" using a(2) by (simp add: pydiv_def MotorParameters_defaults_def)
  have
    "Rs s' = 0.0175 * (1 + 0.004 * (75 - 15))
               * (2 * (190 + 2 * (15 + 0.6 * (pi / 4 * 0.85
                    * (170 + 2 * (0.8 + 1.95 * (1 / sqrt 3)) + 15.2 - 1.95 * (1 / sqrt 3) + 5.1)))))
               * 78
             / (1 * (2 * pi * 1.2\<^sup>2 / 4 + 3 * pi * 1.25\<^sup>2 / 4) * 1000)"
    unfolding a(3) sss c by (simp add: MotorParameters_defaults_def ref_fields[OF assms])
  with ref_Rs_bound[OF ref_hs1] have "0 < Rs s'" "Rs s' < 0.214" by simp_all
  with s' frame_stage6[OF s'] show ?thesis by blast
qed

lemma ref_volumes:
  "0 < 36 * 190 * 0.93 * 16.9 * (202 * pi / 36 - 10.2)"
  "36 * 190 * 0.93 * 16.9 * (202 * pi / 36 - 10.2) < 798600"
  "0 < pi * 234.4 * 190 * 0.93 * 25.6"
  "pi * 234.4 * 190 * 0.93 * 25.6 < 3331100"
proof -
  define b where "b = 202 * pi / 36 - 10.2"
  have b: "7.427 < b" "b < 7.428" unfolding b_def using ref_bt1 by simp_all
  have "0 < 36 * 190 * 0.93 * 16.9 * b" "36 * 190 * 0.93 * 16.9 * b < 798600"
    using b by simp_all
  then show "0 < 36 * 190 * 0.93 * 16.9 * (202 * pi / 36 - 10.2)"
    "36 * 190 * 0.93 * 16.9 * (202 * pi / 36 - 10.2) < 798600" unfolding b_def .
  show "0 < pi * 234.4 * 190 * 0.93 * 25.6" by simp
  show "pi * 234.4 * 190 * 0.93 * 25.6 < 3331100" using pi_upper by simp
qed

lemma loss_sum_bound:
  fixes i2 rs vt vj pt pj :: real
  assumes "i2 = 3 * (15000 / 1012.605)\<^sup>2" and "0 < rs" and "rs < 0.214"
    and "0 < vt" and "vt < 798600" and "0 < vj" and "vj < 3331100"
    and "0.5 \<le> pt" and "pt \<le> 35.7" and "0.5 \<le> pj" and "pj \<le> 17.6"
  shows "0 < 3 * i2 * rs + (2.5 * vt * pt / 10 ^ 6 + 2 * vj * pj / 10 ^ 6) + 160.5 + 225"
    and "3 * i2 * rs + (2.5 * vt * pt / 10 ^ 6 + 2 * vj * pj / 10 ^ 6) + 160.5 + 225 < 1000"
proof -
  have i2: "0 < i2" "i2 < 658.4" unfolding assms(1) by (simp_all add: power2_eq_square)
  have a: "0 < i2 * rs" using i2 assms(2) by simp
  have "i2 * rs < 658.4 * 0.214"
    by (rule mult_strict_mono[OF i2(2) assms(3)]) (use assms(2) in simp_all)
  then have a': "i2 * rs < 140.9" by simp
  have b: "0 < vt * pt" using assms(4,8) by simp
  have "vt * pt \<le> 798600 * 35.7"
    by (rule mult_mono) (use assms in simp_all)
  then have b': "vt * pt \<le> 28510020" by simp
  have c: "0 < vj * pj" using assms(6,10) by simp
  have "vj * pj \<le> 3331100 * 17.6"
    by (rule mult_mono) (use assms in simp_all)
  then have c': "vj * pj \<le> 58627360" by simp
  define A where "A = i2 * rs"
  define B where "B = vt * pt"
  define C where "C = vj * pj"
  have e: "3 * i2 * rs + (2.5 * vt * pt / 10 ^ 6 + 2 * vj * pj / 10 ^ 6) + 160.5 + 225
      = 3 * A + (2.5 * B / 10 ^ 6 + 2 * C / 10 ^ 6) + 160.5 + 225"
    unfolding A_def B_def C_def by (simp add: mult.assoc)
  show "0 < 3 * i2 * rs + (2.5 * vt * pt / 10 ^ 6 + 2 * vj * pj / 10 ^ 6) + 160.5 + 225"
    unfolding e using a b c unfolding A_def[symmetric] B_def[symmetric] C_def[symmetric] by simp
  show "3 * i2 * rs + (2.5 * vt * pt / 10 ^ 6 + 2 * vj * pj / 10 ^ 6) + 160.5 + 225 < 1000"
    unfolding e using a' b' c' unfolding A_def[symmetric] B_def[symmetric] C_def[symmetric] by simp
qed

lemma ref_stage9:
  assumes ref: "reference_geometry s" and bts: "Bts s \<le> 1.5" and bj1: "Bj1 s \<le> 1.25"
    and rs: "0 < Rs s" "Rs s < 0.214"
  shows "\<exists>s'. calculate_losses MotorParameters_defaults s = Inr s' \<and>
           0 < pSum s' \<and> pSum s' < 1000"
proof -
  let ?P = MotorParameters_defaults
  obtain pt where pt: "get_iron_loss (Bts s) 5 = Inr pt" "0.5 \<le> pt"
    using get_iron_loss_5 by blast
  obtain pj where pj: "get_iron_loss (Bj1 s) 5 = Inr pj" "0.5 \<le> pj"
    using get_iron_loss_5 by blast
  have pt': "pt \<le> 35.7" using get_iron_loss_5_mono[OF bts pt(1) lookup_values(2)] .
  have pj': "pj \<le> 17.6" using get_iron_loss_5_mono[OF bj1 pj(1) lookup_values(3)] .
  have ne: "IN s \<noteq> 0" using ref_IN(2) by (simp add: ref_fields(1)[OF ref])
  have i2: "(IN s)\<^sup>2 = 3 * (15000 / 1012.605)\<^sup>2"
    using ref_IN(4) by (simp only: ref_fields(1)[OF ref])
  define tot where "tot = 3 * (IN s)\<^sup>2 * Rs s
      + (2.5 * Vt1 s * pt / 10 ^ 6 + 2 * Vj1 s * pj / 10 ^ 6) + 160.5 + 225"
  have vt: "0 < Vt1 s" "Vt1 s < 798600" and vj: "0 < Vj1 s" "Vj1 s < 3331100"
    using ref_volumes by (simp_all only: ref_fields(15,16)[OF ref])
  have tot: "0 < tot" "tot < 1000"
    unfolding tot_def using loss_sum_bound[OF i2 rs vt vj pt(2) pt' pj(2) pj'] by simp_all
  have "\<exists>s'. calculate_losses ?P s = Inr s' \<and> pSum s' = tot"
    unfolding calculate_losses_def Let_def tot_def defaults_steel
    using ne by (simp add: pt(1) pj(1) ebind_def div_by_def upper_Y MotorParameters_defaults_def)
  with tot show ?thesis by auto
qed

lemma ref_stage11:
  assumes "0 < pSum s" and "pSum s < 1000"
  shows "\<exists>s'. calculate_actual_performance MotorParameters_defaults s = Inr s' \<and>
           eff MotorParameters_defaults * 100 < eta_actual s' \<and> eta_actual s' < 100"
proof -
  let ?P = MotorParameters_defaults
  define q where "q = pSum s"
  have q: "0 < q" "q < 1000" using assms unfolding q_def by simp_all
  have d: "0 < 15000 + q" using q by simp
  have "93.5 * (15000 + q) < 15000 * 100" using q by simp
  then have lo: "93.5 < 15000 / (15000 + q) * 100" using d by (simp add: field_simps)
  have "15000 * 100 < 100 * (15000 + q)" using q by simp
  then have hi: "15000 / (15000 + q) * 100 < 100" using d by (simp add: field_simps)
  have "\<exists>s'. calculate_actual_performance ?P s = Inr s' \<and>
      eta_actual s' = 15000 / (15000 + q) * 100"
    unfolding calculate_actual_performance_def Let_def q_def
    by (simp add: ebind_def pydiv_def div_by_def upper_Y MotorParameters_defaults_def)
  moreover have "eff ?P * 100 = 93.5" by (simp add: MotorParameters_defaults_def)
  ultimately show ?thesis using lo hi by auto
qed

lemma drop_4_pipeline:
  "drop 4 pipeline =
     [(5, calculate_no_load_magnetic_circuit), (6, calculate_impedances),
      (7, calculate_performance), (8, calculate_material_weights), (9, calculate_losses),
      (10, calculate_starting_characteristics), (11, calculate_actual_performance)]"
  by (simp add: pipeline_def)

lemma ref_run:
  "\<exists>s. run_stages pipeline MotorParameters_defaults s0 []
           = (Inr s, [1, 2, 3, 4, 5, 6, 7, 8, 9, 10, 11]) \<and>
       reference_geometry s \<and>
       eff MotorParameters_defaults * 100 < eta_actual s \<and> eta_actual s < 100"
proof -
  let ?P = MotorParameters_defaults
  from ref_state[of s0] obtain s4 where
    s4: "run_stages (take 4 pipeline) ?P s0 [] = (Inr s4, [1, 2, 3, 4])" and
    r4: "reference_geometry s4" by blast
  from ref_stage5[OF r4] obtain s5 where
    s5: "calculate_no_load_magnetic_circuit ?P s4 = Inr s5" and r5: "reference_geometry s5" and
    b5: "Bts s5 \<le> 1.5" "Bj1 s5 \<le> 1.25" by blast
  from ref_stage6[OF r5] obtain s6 where
    s6: "calculate_impedances ?P s5 = Inr s6" and rs6: "0 < Rs s6" "Rs s6 < 0.214" by blast
  note f6 = frame_stage6[OF s6]
  have r6: "reference_geometry s6" using r5 by (subst f6) (simp add: reference_geometry_def)
  have b6: "Bts s6 = Bts s5" "Bj1 s6 = Bj1 s5" by (subst f6, simp)+
  obtain s7 where s7: "calculate_performance ?P s6 = Inr s7"
    by (simp add: calculate_performance_def Let_def)
  note f7 = frame_stage7[OF s7]
  have r7: "reference_geometry s7" using r6 by (subst f7) (simp add: reference_geometry_def)
  have b7: "Bts s7 = Bts s6" "Bj1 s7 = Bj1 s6" "Rs s7 = Rs s6" by (subst f7, simp)+
  obtain s8 where s8: "calculate_material_weights ?P s7 = Inr s8"
    by (simp add: calculate_material_weights_def Let_def)
  note f8 = frame_stage8[OF s8]
  have r8: "reference_geometry s8" using r7 by (subst f8) (simp add: reference_geometry_def)
  have b8: "Bts s8 = Bts s7" "Bj1 s8 = Bj1 s7" "Rs s8 = Rs s7" by (subst f8, simp)+
  have c8: "Bts s8 \<le> 1.5" "Bj1 s8 \<le> 1.25" "0 < Rs s8" "Rs s8 < 0.214"
    using b5 rs6 by (simp_all only: b8 b7 b6)
  from ref_stage9[OF r8 c8] obtain s9 where
    s9: "calculate_losses ?P s8 = Inr s9" and p9: "0 < pSum s9" "pSum s9 < 1000" by blast
  note f9 = frame_stage9[OF s9]
  have r9: "reference_geometry s9" using r8 by (subst f9) (simp add: reference_geometry_def)
  obtain s10 where s10: "calculate_starting_characteristics ?P s9 = Inr s10"
    by (simp add: calculate_starting_characteristics_def Let_def)
  note f10 = frame_stage10[OF s10]
  have r10: "reference_geometry s10" using r9 by (subst f10) (simp add: reference_geometry_def)
  have b10: "pSum s10 = pSum s9" by (subst f10) simp
  have p10: "0 < pSum s10" "pSum s10 < 1000" using p9 by (simp_all only: b10)
  from ref_stage11[OF p10] obtain s11 where
    s11: "calculate_actual_performance ?P s10 = Inr s11" and
    e11: "eff ?P * 100 < eta_actual s11" "eta_actual s11 < 100" by blast
  note f11 = frame_stage11[OF s11]
  have r11: "reference_geometry s11" using r10 by (subst f11) (simp add: reference_geometry_def)
  have "pipeline = take 4 pipeline @ drop 4 pipeline" by simp
  then have "run_stages pipeline ?P s0 [] = run_stages (drop 4 pipeline) ?P s4 [1, 2, 3, 4]"
    using run_stages_append[of "take 4 pipeline" "drop 4 pipeline" ?P s0 "[]"] s4 by simp
  also have "\<dots> = (Inr s11, [1, 2, 3, 4, 5, 6, 7, 8, 9, 10, 11])"
    unfolding drop_4_pipeline using s5 s6 s7 s8 s9 s10 s11 by simp
  finally show ?thesis using r11 e11 by blast
qed

lemma ref_calculate_all:
  "\<exists>s r. calculate_all (MotorCalculationEngine MotorParameters_defaults)
           = (True, Completed, [1, 2, 3, 4, 5, 6, 7, 8, 9, 10, 11],
              \<lparr>params = MotorParameters_defaults, attrs = s, results = r\<rparr>) \<and>
       save_complete_results MotorParameters_defaults s = Inr r \<and>
       25.65 < IN s \<and> IN s < 25.66 \<and>
       eff MotorParameters_defaults * 100 < eta_actual s \<and> eta_actual s < 100"
proof -
  let ?P = MotorParameters_defaults
  from ref_run[of no_attributes] obtain s where
    s: "run_stages pipeline ?P no_attributes [] = (Inr s, [1, 2, 3, 4, 5, 6, 7, 8, 9, 10, 11])"
    and r: "reference_geometry s" and e: "eff ?P * 100 < eta_actual s" "eta_actual s < 100"
    by blast
  obtain Kg where Kg: "calculate_gap_factor ?P s = Inr Kg" using ref_gap_factor[OF r] by blast
  obtain res where res: "save_complete_results ?P s = Inr res"
    unfolding save_complete_results_def by (simp add: Kg ebind_def)
  have i: "25.65 < IN s" "IN s < 25.66" using ref_IN(2,3) by (simp_all only: ref_fields(1)[OF r])
  have "calculate_all (MotorCalculationEngine ?P)
      = (True, Completed, [1, 2, 3, 4, 5, 6, 7, 8, 9, 10, 11],
         \<lparr>params = ?P, attrs = s, results = res\<rparr>)"
    unfolding calculate_all_def by (simp add: MotorCalculationEngine_def s res)
  with res i e show ?thesis by blast
qed

lemma save_complete_results_nonempty:
  assumes "save_complete_results prm s = Inr r"
  shows "r \<noteq> []"
  using assms unfolding save_complete_results_def
  by (elim ebind_Inr_E) auto

section \<open>Each stage reads only what earlier stages of the same run wrote\<close>

lemma same_attributesD:
  assumes "same_attributes n sa sb" and "1 \<le> k" and "k \<le> n"
  shows "stage_attributes k sa = stage_attributes k sb"
  using assms unfolding same_attributes_def by blast

lemma same_attributesI:
  assumes "\<And>k. 1 \<le> k \<Longrightarrow> k \<le> n \<Longrightarrow> stage_attributes k sa = stage_attributes k sb"
  shows "same_attributes n sa sb"
  using assms unfolding same_attributes_def by blast

lemma map_sum_ebind: "map_sum id h (ebind u c) = ebind u (\<lambda>v. map_sum id h (c v))"
  by (cases u) (simp_all add: ebind_def)

lemma same_fields_1:
  assumes "same_attributes n sa sb" and "1 \<le> n"
  shows
    "OMGs sa = OMGs sb" "nN sa = nN sb" "IN sa = IN sb" "TN sa = TN sb" "TAO sa = TAO sb"
  using same_attributesD[OF assms(1) _ assms(2)] by (simp_all add: stage_attributes_def)

lemma same_fields_2:
  assumes "same_attributes n sa sb" and "2 \<le> n"
  shows
    "N sa = N sb" "Kp1 sa = Kp1 sb" "Kd1 sa = Kd1 sb" "Ksk1 sa = Ksk1 sb" "Kdp sa = Kdp sb"
  using same_attributesD[OF assms(1) _ assms(2)] by (simp_all add: stage_attributes_def)

lemma same_fields_3:
  assumes "same_attributes n sa sb" and "3 \<le> n"
  shows
    "t1 sa = t1 sb" "D2 sa = D2 sb" "t2 sa = t2 sb" "hs1 sa = hs1 sb" "bt1 sa = bt1 sb"
    "hj1 sa = hj1 sb" "ht1 sa = ht1 sb" "Lj1 sa = Lj1 sb" "hr1 sa = hr1 sb"
    "hr2 sa = hr2 sb" "hr sa = hr sb" "AB sa = AB sb" "hj2 sa = hj2 sb" "bt2 sa = bt2 sb"
    "DR sa = DR sb" "Lj2 sa = Lj2 sb" "Vt1 sa = Vt1 sb" "Vj1 sa = Vj1 sb"
  using same_attributesD[OF assms(1) _ assms(2)] by (simp_all add: stage_attributes_def)

lemma same_fields_4:
  assumes "same_attributes n sa sb" and "4 \<le> n"
  shows
    "Br sa = Br sb" "Hc sa = Hc sb" "MUr sa = MUr sb" "Am sa = Am sb" "Vm sa = Vm sb"
    "mm sa = mm sb" "FF sa = FF sb" "FAIM sa = FAIM sb"
  using same_attributesD[OF assms(1) _ assms(2)] by (simp_all add: stage_attributes_def)

lemma same_fields_5:
  assumes "same_attributes n sa sb" and "5 \<le> n"
  shows
    "Bg sa = Bg sb" "Bts sa = Bts sb" "Bj1 sa = Bj1 sb" "Btr sa = Btr sb" "Bj2 sa = Bj2 sb"
    "bm0 sa = bm0 sb" "LUMDAn sa = LUMDAn sb" "LUMDAs sa = LUMDAs sb" "FI0 sa = FI0 sb"
    "Bg1 sa = Bg1 sb" "E0 sa = E0 sb" "Kst sa = Kst sb"
  using same_attributesD[OF assms(1) _ assms(2)] by (simp_all add: stage_attributes_def)

lemma same_fields_6:
  assumes "same_attributes n sa sb" and "6 \<le> n"
  shows
    "fd sa = fd sb" "Ls sa = Ls sb" "Rs sa = Rs sb" "X1 sa = X1 sb" "R2 sa = R2 sb"
    "X2 sa = X2 sb"
  using same_attributesD[OF assms(1) _ assms(2)] by (simp_all add: stage_attributes_def)

lemma same_fields_7:
  assumes "same_attributes n sa sb" and "7 \<le> n"
  shows
    "Xad sa = Xad sb" "Xd sa = Xd sb" "Xaq sa = Xaq sb" "Xq sa = Xq sb" "Kad sa = Kad sb"
    "Kaq sa = Kaq sb" "bmN sa = bmN sb"
  using same_attributesD[OF assms(1) _ assms(2)] by (simp_all add: stage_attributes_def)

lemma same_fields_8:
  assumes "same_attributes n sa sb" and "8 \<le> n"
  shows
    "mCu sa = mCu sb" "mFe sa = mFe sb" "mAl sa = mAl sb"
  using same_attributesD[OF assms(1) _ assms(2)] by (simp_all add: stage_attributes_def)

lemma same_fields_9:
  assumes "same_attributes n sa sb" and "9 \<le> n"
  shows
    "pCu sa = pCu sb" "pFe sa = pFe sb" "pfw sa = pfw sb" "ps sa = ps sb"
    "pSum sa = pSum sb"
  using same_attributesD[OF assms(1) _ assms(2)] by (simp_all add: stage_attributes_def)

lemma same_fields_10:
  assumes "same_attributes n sa sb" and "10 \<le> n"
  shows
    "Ist_calc sa = Ist_calc sb" "Ist_ratio sa = Ist_ratio sb" "Tst_calc sa = Tst_calc sb"
  using same_attributesD[OF assms(1) _ assms(2)] by (simp_all add: stage_attributes_def)

lemma same_fields_11:
  assumes "same_attributes n sa sb" and "11 \<le> n"
  shows
    "eta_actual sa = eta_actual sb" "cosfi_actual sa = cosfi_actual sb"
    "theta_actual sa = theta_actual sb" "phi_actual sa = phi_actual sb"
    "Sf_actual sa = Sf_actual sb" "A1_actual sa = A1_actual sb"
    "J1_actual sa = J1_actual sb" "A1J1_actual sa = A1J1_actual sb"
    "bmh_actual sa = bmh_actual sb"
  using same_attributesD[OF assms(1) _ assms(2)] by (simp_all add: stage_attributes_def)

lemma reads_stage1:
  shows "map_sum id (stage_attributes 1) (calculate_basic_parameters prm sa)
           = map_sum id (stage_attributes 1) (calculate_basic_parameters prm sb)"
  unfolding calculate_basic_parameters_def Let_def
  by (simp add: map_sum_ebind stage_attributes_def)

lemma reads_stage2:
  assumes "same_attributes 1 sa sb"
  shows "map_sum id (stage_attributes 2) (calculate_winding_parameters prm sa)
           = map_sum id (stage_attributes 2) (calculate_winding_parameters prm sb)"
proof -
  note e = same_fields_1[OF assms, simplified]
  show ?thesis
    unfolding calculate_winding_parameters_def calculate_gap_factor_def Let_def e
    by (simp add: map_sum_ebind stage_attributes_def)
qed

lemma reads_stage3:
  assumes "same_attributes 2 sa sb"
  shows "map_sum id (stage_attributes 3) (calculate_geometry_parameters prm sa)
           = map_sum id (stage_attributes 3) (calculate_geometry_parameters prm sb)"
proof -
  note e = same_fields_1[OF assms, simplified] same_fields_2[OF assms, simplified]
  show ?thesis
    unfolding calculate_geometry_parameters_def calculate_gap_factor_def Let_def e
    by (simp add: map_sum_ebind stage_attributes_def)
qed

lemma reads_stage4:
  assumes "same_attributes 3 sa sb"
  shows "map_sum id (stage_attributes 4) (calculate_magnet_parameters prm sa)
           = map_sum id (stage_attributes 4) (calculate_magnet_parameters prm sb)"
proof -
  note e = same_fields_1[OF assms, simplified] same_fields_2[OF assms, simplified] same_fields_3[OF assms, simplified]
  show ?thesis
    unfolding calculate_magnet_parameters_def calculate_gap_factor_def Let_def e
    by (simp add: map_sum_ebind stage_attributes_def)
qed

lemma reads_stage6:
  assumes "same_attributes 5 sa sb"
  shows "map_sum id (stage_attributes 6) (calculate_impedances prm sa)
           = map_sum id (stage_attributes 6) (calculate_impedances prm sb)"
proof -
  note e = same_fields_1[OF assms, simplified] same_fields_2[OF assms, simplified] same_fields_3[OF assms, simplified] same_fields_4[OF assms, simplified] same_fields_5[OF assms, simplified]
  show ?thesis
    unfolding calculate_impedances_def calculate_gap_factor_def Let_def e
    by (simp add: map_sum_ebind stage_attributes_def)
qed

lemma reads_stage7:
  assumes "same_attributes 6 sa sb"
  shows "map_sum id (stage_attributes 7) (calculate_performance prm sa)
           = map_sum id (stage_attributes 7) (calculate_performance prm sb)"
proof -
  note e = same_fields_1[OF assms, simplified] same_fields_2[OF assms, simplified] same_fields_3[OF assms, simplified] same_fields_4[OF assms, simplified] same_fields_5[OF assms, simplified] same_fields_6[OF assms, simplified]
  show ?thesis
    unfolding calculate_performance_def calculate_gap_factor_def Let_def e
    by (simp add: map_sum_ebind stage_attributes_def)
qed

lemma reads_stage8:
  assumes "same_attributes 7 sa sb"
  shows "map_sum id (stage_attributes 8) (calculate_material_weights prm sa)
           = map_sum id (stage_attributes 8) (calculate_material_weights prm sb)"
proof -
  note e = same_fields_1[OF assms, simplified] same_fields_2[OF assms, simplified] same_fields_3[OF assms, simplified] same_fields_4[OF assms, simplified] same_fields_5[OF assms, simplified] same_fields_6[OF assms, simplified] same_fields_7[OF assms, simplified]
  show ?thesis
    unfolding calculate_material_weights_def calculate_gap_factor_def Let_def e
    by (simp add: map_sum_ebind stage_attributes_def)
qed

lemma reads_stage9:
  assumes "same_attributes 8 sa sb"
  shows "map_sum id (stage_attributes 9) (calculate_losses prm sa)
           = map_sum id (stage_attributes 9) (calculate_losses prm sb)"
proof -
  note e = same_fields_1[OF assms, simplified] same_fields_2[OF assms, simplified] same_fields_3[OF assms, simplified] same_fields_4[OF assms, simplified] same_fields_5[OF assms, simplified] same_fields_6[OF assms, simplified] same_fields_7[OF assms, simplified] same_fields_8[OF assms, simplified]
  show ?thesis
    unfolding calculate_losses_def calculate_gap_factor_def Let_def e
    by (simp add: map_sum_ebind stage_attributes_def)
qed

lemma reads_stage10:
  assumes "same_attributes 9 sa sb"
  shows "map_sum id (stage_attributes 10) (calculate_starting_characteristics prm sa)
           = map_sum id (stage_attributes 10) (calculate_starting_characteristics prm sb)"
proof -
  note e = same_fields_1[OF assms, simplified] same_fields_2[OF assms, simplified] same_fields_3[OF assms, simplified] same_fields_4[OF assms, simplified] same_fields_5[OF assms, simplified] same_fields_6[OF assms, simplified] same_fields_7[OF assms, simplified] same_fields_8[OF assms, simplified] same_fields_9[OF assms, simplified]
  show ?thesis
    unfolding calculate_starting_characteristics_def calculate_gap_factor_def Let_def e
    by (simp add: map_sum_ebind stage_attributes_def)
qed

lemma reads_stage11:
  assumes "same_attributes 10 sa sb"
  shows "map_sum id (stage_attributes 11) (calculate_actual_performance prm sa)
           = map_sum id (stage_attributes 11) (calculate_actual_performance prm sb)"
proof -
  note e = same_fields_1[OF assms, simplified] same_fields_2[OF assms, simplified] same_fields_3[OF assms, simplified] same_fields_4[OF assms, simplified] same_fields_5[OF assms, simplified] same_fields_6[OF assms, simplified] same_fields_7[OF assms, simplified] same_fields_8[OF assms, simplified] same_fields_9[OF assms, simplified] same_fields_10[OF assms, simplified]
  show ?thesis
    unfolding calculate_actual_performance_def calculate_gap_factor_def Let_def e
    by (simp add: map_sum_ebind stage_attributes_def)
qed

lemma ebind_proj_cong:
  assumes "map_sum id P u = map_sum id P u'"
    and "\<And>v v'. u = Inr v \<Longrightarrow> u' = Inr v' \<Longrightarrow> P v = P v' \<Longrightarrow> h v = h' v'"
  shows "ebind u h = ebind u' h'"
  using assms by (cases u; cases u') (simp_all add: ebind_def)

lemma round_fields_attributes:
  assumes "j \<le> 4"
  shows "stage_attributes j (sa\<lparr>Bg := qg, Bts := qts, Bj1 := qja, Btr := qtr, Bj2 := qjb\<rparr>)
           = stage_attributes j sa"
  using assms by (simp add: stage_attributes_def cong: if_cong)

lemma round_same_attributes:
  assumes "same_attributes 4 sa sb"
    and "magnetic_round prm sa x = Inr (sa', l)" and "magnetic_round prm sb x' = Inr (sb', l')"
  shows "same_attributes 4 sa' sb'"
proof (rule same_attributesI)
  fix k :: nat assume k: "1 \<le> k" "k \<le> 4"
  have "stage_attributes k sa' = stage_attributes k sa"
    by (subst magnetic_round_frame[OF assms(2)]) (rule round_fields_attributes[OF k(2)])
  moreover have "stage_attributes k sb' = stage_attributes k sb"
    by (subst magnetic_round_frame[OF assms(3)]) (rule round_fields_attributes[OF k(2)])
  ultimately show "stage_attributes k sa' = stage_attributes k sb'"
    using same_attributesD[OF assms(1) k] by simp
qed

lemma reads_round:
  assumes "same_attributes 4 sa sb"
  shows "map_sum id (\<lambda>(u, l). ([Bg u, Bts u, Bj1 u, Btr u, Bj2 u], l)) (magnetic_round prm sa x)
       = map_sum id (\<lambda>(u, l). ([Bg u, Bts u, Bj1 u, Btr u, Bj2 u], l)) (magnetic_round prm sb x)"
proof -
  note e = same_fields_1[OF assms, simplified] same_fields_2[OF assms, simplified]
    same_fields_3[OF assms, simplified] same_fields_4[OF assms, simplified]
  show ?thesis
    unfolding magnetic_round_def calculate_gap_factor_def Let_def
    by (simp add: map_sum_ebind e cong del: if_weak_cong)
qed

lemma reads_loop:
  assumes "same_attributes 4 sa sb" and "0 < n"
  shows "map_sum id (\<lambda>(u, l, r). ([Bg u, Bts u, Bj1 u, Btr u, Bj2 u], l, r))
           (no_load_rounds n k prm sa x l0)
       = map_sum id (\<lambda>(u, l, r). ([Bg u, Bts u, Bj1 u, Btr u, Bj2 u], l, r))
           (no_load_rounds n k prm sb x l0)"
  using assms
proof (induction n arbitrary: sa sb k x l0)
  case 0
  then show ?case by simp
next
  case (Suc n)
  note rr = reads_round[OF Suc.prems(1), of prm x]
  show ?case
  proof (cases "magnetic_round prm sa x")
    case (Inl e)
    then have "magnetic_round prm sb x = Inl e" using rr by (cases "magnetic_round prm sb x") simp_all
    with Inl show ?thesis by simp
  next
    case (Inr v)
    obtain sa' l where v: "v = (sa', l)" by (cases v)
    from Inr rr obtain v' where Inr': "magnetic_round prm sb x = Inr v'"
      by (cases "magnetic_round prm sb x") simp_all
    obtain sb' l' where v': "v' = (sb', l')" by (cases v')
    have eq: "l' = l" "Bg sa' = Bg sb'" "Bts sa' = Bts sb'" "Bj1 sa' = Bj1 sb'"
      "Btr sa' = Btr sb'" "Bj2 sa' = Bj2 sb'"
      using rr unfolding Inr Inr' v v' by simp_all
    have sm: "same_attributes 4 sa' sb'"
      using round_same_attributes[OF Suc.prems(1) Inr[unfolded v] Inr'[unfolded v']] .
    show ?thesis
    proof (cases "converged (loc_bm0 l) x")
      case True
      then show ?thesis using Inr Inr' v v' eq by simp
    next
      case False
      show ?thesis
      proof (cases n)
        case 0
        then show ?thesis using Inr Inr' v v' eq False by simp
      next
        case (Suc n')
        then have "0 < n" by simp
        from Suc.IH[OF sm this] show ?thesis using Inr Inr' v v' eq False by simp
      qed
    qed
  qed
qed

lemma same_fields_upto_4:
  assumes "same_attributes 4 sa sb"
  shows
    "OMGs sa = OMGs sb \<and> nN sa = nN sb \<and> IN sa = IN sb \<and> TN sa = TN sb \<and>
    TAO sa = TAO sb \<and> N sa = N sb \<and> Kp1 sa = Kp1 sb \<and> Kd1 sa = Kd1 sb \<and>
    Ksk1 sa = Ksk1 sb \<and> Kdp sa = Kdp sb \<and> t1 sa = t1 sb \<and>
    D2 sa = D2 sb \<and> t2 sa = t2 sb \<and> hs1 sa = hs1 sb \<and> bt1 sa = bt1 sb \<and>
    hj1 sa = hj1 sb \<and> ht1 sa = ht1 sb \<and> Lj1 sa = Lj1 sb \<and>
    hr1 sa = hr1 sb \<and> hr2 sa = hr2 sb \<and> hr sa = hr sb \<and> AB sa = AB sb \<and>
    hj2 sa = hj2 sb \<and> bt2 sa = bt2 sb \<and> DR sa = DR sb \<and>
    Lj2 sa = Lj2 sb \<and> Vt1 sa = Vt1 sb \<and> Vj1 sa = Vj1 sb \<and>
    Br sa = Br sb \<and> Hc sa = Hc sb \<and> MUr sa = MUr sb \<and> Am sa = Am sb \<and>
    Vm sa = Vm sb \<and> mm sa = mm sb \<and> FF sa = FF sb \<and> FAIM sa = FAIM sb"
  using same_fields_1[OF assms] same_fields_2[OF assms] same_fields_3[OF assms]
    same_fields_4[OF assms]
  by simp

lemma loop_same_attributes:
  assumes "same_attributes 4 sa sb"
    and "no_load_rounds n k prm sa x l0 = Inr (sa', la, ra)"
    and "no_load_rounds n' k' prm sb x' l0' = Inr (sb', lb, rb)"
  shows "same_attributes 4 sa' sb'"
proof (rule same_attributesI)
  fix j :: nat assume j: "1 \<le> j" "j \<le> 4"
  have "stage_attributes j sa' = stage_attributes j sa"
    by (subst no_load_rounds_frame[OF assms(2)]) (rule round_fields_attributes[OF j(2)])
  moreover have "stage_attributes j sb' = stage_attributes j sb"
    by (subst no_load_rounds_frame[OF assms(3)]) (rule round_fields_attributes[OF j(2)])
  ultimately show "stage_attributes j sa' = stage_attributes j sb'"
    using same_attributesD[OF assms(1) j] by simp
qed

lemma reads_stage5:
  assumes "same_attributes 4 sa sb"
  shows "map_sum id (stage_attributes 5) (calculate_no_load_magnetic_circuit prm sa)
           = map_sum id (stage_attributes 5) (calculate_no_load_magnetic_circuit prm sb)"
  unfolding calculate_no_load_magnetic_circuit_def map_sum_ebind
  apply (rule ebind_proj_cong[where P = id])
   apply (rule refl)
  apply (simp only: id_apply)
  apply hypsubst
  apply (rule ebind_proj_cong[where P = "\<lambda>(u, l, r). ([Bg u, Bts u, Bj1 u, Btr u, Bj2 u], l, r)"])
   apply (rule reads_loop[OF assms])
   apply simp
  subgoal for b b' v v'
    apply (cases v; cases v')
    apply (simp only: prod.case)
    apply (frule (1) loop_same_attributes[OF assms])
    apply (drule same_fields_upto_4)
    apply (elim conjE)
    apply (simp add: map_sum_ebind stage_attributes_def calculate_gap_factor_def Let_def
        split: option.splits cong del: if_weak_cong)
    done
  done

lemma frame_attributes_1:
  assumes "calculate_basic_parameters prm sa = Inr sa'" and "j \<noteq> 1"
  shows "stage_attributes j sa' = stage_attributes j sa"
  by (subst frame_stage1[OF assms(1)]) (use assms(2) in \<open>simp add: stage_attributes_def cong: if_cong\<close>)

lemma frame_attributes_2:
  assumes "calculate_winding_parameters prm sa = Inr sa'" and "j \<noteq> 2"
  shows "stage_attributes j sa' = stage_attributes j sa"
  by (subst frame_stage2[OF assms(1)]) (use assms(2) in \<open>simp add: stage_attributes_def cong: if_cong\<close>)

lemma frame_attributes_3:
  assumes "calculate_geometry_parameters prm sa = Inr sa'" and "j \<noteq> 3"
  shows "stage_attributes j sa' = stage_attributes j sa"
  by (subst frame_stage3[OF assms(1)]) (use assms(2) in \<open>simp add: stage_attributes_def cong: if_cong\<close>)

lemma frame_attributes_4:
  assumes "calculate_magnet_parameters prm sa = Inr sa'" and "j \<noteq> 4"
  shows "stage_attributes j sa' = stage_attributes j sa"
  by (subst frame_stage4[OF assms(1)]) (use assms(2) in \<open>simp add: stage_attributes_def cong: if_cong\<close>)

lemma frame_attributes_5:
  assumes "calculate_no_load_magnetic_circuit prm sa = Inr sa'" and "j \<noteq> 5"
  shows "stage_attributes j sa' = stage_attributes j sa"
  by (subst frame_stage5[OF assms(1)]) (use assms(2) in \<open>simp add: stage_attributes_def cong: if_cong\<close>)

lemma frame_attributes_6:
  assumes "calculate_impedances prm sa = Inr sa'" and "j \<noteq> 6"
  shows "stage_attributes j sa' = stage_attributes j sa"
  by (subst frame_stage6[OF assms(1)]) (use assms(2) in \<open>simp add: stage_attributes_def cong: if_cong\<close>)

lemma frame_attributes_7:
  assumes "calculate_performance prm sa = Inr sa'" and "j \<noteq> 7"
  shows "stage_attributes j sa' = stage_attributes j sa"
  by (subst frame_stage7[OF assms(1)]) (use assms(2) in \<open>simp add: stage_attributes_def cong: if_cong\<close>)

lemma frame_attributes_8:
  assumes "calculate_material_weights prm sa = Inr sa'" and "j \<noteq> 8"
  shows "stage_attributes j sa' = stage_attributes j sa"
  by (subst frame_stage8[OF assms(1)]) (use assms(2) in \<open>simp add: stage_attributes_def cong: if_cong\<close>)

lemma frame_attributes_9:
  assumes "calculate_losses prm sa = Inr sa'" and "j \<noteq> 9"
  shows "stage_attributes j sa' = stage_attributes j sa"
  by (subst frame_stage9[OF assms(1)]) (use assms(2) in \<open>simp add: stage_attributes_def cong: if_cong\<close>)

lemma frame_attributes_10:
  assumes "calculate_starting_characteristics prm sa = Inr sa'" and "j \<noteq> 10"
  shows "stage_attributes j sa' = stage_attributes j sa"
  by (subst frame_stage10[OF assms(1)]) (use assms(2) in \<open>simp add: stage_attributes_def cong: if_cong\<close>)

lemma frame_attributes_11:
  assumes "calculate_actual_performance prm sa = Inr sa'" and "j \<noteq> 11"
  shows "stage_attributes j sa' = stage_attributes j sa"
  by (subst frame_stage11[OF assms(1)]) (use assms(2) in \<open>simp add: stage_attributes_def cong: if_cong\<close>)

lemma stage_step:
  assumes rd: "map_sum id (stage_attributes k) (stg prm sa)
                 = map_sum id (stage_attributes k) (stg prm sb)"
    and fr: "\<And>u u' j. stg prm u = Inr u' \<Longrightarrow> j \<noteq> k \<Longrightarrow> stage_attributes j u' = stage_attributes j u"
    and ag: "same_attributes n sa sb" and k: "k = Suc n"
  shows "(\<exists>e. stg prm sa = Inl e \<and> stg prm sb = Inl e) \<or>
         (\<exists>sa' sb'. stg prm sa = Inr sa' \<and> stg prm sb = Inr sb' \<and> same_attributes (Suc n) sa' sb')"
proof (cases "stg prm sa")
  case (Inl e)
  then have "stg prm sb = Inl e" using rd by (cases "stg prm sb") simp_all
  with Inl show ?thesis by blast
next
  case (Inr sa')
  then obtain sb' where Inr': "stg prm sb = Inr sb'" using rd by (cases "stg prm sb") simp_all
  have new: "stage_attributes k sa' = stage_attributes k sb'" using rd Inr Inr' by simp
  have "same_attributes (Suc n) sa' sb'"
  proof (rule same_attributesI)
    fix j :: nat assume j: "1 \<le> j" "j \<le> Suc n"
    show "stage_attributes j sa' = stage_attributes j sb'"
    proof (cases "j = k")
      case True
      then show ?thesis using new by simp
    next
      case False
      then have "j \<le> n" using j(2) k by simp
      from same_attributesD[OF ag j(1) this] fr[OF Inr False] fr[OF Inr' False]
      show ?thesis by simp
    qed
  qed
  with Inr Inr' show ?thesis by blast
qed

lemma run_stages_same:
  assumes "\<forall>i < length sts. fst (sts ! i) = Suc (n + i)"
    and "\<forall>(k, stg) \<in> set sts.
           (\<forall>sa sb. same_attributes (k - 1) sa sb \<longrightarrow>
              map_sum id (stage_attributes k) (stg prm sa)
                = map_sum id (stage_attributes k) (stg prm sb)) \<and>
           (\<forall>u u' j. stg prm u = Inr u' \<longrightarrow> j \<noteq> k \<longrightarrow>
              stage_attributes j u' = stage_attributes j u)"
    and "same_attributes n sa sb"
  shows "(\<exists>e lg'. run_stages sts prm sa lg = (Inl e, lg') \<and> run_stages sts prm sb lg = (Inl e, lg')) \<or>
         (\<exists>sa' sb' lg'. run_stages sts prm sa lg = (Inr sa', lg') \<and>
            run_stages sts prm sb lg = (Inr sb', lg') \<and>
            same_attributes (n + length sts) sa' sb')"
  using assms
proof (induction sts arbitrary: n sa sb lg)
  case Nil
  then show ?case by simp
next
  case (Cons st sts)
  obtain k stg where st: "st = (k, stg)" by (cases st)
  have "fst ((st # sts) ! 0) = Suc (n + 0)" using Cons.prems(1) by blast
  then have k: "k = Suc n" unfolding st by simp
  have rest: "\<forall>i < length sts. fst (sts ! i) = Suc (Suc n + i)"
  proof (intro allI impI)
    fix i assume "i < length sts"
    then have "Suc i < length (st # sts)" by simp
    with Cons.prems(1) have "fst ((st # sts) ! Suc i) = Suc (n + Suc i)" by blast
    then show "fst (sts ! i) = Suc (Suc n + i)" by simp
  qed
  have loc: "\<forall>(k, stg) \<in> set sts.
           (\<forall>sa sb. same_attributes (k - 1) sa sb \<longrightarrow>
              map_sum id (stage_attributes k) (stg prm sa)
                = map_sum id (stage_attributes k) (stg prm sb)) \<and>
           (\<forall>u u' j. stg prm u = Inr u' \<longrightarrow> j \<noteq> k \<longrightarrow>
              stage_attributes j u' = stage_attributes j u)"
    using Cons.prems(2) set_subset_Cons[of sts st] by blast
  have mem: "(k, stg) \<in> set (st # sts)" unfolding st by simp
  note h = bspec[OF Cons.prems(2) mem, unfolded prod.case]
  have ag: "same_attributes (k - 1) sa sb" using Cons.prems(3) k by simp
  have rd: "map_sum id (stage_attributes k) (stg prm sa)
                 = map_sum id (stage_attributes k) (stg prm sb)"
    using h[THEN conjunct1, rule_format, OF ag] .
  have fr: "\<And>u u' j. stg prm u = Inr u' \<Longrightarrow> j \<noteq> k \<Longrightarrow>
      stage_attributes j u' = stage_attributes j u"
    using h[THEN conjunct2, rule_format] .
  from stage_step[where stg = stg and prm = prm, OF rd fr Cons.prems(3) k]
  show ?case
  proof
    assume "\<exists>e. stg prm sa = Inl e \<and> stg prm sb = Inl e"
    then show ?thesis unfolding st by auto
  next
    assume "\<exists>sa' sb'. stg prm sa = Inr sa' \<and> stg prm sb = Inr sb' \<and>
      same_attributes (Suc n) sa' sb'"
    then obtain sa' sb' where s: "stg prm sa = Inr sa'" "stg prm sb = Inr sb'"
      "same_attributes (Suc n) sa' sb'" by blast
    from Cons.IH[OF rest loc s(3), of "lg @ [k]"] show ?thesis
      unfolding st using s(1,2) by simp
  qed
qed

lemma same_attributes_all:
  assumes "same_attributes 11 sa sb"
  shows "sa = sb"
proof -
  note e = same_fields_1[OF assms, simplified]
    same_fields_2[OF assms, simplified]
    same_fields_3[OF assms, simplified]
    same_fields_4[OF assms, simplified]
    same_fields_5[OF assms, simplified]
    same_fields_6[OF assms, simplified]
    same_fields_7[OF assms, simplified]
    same_fields_8[OF assms, simplified]
    same_fields_9[OF assms, simplified]
    same_fields_10[OF assms, simplified]
    same_fields_11[OF assms, simplified]
  show ?thesis by (rule derived.equality; (fact e | simp))
qed

lemma pipeline_local:
  "\<forall>(k, stg) \<in> set pipeline.
           (\<forall>sa sb. same_attributes (k - 1) sa sb \<longrightarrow>
              map_sum id (stage_attributes k) (stg prm sa)
                = map_sum id (stage_attributes k) (stg prm sb)) \<and>
           (\<forall>u u' j. stg prm u = Inr u' \<longrightarrow> j \<noteq> k \<longrightarrow>
              stage_attributes j u' = stage_attributes j u)"
  unfolding pipeline_def
  using reads_stage1 reads_stage2 reads_stage3 reads_stage4 reads_stage5 reads_stage6
    reads_stage7 reads_stage8 reads_stage9 reads_stage10 reads_stage11
    frame_attributes_1 frame_attributes_2 frame_attributes_3 frame_attributes_4
    frame_attributes_5 frame_attributes_6 frame_attributes_7 frame_attributes_8
    frame_attributes_9 frame_attributes_10 frame_attributes_11
  by simp

lemma run_stages_initial_attributes:
  "run_stages pipeline prm sa [] = run_stages pipeline prm sb []"
proof -
  have u: "[1, 2, 3, 4, 5, 6, 7, 8, 9, 10, 11 :: nat] = [Suc 0 ..< 12]"
    by (simp add: upt_rec)
  have m: "\<forall>i < length pipeline. fst (pipeline ! i) = Suc (0 + i)"
  proof (intro allI impI)
    fix i assume i: "i < length pipeline"
    then have "fst (pipeline ! i) = map fst pipeline ! i" by simp
    also have "\<dots> = [Suc 0 ..< 12] ! i" unfolding pipeline_numbers u ..
    also have "\<dots> = Suc (0 + i)" using i by (simp add: pipeline_def)
    finally show "fst (pipeline ! i) = Suc (0 + i)" .
  qed
  have z: "same_attributes 0 sa sb" by (simp add: same_attributes_def)
  have len: "0 + length pipeline = 11" by (simp add: pipeline_def)
  from run_stages_same[OF m pipeline_local z, of prm "[]"]
  show ?thesis unfolding len using same_attributes_all by auto
qed

lemma calculate_all_initial_attributes:
  "calculate_all (e\<lparr>attrs := sa, results := r\<rparr>)
     = (case calculate_all e of
          (ok, msg, lg, e') \<Rightarrow> (ok, msg, lg, if ok then e' else e\<lparr>attrs := sa, results := r\<rparr>))"
proof -
  have run: "run_stages pipeline (params e) sa [] = run_stages pipeline (params e) (attrs e) []"
    by (rule run_stages_initial_attributes)
  obtain res lg where rl: "run_stages pipeline (params e) (attrs e) [] = (res, lg)"
    by (cases "run_stages pipeline (params e) (attrs e) []")
  show ?thesis
    unfolding calculate_all_def
    by (simp add: run rl split: sum.splits)
qed

section \<open>An undefined steel grade\<close>

text \<open>
  C3, as stated, fails: for the default parameters with the undefined steel grade 6 the run
  is rejected, but not before stage 1. Stages 1 to 4 are announced and return, and the
  exception, the KeyError of the first field-strength lookup, is raised in stage 5.
\<close>

theorem undefined_steel_grade_reaches_stage_5:
  "calculate_all (MotorCalculationEngine (MotorParameters_defaults\<lparr>steel_type := 6\<rparr>))
     = (False, CalculationError (KeyError 6), [1, 2, 3, 4, 5],
        MotorCalculationEngine (MotorParameters_defaults\<lparr>steel_type := 6\<rparr>))"
proof -
  let ?P = "MotorParameters_defaults\<lparr>steel_type := 6\<rparr>"
  obtain s4 where s4: "run_stages (take 4 pipeline) ?P no_attributes [] = (Inr s4, [1, 2, 3, 4])"
    "reference_geometry s4"
    using ref_stages_1_4 by blast
  have hd: "H_data 6 = None" by (simp add: H_data_def)
  have "pydiv (0.95 * SIGMA0 ?P * hM ?P) (SIGMA0 ?P * hM ?P + g ?P)
          = Inr (0.95 * 1.28 * 5.3 / (1.28 * 5.3 + 0.65))"
    by (simp add: pydiv_def MotorParameters_defaults_def)
  moreover have "no_load_rounds 30 0 ?P s4 (0.95 * 1.28 * 5.3 / (1.28 * 5.3 + 0.65)) None
      = Inl (KeyError 6)"
    using no_load_rounds_first_error[OF _ ref_round_invalid_steel[OF s4(2) hd], of 30] by simp
  ultimately have s5: "calculate_no_load_magnetic_circuit ?P s4 = Inl (KeyError 6)"
    by (simp add: calculate_no_load_magnetic_circuit_def ebind_def)
  have "pipeline = take 4 pipeline @ drop 4 pipeline" by simp
  then have "run_stages pipeline ?P no_attributes []
      = run_stages (drop 4 pipeline) ?P s4 [1, 2, 3, 4]"
    using run_stages_append[of "take 4 pipeline" "drop 4 pipeline" ?P no_attributes "[]"] s4(1)
    by simp
  also have "\<dots> = (Inl (KeyError 6), [1, 2, 3, 4, 5])"
    using s5 by (simp add: pipeline_def)
  finally show ?thesis
    by (simp add: calculate_all_def MotorCalculationEngine_def)
qed

text \<open>
  C3, amended. For every engine whose steel-grade selector is not one of the grades 1 to 5,
  \<open>calculate_all\<close> reports a failure with a diagnostic message and writes no results: the
  engine keeps the results it had. The run is not rejected before stage 1: it ends in one of
  the stages 1 to 5, at the latest in stage 5 with the KeyError of the first lookup, and no
  stage after stage 5 starts.
\<close>

theorem undefined_steel_grade_rejected:
  assumes "steel_type (params e) \<notin> {1, 2, 3, 4, 5}"
  shows "\<exists>err announced. calculate_all e = (False, CalculationError err, announced, e) \<and>
           (err = ZeroDivisionError \<or> err = KeyError (steel_type (params e))) \<and>
           announced \<in> {[1], [1, 2], [1, 2, 3], [1, 2, 3, 4], [1, 2, 3, 4, 5]}"
proof -
  have hd: "H_data (steel_type (params e)) = None" using assms by (rule H_data_None)
  have zd: "err = ZeroDivisionError" if "pydiv u v = Inl err" for u v err
    using that by (auto simp: pydiv_def split: if_splits)
  let ?P = "params e" and ?s = "attrs e"
  show ?thesis
  proof (cases "calculate_basic_parameters ?P ?s")
    case (Inl e1)
    then show ?thesis using stage1_error[OF Inl]
      by (simp add: calculate_all_def pipeline_def)
  next
    case (Inr s1)
    note r1 = this
    show ?thesis
    proof (cases "calculate_winding_parameters ?P s1")
      case (Inl e2)
      then show ?thesis using r1 stage2_error[OF Inl]
        by (simp add: calculate_all_def pipeline_def)
    next
      case (Inr s2)
      note r2 = this
      show ?thesis
      proof (cases "calculate_geometry_parameters ?P s2")
        case (Inl e3)
        then show ?thesis using r1 r2 stage3_error[OF Inl]
          by (simp add: calculate_all_def pipeline_def)
      next
        case (Inr s3)
        note r3 = this
        show ?thesis
        proof (cases "calculate_magnet_parameters ?P s3")
          case (Inl e4)
          then show ?thesis using r1 r2 r3 stage4_error[OF Inl]
            by (simp add: calculate_all_def pipeline_def)
        next
          case (Inr s4)
          obtain e5 where "calculate_no_load_magnetic_circuit ?P s4 = Inl e5"
            "e5 = ZeroDivisionError \<or> e5 = KeyError (steel_type ?P)"
            using stage5_invalid_steel[OF hd] by blast
          then show ?thesis using r1 r2 r3 Inr
            by (auto simp: calculate_all_def pipeline_def)
        qed
      qed
    qed
  qed
qed

text \<open>The engine for the default parameters with the undefined steel grade 0.\<close>

theorem undefined_steel_grade_rejected_witness:
  "steel_type (params (MotorCalculationEngine (MotorParameters_defaults\<lparr>steel_type := 0\<rparr>)))
      \<notin> {1, 2, 3, 4, 5} \<and>
   (\<exists>err announced.
      calculate_all (MotorCalculationEngine (MotorParameters_defaults\<lparr>steel_type := 0\<rparr>))
        = (False, CalculationError err, announced,
           MotorCalculationEngine (MotorParameters_defaults\<lparr>steel_type := 0\<rparr>)) \<and>
      results (MotorCalculationEngine (MotorParameters_defaults\<lparr>steel_type := 0\<rparr>)) = [])"
proof -
  have a: "steel_type (params (MotorCalculationEngine (MotorParameters_defaults\<lparr>steel_type := 0\<rparr>)))
      \<notin> {1, 2, 3, 4, 5}"
    by (simp add: MotorCalculationEngine_def)
  from undefined_steel_grade_rejected[OF a] show ?thesis
    using a by (auto simp: MotorCalculationEngine_def)
qed

section \<open>A stage that raises\<close>

text \<open>
  C7. If a stage of the pipeline raises an exception after the stages before it have
  returned, \<open>calculate_all\<close> returns the failure flag with the message built from that
  exception, no later stage is announced, and the engine is as it was: the results of a new
  engine stay empty. The results of an engine change only in a run that reports success,
  after all eleven stages have returned, and are then what \<open>save_complete_results\<close> builds
  from the attributes of that run.
\<close>

theorem stage_failure_aborts_run:
  "(\<forall>i s announced err.
      i < 11 \<and> run_stages (take i pipeline) (params e) (attrs e) [] = (Inr s, announced) \<and>
      snd (pipeline ! i) (params e) s = Inl err \<longrightarrow>
        calculate_all e = (False, CalculationError err, [1..<i + 2], e) \<and>
        (results e = [] \<longrightarrow> results (snd (snd (snd (calculate_all e)))) = [])) \<and>
   (\<forall>ok msg announced e'.
      calculate_all e = (ok, msg, announced, e') \<and> results e' \<noteq> results e \<longrightarrow>
        ok \<and> msg = Completed \<and> announced = [1, 2, 3, 4, 5, 6, 7, 8, 9, 10, 11] \<and>
        (\<exists>s11. run_stages pipeline (params e) (attrs e) [] = (Inr s11, announced) \<and>
               save_complete_results (params e) s11 = Inr (results e')))"
proof (intro conjI allI impI)
  fix i s announced err
  assume a: "i < 11 \<and> run_stages (take i pipeline) (params e) (attrs e) [] = (Inr s, announced) \<and>
      snd (pipeline ! i) (params e) s = Inl err"
  then have run: "run_stages pipeline (params e) (attrs e) [] = (Inl err, [1..<i + 2])"
    using stage_failure_run by blast
  then show "calculate_all e = (False, CalculationError err, [1..<i + 2], e)"
    by (simp add: calculate_all_def)
  then show "results e = [] \<Longrightarrow> results (snd (snd (snd (calculate_all e)))) = []"
    by simp
next
  fix ok msg announced e'
  assume a: "calculate_all e = (ok, msg, announced, e') \<and> results e' \<noteq> results e"
  obtain res lg where run: "run_stages pipeline (params e) (attrs e) [] = (res, lg)"
    by (cases "run_stages pipeline (params e) (attrs e) []")
  show "ok" "msg = Completed" "announced = [1, 2, 3, 4, 5, 6, 7, 8, 9, 10, 11]"
    "\<exists>s11. run_stages pipeline (params e) (attrs e) [] = (Inr s11, announced) \<and>
               save_complete_results (params e) s11 = Inr (results e')"
    using a run run_stages_all_log[of "params e" "attrs e"]
    by (auto simp: calculate_all_def split: sum.splits)
qed

text \<open>
  A new engine for the default parameters with zero pole pairs: stage 1 raises. A new
  engine for the default parameters: the run succeeds and stores a result bundle.
\<close>

theorem stage_failure_aborts_run_witness:
  "((0::nat) < 11 \<and>
    run_stages (take 0 pipeline)
      (params (MotorCalculationEngine (MotorParameters_defaults\<lparr>p := 0\<rparr>)))
      (attrs (MotorCalculationEngine (MotorParameters_defaults\<lparr>p := 0\<rparr>))) []
     = (Inr no_attributes, []) \<and>
    snd (pipeline ! 0) (params (MotorCalculationEngine (MotorParameters_defaults\<lparr>p := 0\<rparr>)))
      no_attributes = Inl ZeroDivisionError \<and>
    calculate_all (MotorCalculationEngine (MotorParameters_defaults\<lparr>p := 0\<rparr>))
     = (False, CalculationError ZeroDivisionError, [1],
        MotorCalculationEngine (MotorParameters_defaults\<lparr>p := 0\<rparr>)) \<and>
    results (MotorCalculationEngine (MotorParameters_defaults\<lparr>p := 0\<rparr>)) = []) \<and>
   (\<exists>e' s11.
      calculate_all (MotorCalculationEngine MotorParameters_defaults)
        = (True, Completed, [1, 2, 3, 4, 5, 6, 7, 8, 9, 10, 11], e') \<and>
      results e' \<noteq> results (MotorCalculationEngine MotorParameters_defaults) \<and>
      run_stages pipeline (params (MotorCalculationEngine MotorParameters_defaults))
        (attrs (MotorCalculationEngine MotorParameters_defaults)) []
        = (Inr s11, [1, 2, 3, 4, 5, 6, 7, 8, 9, 10, 11]) \<and>
      save_complete_results (params (MotorCalculationEngine MotorParameters_defaults)) s11
        = Inr (results e'))"
proof
  let ?E = "MotorCalculationEngine (MotorParameters_defaults\<lparr>p := 0\<rparr>)"
  have a: "run_stages (take 0 pipeline) (params ?E) (attrs ?E) [] = (Inr no_attributes, [])"
    by (simp add: MotorCalculationEngine_def)
  have b: "snd (pipeline ! 0) (params ?E) no_attributes = Inl ZeroDivisionError"
    by (simp add: pipeline_def MotorCalculationEngine_def calculate_basic_parameters_def
        ebind_def pydiv_def MotorParameters_defaults_def)
  have c: "(0::nat) < 11" by simp
  note T = stage_failure_aborts_run[of ?E, THEN conjunct1, rule_format,
      of 0 no_attributes "[]" ZeroDivisionError, OF conjI[OF c conjI[OF a b]]]
  have "calculate_all ?E = (False, CalculationError ZeroDivisionError, [1..<0 + 2], ?E)"
    using T by blast
  then show "(0::nat) < 11 \<and>
    run_stages (take 0 pipeline) (params ?E) (attrs ?E) [] = (Inr no_attributes, []) \<and>
    snd (pipeline ! 0) (params ?E) no_attributes = Inl ZeroDivisionError \<and>
    calculate_all ?E = (False, CalculationError ZeroDivisionError, [1], ?E) \<and>
    results ?E = []"
    using a b by (simp add: MotorCalculationEngine_def)
next
  let ?D = "MotorCalculationEngine MotorParameters_defaults"
  from ref_calculate_all obtain s r where
    run: "calculate_all ?D = (True, Completed, [1, 2, 3, 4, 5, 6, 7, 8, 9, 10, 11],
              \<lparr>params = MotorParameters_defaults, attrs = s, results = r\<rparr>)"
    and sv: "save_complete_results MotorParameters_defaults s = Inr r" by blast
  let ?e' = "\<lparr>params = MotorParameters_defaults, attrs = s, results = r\<rparr>"
  have ne: "results ?e' \<noteq> results ?D"
    using save_complete_results_nonempty[OF sv] by (simp add: MotorCalculationEngine_def)
  note U = stage_failure_aborts_run[of ?D, THEN conjunct2, rule_format,
      of True Completed "[1, 2, 3, 4, 5, 6, 7, 8, 9, 10, 11]" ?e', OF conjI[OF run ne]]
  then obtain s11 where
    "run_stages pipeline (params ?D) (attrs ?D) [] = (Inr s11, [1, 2, 3, 4, 5, 6, 7, 8, 9, 10, 11])"
    "save_complete_results (params ?D) s11 = Inr (results ?e')" by blast
  with run ne show "\<exists>e' s11.
      calculate_all ?D = (True, Completed, [1, 2, 3, 4, 5, 6, 7, 8, 9, 10, 11], e') \<and>
      results e' \<noteq> results ?D \<and>
      run_stages pipeline (params ?D) (attrs ?D) [] = (Inr s11, [1, 2, 3, 4, 5, 6, 7, 8, 9, 10, 11]) \<and>
      save_complete_results (params ?D) s11 = Inr (results e')"
    by blast
qed

section \<open>Steel lookup: clamping and monotonicity\<close>

text \<open>
  C5. For each of the five steel grades the field-strength lookup \<open>get_BH_curve\<close> returns
  the first tabulated value for every flux density at or below the first sample 0.40 T, the
  last tabulated value for every flux density at or above the last sample 2.20 T, and is
  monotonically non-decreasing in the flux density over the whole axis, so in particular
  between the samples of the ascending 37-point grid. The same holds for the loss lookup
  \<open>get_iron_loss\<close> over the loss tables.
\<close>

theorem steel_lookup_clamped_monotone:
  assumes "grade \<in> {1, 2, 3, 4, 5}"
  shows "\<exists>htab ptab. H_data grade = Some htab \<and> P_data grade = Some ptab \<and>
           hd B_data = 0.40 \<and> last B_data = 2.20 \<and> length B_data = 37 \<and>
           length htab = 37 \<and> length ptab = 37 \<and>
           (\<forall>B. B \<le> 0.40 \<longrightarrow> get_BH_curve B grade = Inr (hd htab)) \<and>
           (\<forall>B. B \<ge> 2.20 \<longrightarrow> get_BH_curve B grade = Inr (last htab)) \<and>
           (\<forall>B B'. B \<le> B' \<longrightarrow> (\<exists>h h'. get_BH_curve B grade = Inr h \<and>
                get_BH_curve B' grade = Inr h' \<and> h \<le> h')) \<and>
           (\<forall>B. B \<le> 0.40 \<longrightarrow> get_iron_loss B grade = Inr (hd ptab)) \<and>
           (\<forall>B. B \<ge> 2.20 \<longrightarrow> get_iron_loss B grade = Inr (last ptab)) \<and>
           (\<forall>B B'. B \<le> B' \<longrightarrow> (\<exists>q q'. get_iron_loss B grade = Inr q \<and>
                get_iron_loss B' grade = Inr q' \<and> q \<le> q'))"
proof -
  obtain htab where htab: "H_data grade = Some htab"
    using assms by (auto simp: H_data_def)
  obtain ptab where ptab: "P_data grade = Some ptab"
    using assms by (auto simp: P_data_def)
  note H = H_data_sorted[OF htab] and P = P_data_sorted[OF ptab]
  have ne: "B_data \<noteq> []" "htab \<noteq> []" "ptab \<noteq> []" using H P by (auto simp: B_data_def)
  have hdB: "hd B_data = 0.40" and lastB: "last B_data = 2.20" and lenB: "length B_data = 37"
    by (simp_all add: B_data_def)
  have lo: "B \<le> 0.40 \<Longrightarrow> linear_interpolation B_data ys B = Inr (hd ys)" if "ys \<noteq> []" for B ys
    using that ne hdB by (simp add: linear_interpolation_def)
  have hi: "B \<ge> 2.20 \<Longrightarrow> linear_interpolation B_data ys B = Inr (last ys)"
    if "ys \<noteq> []" "sorted ys" "length ys = 37" for B ys
  proof -
    assume B: "B \<ge> 2.20"
    have eq: "hd ys = last ys" if "B \<le> 0.40" using that B by simp
    show ?thesis using that ne hdB lastB B by (simp add: linear_interpolation_def)
  qed
  have mh: "\<exists>q r. linear_interpolation B_data htab B = Inr q \<and>
                  linear_interpolation B_data htab B' = Inr r \<and> q \<le> r" if "B \<le> B'" for B B'
    using linear_interpolation_mono[OF B_data_sorted _ _ ne(1) that, of htab] H lenB by simp
  have mp: "\<exists>q r. linear_interpolation B_data ptab B = Inr q \<and>
                  linear_interpolation B_data ptab B' = Inr r \<and> q \<le> r" if "B \<le> B'" for B B'
    using linear_interpolation_mono[OF B_data_sorted _ _ ne(1) that, of ptab] P lenB by simp
  show ?thesis
    unfolding get_BH_curve_def get_iron_loss_def htab ptab
    using lo[OF ne(2)] lo[OF ne(3)] hi[OF ne(2)] hi[OF ne(3)] mh mp H P hdB lastB lenB
    by simp
qed

text \<open>The lookups of grade 5 (DW315-50) at and beyond the ends of the grid and inside it.\<close>

theorem steel_lookup_clamped_monotone_witness:
  "(5::int) \<in> {1, 2, 3, 4, 5} \<and> get_BH_curve 0.3 5 = Inr 80 \<and> get_BH_curve 2.5 5 = Inr 8100 \<and>
   get_iron_loss 0.4 5 = Inr 0.5 \<and> get_iron_loss 2.2 5 = Inr 168.5 \<and>
   (\<exists>h h'. get_BH_curve 1.02 5 = Inr h \<and> get_BH_curve 1.57 5 = Inr h' \<and> h \<le> h')"
proof -
  from steel_lookup_clamped_monotone[of 5]
  obtain htab ptab where *: "H_data 5 = Some htab" "P_data 5 = Some ptab"
    "\<forall>B. B \<le> 0.40 \<longrightarrow> get_BH_curve B 5 = Inr (hd htab)"
    "\<forall>B. B \<ge> 2.20 \<longrightarrow> get_BH_curve B 5 = Inr (last htab)"
    "\<forall>B B'. B \<le> B' \<longrightarrow> (\<exists>h h'. get_BH_curve B 5 = Inr h \<and> get_BH_curve B' 5 = Inr h' \<and> h \<le> h')"
    "\<forall>B. B \<le> 0.40 \<longrightarrow> get_iron_loss B 5 = Inr (hd ptab)"
    "\<forall>B. B \<ge> 2.20 \<longrightarrow> get_iron_loss B 5 = Inr (last ptab)"
    by auto
  have u: "get_BH_curve 0.3 5 = Inr 80" using *(1) *(3)[rule_format, of "0.3"] by (auto simp add: H_data_def) 
  have v: "get_BH_curve 2.5 5 = Inr 8100" using *(1) *(4)[rule_format, of "2.5"] by (auto simp add: H_data_def) 
  have c: "get_iron_loss 0.4 5 = Inr 0.5" using *(2) *(6)[rule_format, of "0.4"] by (auto simp add: P_data_def) 
  have d: "get_iron_loss 2.2 5 = Inr 168.5" using *(2) *(7)[rule_format, of "2.2"] by (auto simp add: P_data_def) 
  have e: "\<exists>h h'. get_BH_curve 1.02 5 = Inr h \<and> get_BH_curve 1.57 5 = Inr h' \<and> h \<le> h'"
    using *(5)[rule_format, of "1.02" "1.57"] by simp
  show ?thesis using u v c d e by simp
qed

section \<open>Slot-profile dispatch\<close>

text \<open>
  C4, as stated, fails: for the slot geometry \<open>h02 = 0.8\<close>, \<open>b02 = 2\<close>, \<open>h2 = 0.534\<close>,
  \<open>d1 = d2 = 1\<close>, \<open>h22 = 0.267\<close> the half-pear-shaped profile and the round profile
  return the same value 1.023, so the four values are not pairwise distinct for every
  geometry.
\<close>

theorem slot_leakage_tags_2_3_coincide:
  "calculate_slot_leakage 2 0.8 2 0.534 1 1 0.267 1 1 0.5 0.3 0.2 = Inr 1.023 \<and>
   calculate_slot_leakage 3 0.8 2 0.534 1 1 0.267 1 1 0.5 0.3 0.2 = Inr 1.023"
  by (simp add: calculate_slot_leakage_def pydiv_def ebind_def)

text \<open>
  C4, amended. For every profile tag outside 1 to 4 and every geometry,
  \<open>calculate_slot_leakage\<close> returns exactly \<open>h02 / b02\<close> (and raises ZeroDivisionError when
  \<open>b02\<close> is zero). For every geometry with positive \<open>b02\<close>, \<open>h2\<close>, \<open>d1\<close>, \<open>d2\<close>, \<open>h22\<close>,
  \<open>QSX\<close>, \<open>B12\<close>, \<open>KRS1\<close>, \<open>KRS2\<close>, \<open>KRS3\<close> each of the four defined tags returns a value
  strictly above \<open>h02 / b02\<close>, so that the fallback value is returned for the out-of-range
  tags and for no other tag. The four defined tags return four pairwise distinct values,
  none of which is the fallback value, on the reference geometry (the one that
  \<open>calculate_impedances\<close> passes for the default parameters) and on the reference geometry
  with equal slot widths, where \<open>B12 = 1\<close>.
\<close>

theorem slot_profile_dispatch:
  fixes CX :: int and h02 b02 h2 d1 d2 h22 QSX B12 KRS1 KRS2 KRS3 :: real
  shows "(CX \<notin> {1, 2, 3, 4} \<longrightarrow>
            calculate_slot_leakage CX h02 b02 h2 d1 d2 h22 QSX B12 KRS1 KRS2 KRS3
              = (if b02 = 0 then Inl ZeroDivisionError else Inr (h02 / b02))) \<and>
         (0 < b02 \<and> 0 < h2 \<and> 0 < d1 \<and> 0 < d2 \<and> 0 < h22 \<and> 0 < QSX \<and> 0 < B12 \<and>
          0 < KRS1 \<and> 0 < KRS2 \<and> 0 < KRS3 \<longrightarrow>
            (CX \<in> {1, 2, 3, 4} \<longrightarrow>
               (\<exists>v. calculate_slot_leakage CX h02 b02 h2 d1 d2 h22 QSX B12 KRS1 KRS2 KRS3 = Inr v \<and>
                    h02 / b02 < v)) \<and>
            ((calculate_slot_leakage CX h02 b02 h2 d1 d2 h22 QSX B12 KRS1 KRS2 KRS3
                = Inr (h02 / b02)) = (CX \<notin> {1, 2, 3, 4}))) \<and>
         (\<exists>v1 v2 v3 v4.
            calculate_slot_leakage 1 0.8 2.0 15.0 6.4 5.5 7.5 1.0 (5.5 / 6.4) 0.5 0.3 0.2 = Inr v1 \<and>
            calculate_slot_leakage 2 0.8 2.0 15.0 6.4 5.5 7.5 1.0 (5.5 / 6.4) 0.5 0.3 0.2 = Inr v2 \<and>
            calculate_slot_leakage 3 0.8 2.0 15.0 6.4 5.5 7.5 1.0 (5.5 / 6.4) 0.5 0.3 0.2 = Inr v3 \<and>
            calculate_slot_leakage 4 0.8 2.0 15.0 6.4 5.5 7.5 1.0 (5.5 / 6.4) 0.5 0.3 0.2 = Inr v4 \<and>
            distinct [v1, v2, v3, v4, 0.8 / 2.0]) \<and>
         (\<exists>v1 v2 v3 v4.
            calculate_slot_leakage 1 0.8 2.0 15.0 6.4 6.4 7.5 1.0 1.0 0.5 0.3 0.2 = Inr v1 \<and>
            calculate_slot_leakage 2 0.8 2.0 15.0 6.4 6.4 7.5 1.0 1.0 0.5 0.3 0.2 = Inr v2 \<and>
            calculate_slot_leakage 3 0.8 2.0 15.0 6.4 6.4 7.5 1.0 1.0 0.5 0.3 0.2 = Inr v3 \<and>
            calculate_slot_leakage 4 0.8 2.0 15.0 6.4 6.4 7.5 1.0 1.0 0.5 0.3 0.2 = Inr v4 \<and>
            distinct [v1, v2, v3, v4, 0.8 / 2.0])"
proof (intro conjI)
  show fb: "CX \<notin> {1, 2, 3, 4} \<longrightarrow>
            calculate_slot_leakage CX h02 b02 h2 d1 d2 h22 QSX B12 KRS1 KRS2 KRS3
              = (if b02 = 0 then Inl ZeroDivisionError else Inr (h02 / b02))"
    by (simp add: calculate_slot_leakage_def pydiv_def)
  show "0 < b02 \<and> 0 < h2 \<and> 0 < d1 \<and> 0 < d2 \<and> 0 < h22 \<and> 0 < QSX \<and> 0 < B12 \<and>
          0 < KRS1 \<and> 0 < KRS2 \<and> 0 < KRS3 \<longrightarrow>
            (CX \<in> {1, 2, 3, 4} \<longrightarrow>
               (\<exists>v. calculate_slot_leakage CX h02 b02 h2 d1 d2 h22 QSX B12 KRS1 KRS2 KRS3 = Inr v \<and>
                    h02 / b02 < v)) \<and>
            ((calculate_slot_leakage CX h02 b02 h2 d1 d2 h22 QSX B12 KRS1 KRS2 KRS3
                = Inr (h02 / b02)) = (CX \<notin> {1, 2, 3, 4}))"
  proof (intro impI)
    assume a: "0 < b02 \<and> 0 < h2 \<and> 0 < d1 \<and> 0 < d2 \<and> 0 < h22 \<and> 0 < QSX \<and> 0 < B12 \<and>
          0 < KRS1 \<and> 0 < KRS2 \<and> 0 < KRS3"
    have above: "\<exists>v. calculate_slot_leakage CX h02 b02 h2 d1 d2 h22 QSX B12 KRS1 KRS2 KRS3 = Inr v \<and>
                    h02 / b02 < v" if "CX \<in> {1, 2, 3, 4}"
    proof -
      from that consider "CX = 1" | "CX = 2" | "CX = 3" | "CX = 4" by auto
      then show ?thesis
      proof cases
        case 1
        then show ?thesis using slot_tag_1_above[of b02 QSX B12 KRS1 KRS2 KRS3] a by simp
      next
        case 2
        then show ?thesis using slot_tag_2_above[of b02 h2 d1 d2 h22] a by simp
      next
        case 3
        then show ?thesis using slot_tag_3_above[of b02] a by simp
      next
        case 4
        then show ?thesis using slot_tag_4_above[of b02 h2 d1 QSX B12 KRS1 KRS2] a by simp
      qed
    qed
    have "(calculate_slot_leakage CX h02 b02 h2 d1 d2 h22 QSX B12 KRS1 KRS2 KRS3
                = Inr (h02 / b02)) = (CX \<notin> {1, 2, 3, 4})"
    proof (cases "CX \<in> {1, 2, 3, 4}")
      case True
      from above[OF True] show ?thesis using True by auto
    next
      case False
      then show ?thesis using fb a by simp
    qed
    with above show "(CX \<in> {1, 2, 3, 4} \<longrightarrow>
               (\<exists>v. calculate_slot_leakage CX h02 b02 h2 d1 d2 h22 QSX B12 KRS1 KRS2 KRS3 = Inr v \<and>
                    h02 / b02 < v)) \<and>
            ((calculate_slot_leakage CX h02 b02 h2 d1 d2 h22 QSX B12 KRS1 KRS2 KRS3
                = Inr (h02 / b02)) = (CX \<notin> {1, 2, 3, 4}))"
      by blast
  qed
  obtain v1 where v1: "calculate_slot_leakage 1 0.8 2.0 15.0 6.4 5.5 7.5 1.0 (5.5 / 6.4) 0.5 0.3 0.2 = Inr v1"
    "0.4 < v1" "v1 < 1" using slot_ref_1 by blast
  obtain v4 where v4: "calculate_slot_leakage 4 0.8 2.0 15.0 6.4 5.5 7.5 1.0 (5.5 / 6.4) 0.5 0.3 0.2 = Inr v4"
    "3.9 < v4" using slot_ref_4 by blast
  have "distinct [v1, 15 / 6.4 + 15 / 35.7 + 0.4, 1.023, v4, 0.8 / 2.0]"
    using v1(2,3) v4(2) by simp
  then show "\<exists>v1 v2 v3 v4.
            calculate_slot_leakage 1 0.8 2.0 15.0 6.4 5.5 7.5 1.0 (5.5 / 6.4) 0.5 0.3 0.2 = Inr v1 \<and>
            calculate_slot_leakage 2 0.8 2.0 15.0 6.4 5.5 7.5 1.0 (5.5 / 6.4) 0.5 0.3 0.2 = Inr v2 \<and>
            calculate_slot_leakage 3 0.8 2.0 15.0 6.4 5.5 7.5 1.0 (5.5 / 6.4) 0.5 0.3 0.2 = Inr v3 \<and>
            calculate_slot_leakage 4 0.8 2.0 15.0 6.4 5.5 7.5 1.0 (5.5 / 6.4) 0.5 0.3 0.2 = Inr v4 \<and>
            distinct [v1, v2, v3, v4, 0.8 / 2.0]"
    using v1(1) v4(1) slot_ref_2 slot_ref_3 by blast
  obtain w1 where w1: "calculate_slot_leakage 1 0.8 2.0 15.0 6.4 6.4 7.5 1.0 1.0 0.5 0.3 0.2 = Inr w1"
    "1.3 < w1" "w1 < 1.4" using slot_eq_1 by blast
  obtain w4 where w4: "calculate_slot_leakage 4 0.8 2.0 15.0 6.4 6.4 7.5 1.0 1.0 0.5 0.3 0.2 = Inr w4"
    "3.9 < w4" using slot_eq_4 by blast
  have "distinct [w1, 15 / 6.4 + 15 / 38.4 + 0.4, 1.023, w4, 0.8 / 2.0]"
    using w1(2,3) w4(2) by simp
  then show "\<exists>v1 v2 v3 v4.
            calculate_slot_leakage 1 0.8 2.0 15.0 6.4 6.4 7.5 1.0 1.0 0.5 0.3 0.2 = Inr v1 \<and>
            calculate_slot_leakage 2 0.8 2.0 15.0 6.4 6.4 7.5 1.0 1.0 0.5 0.3 0.2 = Inr v2 \<and>
            calculate_slot_leakage 3 0.8 2.0 15.0 6.4 6.4 7.5 1.0 1.0 0.5 0.3 0.2 = Inr v3 \<and>
            calculate_slot_leakage 4 0.8 2.0 15.0 6.4 6.4 7.5 1.0 1.0 0.5 0.3 0.2 = Inr v4 \<and>
            distinct [v1, v2, v3, v4, 0.8 / 2.0]"
    using w1(1) w4(1) slot_eq_2 slot_eq_3 by blast
qed

text \<open>
  The fallback at the out-of-range tag 7 on the reference geometry, and the pear-shaped
  profile on the reference geometry with equal slot widths.
\<close>

theorem slot_profile_dispatch_witness:
  "(7::int) \<notin> {1, 2, 3, 4} \<and>
   calculate_slot_leakage 7 0.8 2.0 15.0 6.4 5.5 7.5 1.0 (5.5 / 6.4) 0.5 0.3 0.2 = Inr 0.4 \<and>
   (0::real) < 2.0 \<and> (0::real) < 15.0 \<and> (0::real) < 6.4 \<and> (0::real) < 7.5 \<and> (0::real) < 1.0 \<and>
   (0::real) < 0.5 \<and> (0::real) < 0.3 \<and> (0::real) < 0.2 \<and> (1::int) \<in> {1, 2, 3, 4} \<and>
   (\<exists>v. calculate_slot_leakage 1 0.8 2.0 15.0 6.4 6.4 7.5 1.0 1.0 0.5 0.3 0.2 = Inr v \<and>
        0.8 / 2.0 < v) \<and>
   calculate_slot_leakage 1 0.8 2.0 15.0 6.4 6.4 7.5 1.0 1.0 0.5 0.3 0.2 \<noteq> Inr (0.8 / 2.0)"
proof -
  note A = slot_profile_dispatch[of 7 "0.8" "2.0" "15.0" "6.4" "5.5" "7.5" "1.0" "5.5 / 6.4"
      "0.5" "0.3" "0.2", THEN conjunct1]
  note B = slot_profile_dispatch[of 1 "0.8" "2.0" "15.0" "6.4" "6.4" "7.5" "1.0" "1.0"
      "0.5" "0.3" "0.2", THEN conjunct2, THEN conjunct1]
  have a: "calculate_slot_leakage 7 0.8 2.0 15.0 6.4 5.5 7.5 1.0 (5.5 / 6.4) 0.5 0.3 0.2 = Inr 0.4"
    using A by simp
  have p: "(0::real) < 2.0 \<and> (0::real) < 15.0 \<and> (0::real) < 6.4 \<and> (0::real) < 6.4 \<and>
      (0::real) < 7.5 \<and> (0::real) < 1.0 \<and> (0::real) < 1.0 \<and>
      (0::real) < 0.5 \<and> (0::real) < 0.3 \<and> (0::real) < 0.2" by simp
  have m: "(1::int) \<in> {1, 2, 3, 4}" by simp
  from B[rule_format, OF p] m have
    b: "\<exists>v. calculate_slot_leakage 1 0.8 2.0 15.0 6.4 6.4 7.5 1.0 1.0 0.5 0.3 0.2 = Inr v \<and>
        0.8 / 2.0 < v"
    and c: "calculate_slot_leakage 1 0.8 2.0 15.0 6.4 6.4 7.5 1.0 1.0 0.5 0.3 0.2 \<noteq> Inr (0.8 / 2.0)"
    by blast+
  show ?thesis using a b c by simp
qed

section \<open>Stage 4: temperature correction of the magnet\<close>

text \<open>
  C8. In stage 4 a rare-earth magnet (\<open>magnet = 1\<close>) has its remanence and its coercivity
  scaled by the same factor \<open>1 - (t - 20) * 0.0012\<close>. Any other magnet, the ferrite, has its
  remanence scaled by \<open>1 - (t - 20) * 0.0019\<close> and its coercivity by
  \<open>1 + (t - 20) * 0.004\<close>: away from 20 degrees the two ferrite corrections have opposite
  signs. The coercivity is stored in A/m, the parameter \<open>Hc0\<close> is in kA/m.
\<close>

theorem magnet_temperature_correction:
  assumes "calculate_magnet_parameters prm s = Inr s'"
  shows "(magnet prm = 1 \<longrightarrow>
            Br s' = (1 - (t prm - 20) * 0.0012) * Br0 prm \<and>
            Hc s' = (1 - (t prm - 20) * 0.0012) * (Hc0 prm * 1000)) \<and>
         (magnet prm \<noteq> 1 \<longrightarrow>
            Br s' = (1 - (t prm - 20) * 0.0019) * Br0 prm \<and>
            Hc s' = (1 + (t prm - 20) * 0.004) * (Hc0 prm * 1000) \<and>
            (t prm \<noteq> 20 \<longrightarrow> (- ((t prm - 20) * 0.0019)) * ((t prm - 20) * 0.004) < 0))"
proof -
  have "(- ((t prm - 20) * 0.0019)) * ((t prm - 20) * 0.004) < 0" if "t prm \<noteq> 20"
  proof (cases "t prm > 20")
    case True
    then show ?thesis by - (rule mult_neg_pos, simp_all)
  next
    case False
    then have "t prm < 20" using that by simp
    then show ?thesis by - (rule mult_pos_neg, simp_all)
  qed
  then show ?thesis using assms
    by (auto simp: calculate_magnet_parameters_def ebind_def pydiv_def Let_def split: if_splits)
qed

text \<open>Stage 4 on the default parameters, and on the defaults with a ferrite magnet.\<close>

theorem magnet_temperature_correction_witness:
  "(\<exists>s'. calculate_magnet_parameters MotorParameters_defaults no_attributes = Inr s' \<and>
     Br s' = (1 - (75 - 20) * 0.0012) * 1.15 \<and> Hc s' = (1 - (75 - 20) * 0.0012) * (875 * 1000)) \<and>
   (\<exists>s'. calculate_magnet_parameters (MotorParameters_defaults\<lparr>magnet := 2\<rparr>) no_attributes = Inr s' \<and>
     Br s' = (1 - (75 - 20) * 0.0019) * 1.15 \<and> Hc s' = (1 + (75 - 20) * 0.004) * (875 * 1000))"
proof -
  have nz: "MUO * 875 * 1000 \<noteq> 0" using MUO_pos by simp
  obtain s1 where s1: "calculate_magnet_parameters MotorParameters_defaults no_attributes = Inr s1"
    using nz
    by (simp add: calculate_magnet_parameters_def ebind_def pydiv_def Let_def MotorParameters_defaults_def)
  obtain s2 where s2: "calculate_magnet_parameters (MotorParameters_defaults\<lparr>magnet := 2\<rparr>) no_attributes = Inr s2"
    using nz
    by (simp add: calculate_magnet_parameters_def ebind_def pydiv_def Let_def MotorParameters_defaults_def)
  from magnet_temperature_correction[OF s1] have
    "Br s1 = (1 - (75 - 20) * 0.0012) * 1.15 \<and> Hc s1 = (1 - (75 - 20) * 0.0012) * (875 * 1000)"
    by (simp add: MotorParameters_defaults_def)
  moreover from magnet_temperature_correction[OF s2] have
    "Br s2 = (1 - (75 - 20) * 0.0019) * 1.15 \<and> Hc s2 = (1 + (75 - 20) * 0.004) * (875 * 1000)"
    by (simp add: MotorParameters_defaults_def)
  ultimately show ?thesis using s1 s2 by blast
qed

section \<open>Stage 1: star and delta connection\<close>

text \<open>
  C6. Hold the rated power, the phase count, the power factor and the efficiency fixed.
  Whenever stage 1 returns for a delta connection (a \<open>wgco\<close> that the source does not treat
  as star: its upper-case form is not \<open>'Y'\<close>) at line voltage \<open>V\<close>, it returns for a star
  connection (a \<open>wgco\<close> whose upper-case form is \<open>'Y'\<close>, such as \<open>'Y'\<close> itself) at line voltage
  \<open>V * sqrt 3\<close> with the same rated current. The equality is one of real numbers.
\<close>

theorem star_delta_invariance:
  assumes "upper (wgco prm) \<noteq> ''Y''" and "upper w = ''Y''"
    and "calculate_basic_parameters (prm\<lparr>UN_rated := V\<rparr>) s = Inr sd"
  shows "\<exists>sy. calculate_basic_parameters (prm\<lparr>wgco := w, UN_rated := V * sqrt 3\<rparr>) s = Inr sy \<and>
              IN sy = IN sd"
  using assms
  by (auto simp: calculate_basic_parameters_def ebind_def pydiv_def div_by_def Let_def
      split: if_splits)

text \<open>The delta connection \<open>'J'\<close> at 220 V against the star connection at \<open>220 * sqrt 3\<close> V.\<close>

theorem star_delta_invariance_witness:
  "upper (wgco (MotorParameters_defaults\<lparr>wgco := ''J''\<rparr>)) \<noteq> ''Y'' \<and> upper ''Y'' = ''Y'' \<and>
   (\<exists>sd sy. calculate_basic_parameters (MotorParameters_defaults\<lparr>wgco := ''J'', UN_rated := 220\<rparr>)
               no_attributes = Inr sd \<and>
            calculate_basic_parameters (MotorParameters_defaults\<lparr>wgco := ''Y'', UN_rated := 220 * sqrt 3\<rparr>)
               no_attributes = Inr sy \<and> IN sy = IN sd)"
proof -
  have a: "upper (wgco (MotorParameters_defaults\<lparr>wgco := ''J''\<rparr>)) \<noteq> ''Y''"
    by (simp add: upper_Y)
  obtain sd where sd: "calculate_basic_parameters
      (MotorParameters_defaults\<lparr>wgco := ''J'', UN_rated := 220\<rparr>) no_attributes = Inr sd"
    by (simp add: calculate_basic_parameters_def ebind_def pydiv_def div_by_def Let_def
        MotorParameters_defaults_def upper_Y)
  from star_delta_invariance[of "MotorParameters_defaults\<lparr>wgco := ''J''\<rparr>" "''Y''" 220 no_attributes sd]
  show ?thesis using a sd by (simp add: upper_Y)
qed

section \<open>The iteration of stage 5\<close>

text \<open>
  C1. The stage-5 loop runs at least one and at most 30 rounds on the operating point. The
  iterates start at the initial estimate; a round that is not the last one did not meet the
  tolerance (the new value is zero or the relative change between old and new value is not
  below 0.0001) and replaces the iterate by the arithmetic mean of the old and the new
  value; a last round before the 30th met the tolerance. The loop raises only what a round
  raises, and when the loop has returned, after 30 rounds without convergence as well, the
  stage returns with the values of the last round.
\<close>

theorem no_load_iteration_rounds:
  "(\<forall>e. no_load_rounds 30 0 prm s x None = Inl e \<longrightarrow> (\<exists>xi. magnetic_round prm s xi = Inl e)) \<and>
   (\<forall>s' lst r. no_load_rounds 30 0 prm s x None = Inr (s', lst, r) \<longrightarrow>
      1 \<le> r \<and> r \<le> 30 \<and>
      (\<exists>xs ls. length xs = r \<and> length ls = r \<and> hd xs = x \<and> lst = Some (last ls) \<and>
         (\<forall>i < r. \<exists>si. magnetic_round prm s (xs ! i) = Inr (si, ls ! i) \<and>
            (Suc i < r \<longrightarrow>
               \<not> (loc_bm0 (ls ! i) \<noteq> 0 \<and>
                  \<bar>(loc_bm0 (ls ! i) - xs ! i) / loc_bm0 (ls ! i)\<bar> < 0.0001) \<and>
               xs ! Suc i = (xs ! i + loc_bm0 (ls ! i)) / 2) \<and>
            (Suc i = r \<longrightarrow> si = s' \<and>
               (r < 30 \<longrightarrow> loc_bm0 (ls ! i) \<noteq> 0 \<and>
                  \<bar>(loc_bm0 (ls ! i) - xs ! i) / loc_bm0 (ls ! i)\<bar> < 0.0001)))) \<and>
      (\<forall>l. x = 0.95 * SIGMA0 prm * hM prm / (SIGMA0 prm * hM prm + g prm) \<and>
           SIGMA0 prm * hM prm + g prm \<noteq> 0 \<and> lst = Some l \<longrightarrow>
         (\<exists>s''. calculate_no_load_magnetic_circuit prm s = Inr s'' \<and>
            bm0 s'' = loc_bm0 l \<and> LUMDAn s'' = loc_LUMDAn l \<and>
            Bts s'' = Bts s' \<and> Bj1 s'' = Bj1 s')))"
proof (intro conjI allI impI)
  fix e assume "no_load_rounds 30 0 prm s x None = Inl e"
  then show "\<exists>xi. magnetic_round prm s xi = Inl e" by (rule no_load_rounds_error)
next
  fix s' lst r assume a: "no_load_rounds 30 0 prm s x None = Inr (s', lst, r)"
  from no_load_rounds_trace[OF a] obtain xs ls where
    t: "length xs = r - 0" "length ls = r - 0" "0 < r" "r \<le> 0 + 30" "hd xs = x"
       "lst = Some (last ls)"
       "\<forall>i < r - 0. \<exists>si. magnetic_round prm s (xs ! i) = Inr (si, ls ! i) \<and>
               (Suc i < r - 0 \<longrightarrow> \<not> converged (loc_bm0 (ls ! i)) (xs ! i) \<and>
                   xs ! Suc i = (xs ! i + loc_bm0 (ls ! i)) / 2) \<and>
               (Suc i = r - 0 \<longrightarrow> si = s' \<and>
                   (r < 0 + 30 \<longrightarrow> converged (loc_bm0 (ls ! i)) (xs ! i)))"
    by auto
  show "1 \<le> r" "r \<le> 30" using t(3,4) by simp_all
  show "\<exists>xs ls. length xs = r \<and> length ls = r \<and> hd xs = x \<and> lst = Some (last ls) \<and>
         (\<forall>i < r. \<exists>si. magnetic_round prm s (xs ! i) = Inr (si, ls ! i) \<and>
            (Suc i < r \<longrightarrow>
               \<not> (loc_bm0 (ls ! i) \<noteq> 0 \<and>
                  \<bar>(loc_bm0 (ls ! i) - xs ! i) / loc_bm0 (ls ! i)\<bar> < 0.0001) \<and>
               xs ! Suc i = (xs ! i + loc_bm0 (ls ! i)) / 2) \<and>
            (Suc i = r \<longrightarrow> si = s' \<and>
               (r < 30 \<longrightarrow> loc_bm0 (ls ! i) \<noteq> 0 \<and>
                  \<bar>(loc_bm0 (ls ! i) - xs ! i) / loc_bm0 (ls ! i)\<bar> < 0.0001)))"
    using t(1,2,5,6,7) unfolding converged_def
    by (intro exI[of _ xs] exI[of _ ls]) simp
  fix l
  assume b: "x = 0.95 * SIGMA0 prm * hM prm / (SIGMA0 prm * hM prm + g prm) \<and>
           SIGMA0 prm * hM prm + g prm \<noteq> 0 \<and> lst = Some l"
  have pd: "pydiv (0.95 * SIGMA0 prm * hM prm) (SIGMA0 prm * hM prm + g prm) = Inr x"
    using b by (simp add: pydiv_def)
  have "r - 1 < r - 0" "Suc (r - 1) = r - 0" using t(3) by simp_all
  with t(7) obtain si where "magnetic_round prm s (xs ! (r - 1)) = Inr (si, ls ! (r - 1))"
    "si = s'" by blast
  then obtain Kg where "calculate_gap_factor prm s' = Inr Kg"
    using magnetic_round_gap_factor by blast
  from stage5_after_loop[OF pd _ this, of s l r] a b
  show "\<exists>s''. calculate_no_load_magnetic_circuit prm s = Inr s'' \<and>
            bm0 s'' = loc_bm0 l \<and> LUMDAn s'' = loc_LUMDAn l \<and>
            Bts s'' = Bts s' \<and> Bj1 s'' = Bj1 s'"
    by auto
qed

theorem no_load_iteration_rounds_witness:
  "\<exists>s4 s' l r s''.
     run_stages (take 4 pipeline) MotorParameters_defaults no_attributes [] = (Inr s4, [1, 2, 3, 4]) \<and>
     no_load_rounds 30 0 MotorParameters_defaults s4 (0.95 * 1.28 * 5.3 / (1.28 * 5.3 + 0.65)) None
       = Inr (s', Some l, r) \<and>
     1 \<le> r \<and> r \<le> 30 \<and>
     calculate_no_load_magnetic_circuit MotorParameters_defaults s4 = Inr s'' \<and>
     bm0 s'' = loc_bm0 l \<and> LUMDAn s'' = loc_LUMDAn l \<and> Bts s'' = Bts s' \<and> Bj1 s'' = Bj1 s'"
proof -
  let ?P = MotorParameters_defaults
  let ?x = "0.95 * 1.28 * 5.3 / (1.28 * 5.3 + 0.65) :: real"
  from ref_state[of no_attributes] obtain s4 where
    s4: "run_stages (take 4 pipeline) ?P no_attributes [] = (Inr s4, [1, 2, 3, 4])"
        "reference_geometry s4" by blast
  from ref_loop[OF s4(2)] obtain s' l r where
    lp: "no_load_rounds 30 0 ?P s4 ?x None = Inr (s', Some l, r)" by blast
  have x: "?x = 0.95 * SIGMA0 ?P * hM ?P / (SIGMA0 ?P * hM ?P + g ?P)"
    using defaults_estimate(1) by simp
  from no_load_iteration_rounds[of ?P s4 ?x] lp
  have a: "1 \<le> r" "r \<le> 30"
    and b: "\<forall>l'. ?x = 0.95 * SIGMA0 ?P * hM ?P / (SIGMA0 ?P * hM ?P + g ?P) \<and>
           SIGMA0 ?P * hM ?P + g ?P \<noteq> 0 \<and> Some l = Some l' \<longrightarrow>
         (\<exists>s''. calculate_no_load_magnetic_circuit ?P s4 = Inr s'' \<and>
            bm0 s'' = loc_bm0 l' \<and> LUMDAn s'' = loc_LUMDAn l' \<and>
            Bts s'' = Bts s' \<and> Bj1 s'' = Bj1 s')"
    by blast+
  from b x defaults_estimate(2) obtain s'' where
    "calculate_no_load_magnetic_circuit ?P s4 = Inr s''"
    "bm0 s'' = loc_bm0 l" "LUMDAn s'' = loc_LUMDAn l" "Bts s'' = Bts s'" "Bj1 s'' = Bj1 s'"
    by blast
  with s4 lp a show ?thesis by blast
qed

section \<open>The operating point stays in the unit interval\<close>

text \<open>
  C10. For positive magnet thickness, airgap and leakage factor the initial estimate of
  the operating point lies strictly between 0 and 1. When the stage-5 loop returns, every
  round computes its new value as LUMDAn / (LUMDAn + 1), which lies strictly between 0
  and 1 when the permeance LUMDAn of the round is positive, and the next iterate is the
  mean of the old iterate and the new value. Hence, when the permeance of every round is
  positive, every iterate and every new value of the loop lies strictly between 0 and 1.
\<close>

theorem operating_point_in_unit_interval:
  assumes "0 < hM prm" and "0 < g prm" and "0 < SIGMA0 prm"
    and "no_load_rounds 30 0 prm s
           (0.95 * SIGMA0 prm * hM prm / (SIGMA0 prm * hM prm + g prm)) None = Inr (s', lst, r)"
  shows "\<exists>b xs ls.
           pydiv (0.95 * SIGMA0 prm * hM prm) (SIGMA0 prm * hM prm + g prm) = Inr b \<and>
           0 < b \<and> b < 1 \<and>
           length xs = r \<and> length ls = r \<and> hd xs = b \<and> lst = Some (last ls) \<and>
           (\<forall>i < r. (\<exists>si. magnetic_round prm s (xs ! i) = Inr (si, ls ! i)) \<and>
              loc_bm0 (ls ! i) = loc_LUMDAn (ls ! i) / (loc_LUMDAn (ls ! i) + 1) \<and>
              (0 < loc_LUMDAn (ls ! i) \<longrightarrow> 0 < loc_bm0 (ls ! i) \<and> loc_bm0 (ls ! i) < 1) \<and>
              (Suc i < r \<longrightarrow> xs ! Suc i = (xs ! i + loc_bm0 (ls ! i)) / 2 \<and>
                 (0 < xs ! i \<and> xs ! i < 1 \<and> 0 < loc_bm0 (ls ! i) \<and> loc_bm0 (ls ! i) < 1 \<longrightarrow>
                    0 < xs ! Suc i \<and> xs ! Suc i < 1))) \<and>
           ((\<forall>i < r. 0 < loc_LUMDAn (ls ! i)) \<longrightarrow>
              (\<forall>i < r. 0 < xs ! i \<and> xs ! i < 1 \<and> 0 < loc_bm0 (ls ! i) \<and> loc_bm0 (ls ! i) < 1))"
proof -
  define b where "b = 0.95 * SIGMA0 prm * hM prm / (SIGMA0 prm * hM prm + g prm)"
  have bu: "0 < b" "b < 1" unfolding b_def using estimate_unit[OF assms(1,2,3)] by simp_all
  have "0 < SIGMA0 prm * hM prm" using assms(1,3) by simp
  then have "0 < SIGMA0 prm * hM prm + g prm" using assms(2) by (rule add_pos_pos)
  then have pd: "pydiv (0.95 * SIGMA0 prm * hM prm) (SIGMA0 prm * hM prm + g prm) = Inr b"
    unfolding b_def by (simp add: pydiv_def)
  have lp: "no_load_rounds 30 0 prm s b None = Inr (s', lst, r)"
    using assms(4) unfolding b_def .
  from no_load_rounds_trace[OF lp] obtain xs ls where
    t: "length xs = r - 0" "length ls = r - 0" "0 < r" "hd xs = b" "lst = Some (last ls)" and
    tr: "\<forall>i < r - 0. \<exists>si. magnetic_round prm s (xs ! i) = Inr (si, ls ! i) \<and>
               (Suc i < r - 0 \<longrightarrow> \<not> converged (loc_bm0 (ls ! i)) (xs ! i) \<and>
                   xs ! Suc i = (xs ! i + loc_bm0 (ls ! i)) / 2) \<and>
               (Suc i = r - 0 \<longrightarrow> si = s' \<and>
                   (r < 0 + 30 \<longrightarrow> converged (loc_bm0 (ls ! i)) (xs ! i)))"
    by auto
  have rd: "\<exists>si. magnetic_round prm s (xs ! i) = Inr (si, ls ! i)" if "i < r" for i
    using tr that by auto
  have bm: "loc_bm0 (ls ! i) = loc_LUMDAn (ls ! i) / (loc_LUMDAn (ls ! i) + 1)" if "i < r" for i
    using rd[OF that] magnetic_round_bm0 by blast
  have pos: "0 < loc_bm0 (ls ! i) \<and> loc_bm0 (ls ! i) < 1"
    if "i < r" "0 < loc_LUMDAn (ls ! i)" for i
    using bm[OF that(1)] permeance_unit[OF that(2)] by simp
  have st: "xs ! Suc i = (xs ! i + loc_bm0 (ls ! i)) / 2" if "Suc i < r" for i
  proof -
    have "i < r - 0" "Suc i < r - 0" using that by simp_all
    with tr show ?thesis by blast
  qed
  have mn: "0 < xs ! Suc i \<and> xs ! Suc i < 1"
    if "Suc i < r" "0 < xs ! i \<and> xs ! i < 1 \<and> 0 < loc_bm0 (ls ! i) \<and> loc_bm0 (ls ! i) < 1" for i
    using st[OF that(1)] that(2) by simp
  have x0: "xs ! 0 = b" using t(1,3,4) by (cases xs) simp_all
  have all: "\<forall>i < r. 0 < xs ! i \<and> xs ! i < 1 \<and> 0 < loc_bm0 (ls ! i) \<and> loc_bm0 (ls ! i) < 1"
    if a: "\<forall>i < r. 0 < loc_LUMDAn (ls ! i)"
  proof (intro allI impI)
    fix i assume i: "i < r"
    have b1: "\<forall>j < r. 0 < loc_bm0 (ls ! j) \<and> loc_bm0 (ls ! j) < 1" using pos a by blast
    have b2: "\<forall>j. Suc j < r \<longrightarrow> xs ! Suc j = (xs ! j + loc_bm0 (ls ! j)) / 2" using st by blast
    have "0 < xs ! 0" "xs ! 0 < 1" using x0 bu by simp_all
    from trace_unit[OF this b1 b2 i] b1 i
    show "0 < xs ! i \<and> xs ! i < 1 \<and> 0 < loc_bm0 (ls ! i) \<and> loc_bm0 (ls ! i) < 1" by blast
  qed
  show ?thesis
    apply (rule exI[of _ b], rule exI[of _ xs], rule exI[of _ ls])
    apply (intro conjI allI impI)
    using pd bu t rd bm pos st mn all by simp_all
qed

theorem operating_point_in_unit_interval_witness:
  "0 < hM MotorParameters_defaults \<and> 0 < g MotorParameters_defaults \<and>
   0 < SIGMA0 MotorParameters_defaults \<and>
   (\<exists>s4 s' l r b.
      run_stages (take 4 pipeline) MotorParameters_defaults no_attributes [] = (Inr s4, [1, 2, 3, 4]) \<and>
      no_load_rounds 30 0 MotorParameters_defaults s4
        (0.95 * SIGMA0 MotorParameters_defaults * hM MotorParameters_defaults /
           (SIGMA0 MotorParameters_defaults * hM MotorParameters_defaults + g MotorParameters_defaults))
        None = Inr (s', Some l, r) \<and>
      pydiv (0.95 * SIGMA0 MotorParameters_defaults * hM MotorParameters_defaults)
        (SIGMA0 MotorParameters_defaults * hM MotorParameters_defaults + g MotorParameters_defaults)
        = Inr b \<and>
      0 < b \<and> b < 1 \<and> 0 < loc_LUMDAn l \<and> 0 < loc_bm0 l \<and> loc_bm0 l < 1)"
proof -
  let ?P = MotorParameters_defaults
  let ?x = "0.95 * SIGMA0 ?P * hM ?P / (SIGMA0 ?P * hM ?P + g ?P)"
  have h: "0 < hM ?P" "0 < g ?P" "0 < SIGMA0 ?P" by (simp_all add: MotorParameters_defaults_def)
  from ref_state[of no_attributes] obtain s4 where
    s4: "run_stages (take 4 pipeline) ?P no_attributes [] = (Inr s4, [1, 2, 3, 4])"
        "reference_geometry s4" by blast
  from ref_loop[OF s4(2)] obtain s' l r where
    lp: "no_load_rounds 30 0 ?P s4 ?x None = Inr (s', Some l, r)" and r: "1 < r"
    unfolding defaults_estimate(1) by blast
  from operating_point_in_unit_interval[OF h lp] obtain b xs ls where
    b: "pydiv (0.95 * SIGMA0 ?P * hM ?P) (SIGMA0 ?P * hM ?P + g ?P) = Inr b" "0 < b" "b < 1" and
    len: "length xs = r" "length ls = r" "hd xs = b" "Some l = Some (last ls)" and
    rd: "\<forall>i < r. (\<exists>si. magnetic_round ?P s4 (xs ! i) = Inr (si, ls ! i)) \<and>
              loc_bm0 (ls ! i) = loc_LUMDAn (ls ! i) / (loc_LUMDAn (ls ! i) + 1) \<and>
              (0 < loc_LUMDAn (ls ! i) \<longrightarrow> 0 < loc_bm0 (ls ! i) \<and> loc_bm0 (ls ! i) < 1) \<and>
              (Suc i < r \<longrightarrow> xs ! Suc i = (xs ! i + loc_bm0 (ls ! i)) / 2 \<and>
                 (0 < xs ! i \<and> xs ! i < 1 \<and> 0 < loc_bm0 (ls ! i) \<and> loc_bm0 (ls ! i) < 1 \<longrightarrow>
                    0 < xs ! Suc i \<and> xs ! Suc i < 1))" and
    al: "(\<forall>i < r. 0 < loc_LUMDAn (ls ! i)) \<longrightarrow>
              (\<forall>i < r. 0 < xs ! i \<and> xs ! i < 1 \<and> 0 < loc_bm0 (ls ! i) \<and> loc_bm0 (ls ! i) < 1)"
    by blast
  have x0: "0 < xs ! 0" using len(1,3) r b(2) by (cases xs) simp_all
  have r1: "\<forall>i < r. \<exists>si. magnetic_round ?P s4 (xs ! i) = Inr (si, ls ! i)" using rd by blast
  have r2: "\<forall>i. Suc i < r \<longrightarrow> xs ! Suc i = (xs ! i + loc_bm0 (ls ! i)) / 2" using rd by auto
  have pm: "\<forall>i < r. 0 < loc_LUMDAn (ls ! i)"
    using ref_trace_permeance[OF s4(2) x0 r1 r2] by blast
  have "ls \<noteq> []" using len(2) r by auto
  then have ll: "l = ls ! (r - 1)" using len(2,4) by (simp add: last_conv_nth)
  have "r - 1 < r" using r by simp
  with pm al have "0 < loc_LUMDAn (ls ! (r - 1))" "0 < loc_bm0 (ls ! (r - 1))"
    "loc_bm0 (ls ! (r - 1)) < 1" by blast+
  with ll have "0 < loc_LUMDAn l" "0 < loc_bm0 l" "loc_bm0 l < 1" by simp_all
  with h s4(1) lp b show ?thesis by blast
qed

section \<open>The end-to-end run on the default parameters\<close>

text \<open>
  C2, as stated, fails: for the defaults of \<open>MotorParameters\<close> the run succeeds, but the rated
  current is \<open>15000 / (sqrt 3 * 380 * 0.935 * 0.95)\<close>, about 25.66 A, which is below 26 A.
\<close>

theorem reference_rated_current_below_26:
  "fst (calculate_all (MotorCalculationEngine MotorParameters_defaults)) \<and>
   IN (attrs (snd (snd (snd (calculate_all (MotorCalculationEngine MotorParameters_defaults))))))
     < 26"
proof -
  from ref_calculate_all obtain s r where
    "calculate_all (MotorCalculationEngine MotorParameters_defaults)
           = (True, Completed, [1, 2, 3, 4, 5, 6, 7, 8, 9, 10, 11],
              \<lparr>params = MotorParameters_defaults, attrs = s, results = r\<rparr>)"
    "IN s < 25.66" by blast
  then show ?thesis by simp
qed

text \<open>
  C2, amended. For the defaults of \<open>MotorParameters\<close> (15 kW, 380 V, star connection, power
  factor 0.95, target efficiency 0.935, steel grade 5) \<open>calculate_all\<close> on a new engine
  reports success after announcing the stages 1 to 11 and stores the result bundle of
  \<open>save_complete_results\<close>; the rated current lies between 25.65 A and 25.66 A, and the
  actual efficiency (in percent) lies strictly between the target efficiency (93.5) and 100.
\<close>

theorem reference_run_succeeds:
  "\<exists>e'. calculate_all (MotorCalculationEngine MotorParameters_defaults)
           = (True, Completed, [1, 2, 3, 4, 5, 6, 7, 8, 9, 10, 11], e') \<and>
        params e' = MotorParameters_defaults \<and>
        save_complete_results MotorParameters_defaults (attrs e') = Inr (results e') \<and>
        25.65 < IN (attrs e') \<and> IN (attrs e') < 25.66 \<and>
        eff MotorParameters_defaults * 100 < eta_actual (attrs e') \<and>
        eta_actual (attrs e') < 100"
proof -
  from ref_calculate_all obtain s r where
    a: "calculate_all (MotorCalculationEngine MotorParameters_defaults)
           = (True, Completed, [1, 2, 3, 4, 5, 6, 7, 8, 9, 10, 11],
              \<lparr>params = MotorParameters_defaults, attrs = s, results = r\<rparr>)"
    and b: "save_complete_results MotorParameters_defaults s = Inr r"
      "25.65 < IN s" "IN s < 25.66"
      "eff MotorParameters_defaults * 100 < eta_actual s" "eta_actual s < 100"
    by blast
  show ?thesis
    by (rule exI[of _ "\<lparr>params = MotorParameters_defaults, attrs = s, results = r\<rparr>"])
       (use a b in simp)
qed

section \<open>Repeated runs\<close>

text \<open>
  C9. The outcome of \<open>calculate_all\<close> is a function of the parameter record alone. A run on
  an engine that holds arbitrary attributes and results, such as those left by an earlier
  run, returns the same success flag, the same message and the same stage announcements
  as the run on the engine without them, and after a successful run the engine holds the
  same attributes and the same result bundle. Running \<open>calculate_all\<close> again on the engine
  that a run leaves behind returns what the first run returned.
\<close>

theorem repeated_runs_identical:
  "calculate_all (e\<lparr>attrs := sa, results := r\<rparr>)
     = (case calculate_all e of
          (ok, msg, lg, e') \<Rightarrow> (ok, msg, lg, if ok then e' else e\<lparr>attrs := sa, results := r\<rparr>)) \<and>
   calculate_all (snd (snd (snd (calculate_all e)))) = calculate_all e"
proof
  show "calculate_all (e\<lparr>attrs := sa, results := r\<rparr>)
     = (case calculate_all e of
          (ok, msg, lg, e') \<Rightarrow> (ok, msg, lg, if ok then e' else e\<lparr>attrs := sa, results := r\<rparr>))"
    by (rule calculate_all_initial_attributes)
  obtain ok msg lg e' where c: "calculate_all e = (ok, msg, lg, e')"
    by (cases "calculate_all e") auto
  show "calculate_all (snd (snd (snd (calculate_all e)))) = calculate_all e"
  proof (cases ok)
    case False
    then have "e' = e" using c unfolding calculate_all_def
      by (auto split: sum.splits prod.splits)
    then show ?thesis using c by simp
  next
    case True
    then obtain s res where e': "e' = e\<lparr>attrs := s, results := res\<rparr>"
      using c unfolding calculate_all_def by (auto split: sum.splits prod.splits)
    show ?thesis
      using calculate_all_initial_attributes[where e = e and sa = s and r = res] c True unfolding e' by simp
  qed
qed

end
